theory Spec2Isabelle
  imports Main "HOL-Library.Word"
begin

section \<open>Bytes and text of the platform\<close>

text \<open>
  A \<open>Uint8Array\<close> is a list of bytes.  A JavaScript string is modelled as a \<open>string\<close>
  whose characters are the code units 0 to 255; \<open>length\<close> and \<open>take\<close> then count
  what \<open>.length\<close> and \<open>.slice\<close> count on such text.

  The codecs of this section belong to the runtime and to the jose library
  (\<open>jose.base64url\<close>, \<open>TextEncoder\<close>, \<open>TextDecoder\<close>, \<open>JSON.stringify\<close>,
  \<open>JSON.parse\<close>), not to the repository; they are written out so that the envelope
  of \<open>services/encryption.ts\<close> can be followed down to its bytes.
\<close>

subsection \<open>base64url without padding\<close>

type_synonym byte = "8 word"

definition b64_char :: "nat \<Rightarrow> char" where
  "b64_char i =
     (if i < 26 then char_of (65 + i)
      else if i < 52 then char_of (71 + i)
      else if i < 62 then char_of (i - 4)
      else if i = 62 then CHR ''-''
      else CHR ''_'')"

definition b64_index :: "char \<Rightarrow> nat option" where
  "b64_index c =
     (let n = (of_char c :: nat) in
      if 65 \<le> n \<and> n \<le> 90 then Some (n - 65)
      else if 97 \<le> n \<and> n \<le> 122 then Some (n - 71)
      else if 48 \<le> n \<and> n \<le> 57 then Some (n + 4)
      else if n = 45 then Some 62
      else if n = 95 then Some 63
      else None)"

fun base64url_encode :: "byte list \<Rightarrow> string" where
  "base64url_encode (a # b # c # rest) =
     (let n = (unat a * 256 + unat b) * 256 + unat c
      in b64_char (n div 64 div 64 div 64) # b64_char (n div 64 div 64 mod 64) #
         b64_char (n div 64 mod 64) # b64_char (n mod 64) # base64url_encode rest)"
| "base64url_encode [a, b] =
     (let n = (unat a * 256 + unat b) * 4
      in [b64_char (n div 64 div 64), b64_char (n div 64 mod 64), b64_char (n mod 64)])"
| "base64url_encode [a] =
     (let n = unat a * 16 in [b64_char (n div 64), b64_char (n mod 64)])"
| "base64url_encode [] = []"

fun base64url_decode :: "string \<Rightarrow> byte list option" where
  "base64url_decode (w # x # y # z # rest) =
     (case (b64_index w, b64_index x, b64_index y, b64_index z) of
        (Some i, Some j, Some k, Some l) \<Rightarrow>
          (let n = ((i * 64 + j) * 64 + k) * 64 + l
           in map_option (\<lambda>bs. of_nat (n div 256 div 256) # of_nat (n div 256 mod 256) #
                                of_nat (n mod 256) # bs)
                (base64url_decode rest))
      | _ \<Rightarrow> None)"
| "base64url_decode [w, x, y] =
     (case (b64_index w, b64_index x, b64_index y) of
        (Some i, Some j, Some k) \<Rightarrow>
          (let n = ((i * 64 + j) * 64 + k) div 4
           in Some [of_nat (n div 256), of_nat (n mod 256)])
      | _ \<Rightarrow> None)"
| "base64url_decode [w, x] =
     (case (b64_index w, b64_index x) of
        (Some i, Some j) \<Rightarrow> Some [of_nat ((i * 64 + j) div 16)]
      | _ \<Rightarrow> None)"
| "base64url_decode [w] = None"
| "base64url_decode [] = Some []"

lemma b64_index_char: "i < 64 \<Longrightarrow> b64_index (b64_char i) = Some i"
  by (auto simp: b64_index_def b64_char_def Let_def)

lemma unat_byte_bound: "unat (a :: byte) < 256"
  using unsigned_less [of a, where 'a=nat] by simp

lemma sextet_bound3: "n div 64 div 64 div 64 < 64" if "n < 16777216" for n :: nat
proof -
  have "n div 64 < 262144" using that by (intro less_mult_imp_div_less) simp
  then have "n div 64 div 64 < 4096" by (intro less_mult_imp_div_less) simp
  then show ?thesis by (intro less_mult_imp_div_less) simp
qed

lemma sextet_bound2: "n div 64 div 64 < 64" if "n < 262144" for n :: nat
proof -
  have "n div 64 < 4096" using that by (intro less_mult_imp_div_less) simp
  then show ?thesis by (intro less_mult_imp_div_less) simp
qed

lemma sextet_bound1: "n div 64 < 64" if "n < 4096" for n :: nat
  using that by (intro less_mult_imp_div_less) simp

lemma triple_bound: "(unat (a::byte) * 256 + unat (b::byte)) * 256 + unat (c::byte) < 16777216"
  using unat_byte_bound [of a] unat_byte_bound [of b] unat_byte_bound [of c] by simp

lemma pair_bound: "(unat (a::byte) * 256 + unat (b::byte)) * 4 < 262144"
  using unat_byte_bound [of a] unat_byte_bound [of b] by simp

lemma single_bound: "unat (a::byte) * 16 < 4096"
  using unat_byte_bound [of a] by simp

lemma div_base: "c < k \<Longrightarrow> (m * k + c) div k = (m::nat)"
  by simp

lemma mod_base: "c < k \<Longrightarrow> (m * k + c) mod k = (c::nat)"
  by simp

lemma base64url_roundtrip: "base64url_decode (base64url_encode bs) = Some bs"
proof (induction bs rule: base64url_encode.induct)
  case (1 a b c rest)
  define n where "n = (unat a * 256 + unat b) * 256 + unat c"
  have enc: "base64url_encode (a # b # c # rest) =
      b64_char (n div 64 div 64 div 64) # b64_char (n div 64 div 64 mod 64) #
      b64_char (n div 64 mod 64) # b64_char (n mod 64) # base64url_encode rest"
    by (simp add: n_def Let_def)
  have idx: "b64_index (b64_char (n div 64 div 64 div 64)) = Some (n div 64 div 64 div 64)"
    unfolding n_def by (rule b64_index_char [OF sextet_bound3 [OF triple_bound]])
  have n: "((n div 64 div 64 div 64 * 64 + n div 64 div 64 mod 64) * 64 + n div 64 mod 64) * 64
             + n mod 64 = n"
    by (simp only: div_mult_mod_eq)
  have hi: "n div 256 = unat a * 256 + unat b"
    unfolding n_def by (rule div_base [OF unat_byte_bound])
  have lo: "n mod 256 = unat c"
    unfolding n_def by (rule mod_base [OF unat_byte_bound])
  have bytes: "n div 256 div 256 = unat a" "n div 256 mod 256 = unat b" "n mod 256 = unat c"
    by (simp_all only: hi lo div_base [OF unat_byte_bound] mod_base [OF unat_byte_bound])
  show ?case
    unfolding enc using 1
    by (simp add: Let_def b64_index_char idx n bytes)
next
  case (2 a b)
  define n where "n = (unat a * 256 + unat b) * 4"
  have enc: "base64url_encode [a, b] =
      [b64_char (n div 64 div 64), b64_char (n div 64 mod 64), b64_char (n mod 64)]"
    by (simp add: n_def Let_def)
  have idx: "b64_index (b64_char (n div 64 div 64)) = Some (n div 64 div 64)"
    unfolding n_def by (rule b64_index_char [OF sextet_bound2 [OF pair_bound]])
  have n: "(n div 64 div 64 * 64 + n div 64 mod 64) * 64 + n mod 64 = n"
    by (simp only: div_mult_mod_eq)
  have hi: "n div 4 = unat a * 256 + unat b"
    by (simp add: n_def)
  have bytes: "n div 4 div 256 = unat a" "n div 4 mod 256 = unat b"
    by (simp_all only: hi div_base [OF unat_byte_bound] mod_base [OF unat_byte_bound])
  show ?case
    unfolding enc by (simp add: Let_def b64_index_char idx n bytes)
next
  case (3 a)
  define n where "n = unat a * 16"
  have enc: "base64url_encode [a] = [b64_char (n div 64), b64_char (n mod 64)]"
    by (simp add: n_def Let_def)
  have idx: "b64_index (b64_char (n div 64)) = Some (n div 64)"
    unfolding n_def by (rule b64_index_char [OF sextet_bound1 [OF single_bound]])
  have n: "n div 64 * 64 + n mod 64 = n"
    by (simp only: div_mult_mod_eq)
  have byte: "n div 16 = unat a"
    by (simp add: n_def)
  show ?case
    unfolding enc by (simp add: Let_def b64_index_char idx n byte)
next
  case 4
  show ?case by simp
qed

subsection \<open>TextEncoder / TextDecoder\<close>

fun utf8_encode :: "string \<Rightarrow> byte list" where
  "utf8_encode [] = []"
| "utf8_encode (c # cs) =
     (if of_char c < (128::nat) then of_nat (of_char c) # utf8_encode cs
      else of_nat (192 + of_char c div 64) # of_nat (128 + of_char c mod 64) # utf8_encode cs)"

fun utf8_decode :: "byte list \<Rightarrow> string option" where
  "utf8_decode [] = Some []"
| "utf8_decode (b # bs) =
     (if unat b < 128 then map_option ((#) (char_of (unat b))) (utf8_decode bs)
      else if unat b = 194 \<or> unat b = 195 then
        (case bs of
           [] \<Rightarrow> None
         | b2 # bs' \<Rightarrow>
             if 128 \<le> unat b2 \<and> unat b2 < 192
             then map_option ((#) (char_of ((unat b - 192) * 64 + (unat b2 - 128)))) (utf8_decode bs')
             else None)
      else None)"

lemma unat_of_nat_byte: "n < 256 \<Longrightarrow> unat (of_nat n :: byte) = n"
  by (simp add: unat_of_nat)

lemma of_char_bound: "(of_char c :: nat) < 256"
  by (cases c) (simp add: of_char_def horner_sum_bit_eq_take_bit)

lemma utf8_roundtrip: "utf8_decode (utf8_encode s) = Some s"
proof (induction s)
  case Nil
  show ?case by simp
next
  case (Cons c cs)
  define n where "n = (of_char c :: nat)"
  have n: "n < 256" unfolding n_def by (rule of_char_bound)
  have c: "char_of n = c" unfolding n_def by simp
  show ?case
  proof (cases "n < 128")
    case True
    then show ?thesis using Cons c by (simp add: n_def [symmetric] unat_of_nat_byte)
  next
    case False
    define h where "h = 192 + n div 64"
    define l where "l = 128 + n mod 64"
    have enc: "utf8_encode (c # cs) = of_nat h # of_nat l # utf8_encode cs"
      using False by (simp add: n_def h_def l_def)
    have "n div 64 < 4"
      using n by (intro less_mult_imp_div_less) simp
    moreover have "128 div 64 \<le> n div 64"
      using False by (intro div_le_mono) simp
    ultimately have lead: "h = 194 \<or> h = 195"
      unfolding h_def by auto
    have l: "128 \<le> l" "l < 192"
      by (simp_all add: l_def)
    have recombine: "(h - 192) * 64 + (l - 128) = n"
      by (simp add: h_def l_def)
    have uh: "unat (of_nat h :: byte) = h"
      using lead by (intro unat_of_nat_byte) auto
    have ul: "unat (of_nat l :: byte) = l"
      using l by (intro unat_of_nat_byte) auto
    have "\<not> h < 128" using lead by auto
    then show ?thesis
      unfolding enc using Cons c lead l
      by (simp add: uh ul recombine)
  qed
qed

subsection \<open>JSON text\<close>

definition hex_digit :: "nat \<Rightarrow> char" where
  "hex_digit n = (if n < 10 then char_of (48 + n) else char_of (87 + n))"

definition hex_value :: "char \<Rightarrow> nat option" where
  "hex_value c =
     (let n = (of_char c :: nat) in
      if 48 \<le> n \<and> n \<le> 57 then Some (n - 48)
      else if 97 \<le> n \<and> n \<le> 102 then Some (n - 87)
      else if 65 \<le> n \<and> n \<le> 70 then Some (n - 55)
      else None)"

definition json_escape :: "char \<Rightarrow> string" where
  "json_escape c =
     (let n = (of_char c :: nat) in
      if n = 34 then [CHR 0x5C, CHR 0x22]
      else if n = 92 then [CHR 0x5C, CHR 0x5C]
      else if n = 8 then [CHR 0x5C, CHR ''b'']
      else if n = 9 then [CHR 0x5C, CHR ''t'']
      else if n = 10 then [CHR 0x5C, CHR ''n'']
      else if n = 12 then [CHR 0x5C, CHR ''f'']
      else if n = 13 then [CHR 0x5C, CHR ''r'']
      else if n < 32 then
        [CHR 0x5C, CHR ''u'', CHR ''0'', CHR ''0'', hex_digit (n div 16), hex_digit (n mod 16)]
      else [c])"

definition JSON_stringify_string :: "string \<Rightarrow> string" where
  "JSON_stringify_string s = CHR 0x22 # concat (map json_escape s) @ [CHR 0x22]"

definition json_unescape :: "char \<Rightarrow> char option" where
  "json_unescape e =
     (let n = (of_char e :: nat) in
      if n = 34 then Some (CHR 0x22)
      else if n = 92 then Some (CHR 0x5C)
      else if n = 47 then Some (CHR ''/'')
      else if n = 98 then Some (CHR 0x08)
      else if n = 116 then Some (CHR 0x09)
      else if n = 110 then Some (CHR 0x0A)
      else if n = 102 then Some (CHR 0x0C)
      else if n = 114 then Some (CHR 0x0D)
      else None)"

definition hex4 :: "char \<Rightarrow> char \<Rightarrow> char \<Rightarrow> char \<Rightarrow> nat option" where
  "hex4 h1 h2 h3 h4 =
     (case (hex_value h1, hex_value h2, hex_value h3, hex_value h4) of
        (Some a, Some b, Some c, Some d) \<Rightarrow> Some (((a * 16 + b) * 16 + c) * 16 + d)
      | _ \<Rightarrow> None)"

definition cons_char :: "char \<Rightarrow> (string \<times> string) option \<Rightarrow> (string \<times> string) option" where
  "cons_char d r = map_option (\<lambda>(v, rest). (d # v, rest)) r"

fun json_string_body :: "string \<Rightarrow> (string \<times> string) option" where
  "json_string_body [] = None"
| "json_string_body (c # cs) =
     (if of_char c = (34::nat) then Some ([], cs)
      else if of_char c = (92::nat) then
        (case cs of
           [] \<Rightarrow> None
         | e # cs' \<Rightarrow>
             if e = CHR ''u'' then
               (case cs' of
                  h1 # h2 # h3 # h4 # rest \<Rightarrow>
                    (case hex4 h1 h2 h3 h4 of
                       Some n \<Rightarrow> if n < 256 then cons_char (char_of n) (json_string_body rest)
                                 else None
                     | None \<Rightarrow> None)
                | _ \<Rightarrow> None)
             else
               (case json_unescape e of
                  Some d \<Rightarrow> cons_char d (json_string_body cs')
                | None \<Rightarrow> None))
      else if of_char c < (32::nat) then None
      else cons_char c (json_string_body cs))"

lemma hex_value_digit: "n < 16 \<Longrightarrow> hex_value (hex_digit n) = Some n"
  by (auto simp: hex_value_def hex_digit_def Let_def)

lemma hex4_escape:
  "n < 256 \<Longrightarrow> hex4 (CHR ''0'') (CHR ''0'') (hex_digit (n div 16)) (hex_digit (n mod 16)) = Some n"
proof -
  assume "n < 256"
  then have "n div 16 < 16" by (intro less_mult_imp_div_less) simp
  then have "hex_value (hex_digit (n div 16)) = Some (n div 16)"
    by (rule hex_value_digit)
  moreover have "hex_value (hex_digit (n mod 16)) = Some (n mod 16)"
    by (rule hex_value_digit) simp
  moreover have "hex_value (CHR ''0'') = Some 0"
    by (simp add: hex_value_def)
  ultimately show ?thesis
    by (simp add: hex4_def)
qed

lemma char_by_code: "(of_char c :: nat) = of_char d \<Longrightarrow> c = d"
  by simp

lemma json_string_body_escape:
  "json_string_body (json_escape c @ rest) = cons_char c (json_string_body rest)"
proof -
  define n where "n = (of_char c :: nat)"
  have c: "char_of n = c" unfolding n_def by simp
  have n: "n < 256" unfolding n_def by (rule of_char_bound)
  have codes: "n = 34 \<Longrightarrow> c = CHR 0x22" "n = 92 \<Longrightarrow> c = CHR 0x5C"
    "n = 8 \<Longrightarrow> c = CHR 0x08" "n = 9 \<Longrightarrow> c = CHR 0x09" "n = 10 \<Longrightarrow> c = CHR 0x0A"
    "n = 12 \<Longrightarrow> c = CHR 0x0C" "n = 13 \<Longrightarrow> c = CHR 0x0D"
    by (rule char_by_code, simp add: n_def [symmetric])+
  consider "n = 34" | "n = 92" | "n = 8" | "n = 9" | "n = 10" | "n = 12" | "n = 13"
    | "n < 32" "n \<noteq> 8" "n \<noteq> 9" "n \<noteq> 10" "n \<noteq> 12" "n \<noteq> 13"
    | "32 \<le> n" "n \<noteq> 34" "n \<noteq> 92"
    by linarith
  then show ?thesis
  proof cases
    case 8
    then have esc: "json_escape c =
        [CHR 0x5C, CHR ''u'', CHR ''0'', CHR ''0'', hex_digit (n div 16), hex_digit (n mod 16)]"
      by (simp add: json_escape_def n_def [symmetric])
    show ?thesis
      unfolding esc using hex4_escape [OF n] n c by simp
  next
    case 9
    then have esc: "json_escape c = [c]"
      by (simp add: json_escape_def n_def [symmetric])
    show ?thesis
      unfolding esc using 9 by (simp add: n_def [symmetric])
  qed (auto simp: json_escape_def json_unescape_def dest!: codes)
qed

lemma json_string_body_roundtrip:
  "json_string_body (concat (map json_escape s) @ CHR 0x22 # rest) = Some (s, rest)"
  by (induction s) (simp_all add: json_string_body_escape cons_char_def)

lemma json_string_body_shrinks:
  "json_string_body s = Some (v, rest) \<Longrightarrow> length rest < length s"
proof (induction s arbitrary: v rule: json_string_body.induct)
  case 1
  then show ?case by simp
next
  case (2 c cs)
  then show ?case
    by (fastforce simp: cons_char_def split: if_splits list.splits option.splits)
qed

text \<open>
  A flat JSON object whose members are all strings: the shape of a JWE protected
  header.  \<open>JSON_stringify_object\<close> is \<open>JSON.stringify\<close> on such an object (members in
  insertion order, no whitespace); \<open>JSON_parse_object\<close> is \<open>JSON.parse\<close> restricted to
  that shape.
\<close>

definition json_member_text :: "string \<times> string \<Rightarrow> string" where
  "json_member_text kv = JSON_stringify_string (fst kv) @ CHR '':'' # JSON_stringify_string (snd kv)"

fun json_members_text :: "(string \<times> string) list \<Rightarrow> string" where
  "json_members_text [] = []"
| "json_members_text [kv] = json_member_text kv"
| "json_members_text (kv # kvs) = json_member_text kv @ CHR '','' # json_members_text kvs"

definition JSON_stringify_object :: "(string \<times> string) list \<Rightarrow> string" where
  "JSON_stringify_object kvs = CHR ''{'' # json_members_text kvs @ [CHR ''}'']"

definition json_string :: "string \<Rightarrow> (string \<times> string) option" where
  "json_string s =
     (case s of
        [] \<Rightarrow> None
      | q # s' \<Rightarrow> if of_char q = (34::nat) then json_string_body s' else None)"

definition json_member :: "string \<Rightarrow> ((string \<times> string) \<times> string) option" where
  "json_member s =
     (case json_string s of
        None \<Rightarrow> None
      | Some (k, s1) \<Rightarrow>
          (case s1 of
             [] \<Rightarrow> None
           | d # s2 \<Rightarrow>
               if d = CHR '':'' then
                 (case json_string s2 of
                    None \<Rightarrow> None
                  | Some (v, rest) \<Rightarrow> Some ((k, v), rest))
               else None))"

lemma json_string_shrinks: "json_string s = Some (v, rest) \<Longrightarrow> length rest < length s"
  by (auto simp: json_string_def split: list.splits if_splits dest: json_string_body_shrinks)

lemma json_member_shrinks: "json_member s = Some (kv, rest) \<Longrightarrow> length rest < length s"
  by (auto simp: json_member_def split: list.splits if_splits option.splits
      dest!: json_string_shrinks)

function json_members :: "string \<Rightarrow> (string \<times> string) list option" where
  "json_members s =
     (case json_member s of
        None \<Rightarrow> None
      | Some (kv, rest) \<Rightarrow>
          (case rest of
             [] \<Rightarrow> None
           | d # rest' \<Rightarrow>
               if d = CHR '','' then map_option ((#) kv) (json_members rest')
               else if d = CHR ''}'' \<and> rest' = [] then Some [kv]
               else None))"
  by pat_completeness auto
termination
  by (relation "measure length") (auto dest!: json_member_shrinks)

declare json_members.simps [simp del]

definition JSON_parse_object :: "string \<Rightarrow> (string \<times> string) list option" where
  "JSON_parse_object s =
     (case s of
        [] \<Rightarrow> None
      | b # s' \<Rightarrow>
          if b = CHR ''{'' then (if s' = [CHR ''}''] then Some [] else json_members s')
          else None)"

lemma json_string_roundtrip: "json_string (JSON_stringify_string s @ rest) = Some (s, rest)"
  by (simp add: json_string_def JSON_stringify_string_def json_string_body_roundtrip)

lemma json_member_roundtrip: "json_member (json_member_text kv @ rest) = Some (kv, rest)"
  by (simp add: json_member_def json_member_text_def json_string_roundtrip)

lemma json_members_roundtrip:
  "kvs \<noteq> [] \<Longrightarrow> json_members (json_members_text kvs @ [CHR ''}'']) = Some kvs"
proof (induction kvs rule: json_members_text.induct)
  case 1
  then show ?case by simp
next
  case (2 kv)
  show ?case
    by (subst json_members.simps) (simp add: json_member_roundtrip)
next
  case (3 kv kv' kvs)
  then show ?case
    by (subst json_members.simps) (simp add: json_member_roundtrip)
qed

lemma json_member_text_nonempty: "json_member_text kv \<noteq> []"
  by (simp add: json_member_text_def JSON_stringify_string_def)

lemma json_members_text_quote: "kvs \<noteq> [] \<Longrightarrow> \<exists>t. json_members_text kvs = CHR 0x22 # t"
  by (cases kvs rule: json_members_text.cases)
     (simp_all add: json_member_text_def JSON_stringify_string_def)

lemma JSON_object_roundtrip: "JSON_parse_object (JSON_stringify_object kvs) = Some kvs"
proof (cases "kvs = []")
  case True
  then show ?thesis by (simp add: JSON_parse_object_def JSON_stringify_object_def)
next
  case False
  then obtain t where t: "json_members_text kvs = CHR 0x22 # t"
    using json_members_text_quote by blast
  then have "json_members_text kvs @ [CHR ''}''] \<noteq> [CHR ''}'']"
    by simp
  then show ?thesis
    using False by (simp add: JSON_parse_object_def JSON_stringify_object_def json_members_roundtrip)
qed

subsection \<open>String.prototype.split\<close>

fun split_on :: "char \<Rightarrow> string \<Rightarrow> string list" where
  "split_on d [] = [[]]"
| "split_on d (c # cs) =
     (if c = d then [] # split_on d cs
      else (case split_on d cs of seg # segs \<Rightarrow> (c # seg) # segs | [] \<Rightarrow> [[c]]))"

lemma split_on_nonempty: "split_on d s \<noteq> []"
  by (induction s) (auto split: list.splits)

lemma split_on_append:
  "d \<notin> set seg \<Longrightarrow> split_on d (seg @ d # rest) = seg # split_on d rest"
  by (induction seg) auto

lemma split_on_last: "d \<notin> set seg \<Longrightarrow> split_on d seg = [seg]"
  by (induction seg) auto

lemma of_char_b64_char: "(of_char (b64_char i) :: nat) \<noteq> 46"
  by (auto simp: b64_char_def)

lemma b64_char_not_dot: "b64_char i \<noteq> CHR ''.''"
  using of_char_b64_char [of i] by auto

lemma base64url_no_dot: "CHR ''.'' \<notin> set (base64url_encode bs)"
proof (induction bs rule: base64url_encode.induct)
  case (1 a b c rest)
  then show ?case using b64_char_not_dot by (simp add: Let_def) metis
next
  case (2 a b)
  then show ?case using b64_char_not_dot by (simp add: Let_def) metis
next
  case (3 a)
  then show ?case using b64_char_not_dot by (simp add: Let_def) metis
next
  case 4
  then show ?case by simp
qed

section \<open>Errors\<close>

datatype error =
    InvalidKeySize nat
  | InvalidKeyLength nat
  | JWEInvalid string
  | JOSENotSupported string
  | JWEDecryptionFailed
  | FetchFailed string
  | StorageFailed string
  | ConstraintFailed string
  | TypeError string

text \<open>What the runtime throws when a handler destructures a request body that is \<open>undefined\<close>.\<close>

definition body_undefined :: "string \<Rightarrow> error" where
  "body_undefined property =
     TypeError (''Cannot destructure property '' @ [CHR 0x27] @ property @ [CHR 0x27] @ '' of ''
       @ [CHR 0x27] @ ''request.body'' @ [CHR 0x27] @ '' as it is undefined.'')"

section \<open>The platform and the collaborators\<close>

record world =
  A256GCM_encrypt :: "byte list \<Rightarrow> byte list \<Rightarrow> byte list \<Rightarrow> byte list \<Rightarrow> byte list \<times> byte list"
  A256GCM_decrypt :: "byte list \<Rightarrow> byte list \<Rightarrow> byte list \<Rightarrow> byte list \<Rightarrow> byte list \<Rightarrow> byte list option"
  inflateRaw :: "byte list \<Rightarrow> byte list option"

definition A256GCM_correct :: "world \<Rightarrow> bool" where
  "A256GCM_correct w \<longleftrightarrow>
     (\<forall>k iv aad p. length k = 32 \<and> length iv = 12 \<longrightarrow>
        A256GCM_decrypt w k iv aad (fst (A256GCM_encrypt w k iv aad p))
          (snd (A256GCM_encrypt w k iv aad p)) = Some p)"

definition getRandomValues :: "(nat \<Rightarrow> byte) \<Rightarrow> nat \<Rightarrow> byte list" where
  "getRandomValues rng n = map rng [0..<n]"

definition json_get :: "(string \<times> string) list \<Rightarrow> string \<Rightarrow> string option" where
  "json_get obj k = map_of (rev obj) k"

definition compact_serialization ::
  "world \<Rightarrow> (nat \<Rightarrow> byte) \<Rightarrow> byte list \<Rightarrow> (string \<times> string) list \<Rightarrow> byte list \<Rightarrow> string" where
  "compact_serialization w rng plaintext protectedHeader key =
     (let protected = base64url_encode (utf8_encode (JSON_stringify_object protectedHeader));
          iv = getRandomValues rng 12;
          sealed = A256GCM_encrypt w key iv (utf8_encode protected) plaintext
      in protected @ ''.'' @ ''.'' @ base64url_encode iv @ ''.''
           @ base64url_encode (fst sealed) @ ''.'' @ base64url_encode (snd sealed))"

definition CompactEncrypt ::
  "world \<Rightarrow> (nat \<Rightarrow> byte) \<Rightarrow> byte list \<Rightarrow> (string \<times> string) list \<Rightarrow> byte list \<Rightarrow> error + string" where
  "CompactEncrypt w rng plaintext protectedHeader key =
     (if json_get protectedHeader ''alg'' \<noteq> Some ''dir''
         \<or> json_get protectedHeader ''enc'' \<noteq> Some ''A256GCM''
         \<or> json_get protectedHeader ''zip'' \<noteq> None
      then Inl (JOSENotSupported ''header'')
      else if length key \<noteq> 32 then Inl (JWEInvalid ''Invalid Content Encryption Key length'')
      else Inr (compact_serialization w rng plaintext protectedHeader key))"

definition parse_protected_header :: "string \<Rightarrow> (string \<times> string) list option" where
  "parse_protected_header protected =
     (case base64url_decode protected of
        None \<Rightarrow> None
      | Some bytes \<Rightarrow>
          (case utf8_decode bytes of
             None \<Rightarrow> None
           | Some text \<Rightarrow> JSON_parse_object text))"

definition inflate_if_compressed ::
  "world \<Rightarrow> (string \<times> string) list \<Rightarrow> byte list \<Rightarrow> error + (byte list \<times> (string \<times> string) list)" where
  "inflate_if_compressed w header plaintext =
     (case json_get header ''zip'' of
        None \<Rightarrow> Inr (plaintext, header)
      | Some z \<Rightarrow>
          if z = ''DEF'' then
            (case inflateRaw w plaintext of
               None \<Rightarrow> Inl JWEDecryptionFailed
             | Some inflated \<Rightarrow> Inr (inflated, header))
          else Inl (JOSENotSupported ''zip''))"

definition decrypt_segments ::
  "world \<Rightarrow> byte list \<Rightarrow> string \<Rightarrow> (string \<times> string) list \<Rightarrow> string \<Rightarrow> string \<Rightarrow> string
     \<Rightarrow> error + (byte list \<times> (string \<times> string) list)" where
  "decrypt_segments w key protected header iv ciphertext tag =
     (case (base64url_decode iv, base64url_decode ciphertext, base64url_decode tag) of
        (Some iv', Some ciphertext', Some tag') \<Rightarrow>
          if length iv' \<noteq> 12 then Inl (JWEInvalid ''Invalid Initialization Vector length'')
          else
            (case A256GCM_decrypt w key iv' (utf8_encode protected) ciphertext' tag' of
               None \<Rightarrow> Inl JWEDecryptionFailed
             | Some plaintext \<Rightarrow> inflate_if_compressed w header plaintext)
      | _ \<Rightarrow> Inl (JWEInvalid ''Failed to base64url decode''))"

definition compactDecrypt ::
  "world \<Rightarrow> string \<Rightarrow> byte list \<Rightarrow> error + (byte list \<times> (string \<times> string) list)" where
  "compactDecrypt w jwe key =
     (case split_on (CHR ''.'') jwe of
        [protected, encryptedKey, iv, ciphertext, tag] \<Rightarrow>
          (case parse_protected_header protected of
             None \<Rightarrow> Inl (JWEInvalid ''JWE Protected Header is invalid'')
           | Some header \<Rightarrow>
               if json_get header ''alg'' = None \<or> json_get header ''enc'' = None
               then Inl (JWEInvalid ''missing JWE Algorithm or Encryption in JWE Header'')
               else if json_get header ''alg'' \<noteq> Some ''dir''
                       \<or> json_get header ''enc'' \<noteq> Some ''A256GCM''
               then Inl (JOSENotSupported ''alg or enc'')
               else if encryptedKey \<noteq> []
               then Inl (JWEInvalid ''Encountered unexpected JWE Encrypted Key'')
               else if length key \<noteq> 32
               then Inl (JWEInvalid ''Invalid Content Encryption Key length'')
               else decrypt_segments w key protected header iv ciphertext tag)
      | _ \<Rightarrow> Inl (JWEInvalid ''Invalid Compact JWE''))"

section \<open>services/encryption.ts\<close>

definition SHL_KEY_LENGTH :: nat where "SHL_KEY_LENGTH = 32"
definition SHL_KEY_BASE64URL_LENGTH :: nat where "SHL_KEY_BASE64URL_LENGTH = 43"
definition SHL_KEY_BYTES :: nat where "SHL_KEY_BYTES = SHL_KEY_LENGTH"

record decrypted =
  content :: "byte list"
  contentType :: "string option"

definition encryptContent ::
  "world \<Rightarrow> (nat \<Rightarrow> byte) \<Rightarrow> byte list \<Rightarrow> byte list \<Rightarrow> string \<Rightarrow> error + string" where
  "encryptContent w rng content' key contentType' =
     (if length key \<noteq> SHL_KEY_BYTES then Inl (InvalidKeySize (length key))
      else CompactEncrypt w rng content'
             [(''alg'', ''dir''), (''enc'', ''A256GCM''), (''cty'', contentType')] key)"

definition decryptContent :: "world \<Rightarrow> string \<Rightarrow> byte list \<Rightarrow> error + decrypted" where
  "decryptContent w jwe key =
     (if length key \<noteq> SHL_KEY_BYTES then Inl (InvalidKeySize (length key))
      else
        (case compactDecrypt w jwe key of
           Inl e \<Rightarrow> Inl e
         | Inr (plaintext, protectedHeader) \<Rightarrow>
             Inr \<lparr>content = plaintext, contentType = json_get protectedHeader ''cty''\<rparr>))"

lemma parse_protected_header_roundtrip:
  "parse_protected_header (base64url_encode (utf8_encode (JSON_stringify_object h))) = Some h"
  by (simp add: parse_protected_header_def base64url_roundtrip utf8_roundtrip JSON_object_roundtrip)

lemma split_compact:
  "split_on (CHR ''.'')
     (base64url_encode p @ ''.'' @ ''.'' @ base64url_encode i @ ''.'' @ base64url_encode c
        @ ''.'' @ base64url_encode t)
   = [base64url_encode p, [], base64url_encode i, base64url_encode c, base64url_encode t]"
proof -
  have e: "split_on (CHR ''.'') (CHR ''.'' # rest) = [] # split_on (CHR ''.'') rest" for rest
    by simp
  show ?thesis
    by (simp only: append_Cons append_Nil split_on_append [OF base64url_no_dot] e
          split_on_last [OF base64url_no_dot])
qed

lemma compact_roundtrip:
  assumes "A256GCM_correct w" and "length key = 32"
    and "json_get h ''alg'' = Some ''dir''" and "json_get h ''enc'' = Some ''A256GCM''"
    and "json_get h ''zip'' = None"
  shows "\<exists>jwe. CompactEncrypt w rng plaintext h key = Inr jwe
           \<and> compactDecrypt w jwe key = Inr (plaintext, h)"
proof -
  define protected where "protected = base64url_encode (utf8_encode (JSON_stringify_object h))"
  define iv where "iv = getRandomValues rng 12"
  define sealed where "sealed = A256GCM_encrypt w key iv (utf8_encode protected) plaintext"
  define jwe where "jwe = protected @ ''.'' @ ''.'' @ base64url_encode iv @ ''.''
      @ base64url_encode (fst sealed) @ ''.'' @ base64url_encode (snd sealed)"
  have enc: "CompactEncrypt w rng plaintext h key = Inr jwe"
    using assms
    by (simp add: CompactEncrypt_def compact_serialization_def Let_def jwe_def sealed_def iv_def
        protected_def)
  have iv: "length iv = 12" by (simp add: iv_def getRandomValues_def)
  have split: "split_on (CHR ''.'') jwe
      = [protected, [], base64url_encode iv, base64url_encode (fst sealed), base64url_encode (snd sealed)]"
    unfolding jwe_def protected_def by (rule split_compact)
  have hdr: "parse_protected_header protected = Some h"
    unfolding protected_def by (rule parse_protected_header_roundtrip)
  have opened: "A256GCM_decrypt w key iv (utf8_encode protected) (fst sealed) (snd sealed) = Some plaintext"
    using assms(1,2) iv unfolding A256GCM_correct_def sealed_def by blast
  have "compactDecrypt w jwe key = Inr (plaintext, h)"
    unfolding compactDecrypt_def split
    using assms(2-5) iv
    by (simp add: hdr decrypt_segments_def inflate_if_compressed_def base64url_roundtrip opened)
  with enc show ?thesis by blast
qed

text \<open>
  Claim C1 (round trip).  For every byte content \<open>C\<close>, every content type \<open>T\<close> and every
  32-byte key \<open>K\<close>, \<open>encryptContent\<close> succeeds and \<open>decryptContent\<close> of its result
  under the same key returns exactly \<open>C\<close> and \<open>T\<close>, whatever initialisation vector
  the random source supplies.  The block cipher itself is the platform's: the statement
  holds for every AES-GCM primitive that decrypts what it encrypted.
\<close>

theorem encrypt_decrypt_roundtrip:
  assumes "A256GCM_correct w" and "length K = 32"
  shows "\<exists>jwe. encryptContent w rng C K T = Inr jwe
           \<and> decryptContent w jwe K = Inr \<lparr>content = C, contentType = Some T\<rparr>"
proof -
  let ?h = "[(''alg'', ''dir''), (''enc'', ''A256GCM''), (''cty'', T)]"
  have h: "json_get ?h ''alg'' = Some ''dir''" "json_get ?h ''enc'' = Some ''A256GCM''"
    "json_get ?h ''zip'' = None" "json_get ?h ''cty'' = Some T"
    by (simp_all add: json_get_def)
  obtain jwe where sealed: "CompactEncrypt w rng C ?h K = Inr jwe"
    and opened: "compactDecrypt w jwe K = Inr (C, ?h)"
    using compact_roundtrip [OF assms h(1-3)] by blast
  have "encryptContent w rng C K T = Inr jwe"
    using assms(2) sealed by (simp add: encryptContent_def SHL_KEY_BYTES_def SHL_KEY_LENGTH_def)
  moreover have "decryptContent w jwe K = Inr \<lparr>content = C, contentType = Some T\<rparr>"
    using assms(2) opened h(4)
    by (simp add: decryptContent_def SHL_KEY_BYTES_def SHL_KEY_LENGTH_def)
  ultimately show ?thesis by blast
qed

definition demo_world :: world where
  "demo_world =
     \<lparr>A256GCM_encrypt = (\<lambda>k iv aad p. (map (\<lambda>b. b + 1) p, take 16 k)),
      A256GCM_decrypt = (\<lambda>k iv aad c t. if t = take 16 k then Some (map (\<lambda>b. b - 1) c) else None),
      inflateRaw = (\<lambda>bytes. None)\<rparr>"

definition demo_key :: "byte list" where
  "demo_key = replicate 32 7"

definition demo_rng :: "nat \<Rightarrow> byte" where
  "demo_rng i = of_nat i"

lemma demo_world_correct: "A256GCM_correct demo_world"
  by (simp add: A256GCM_correct_def demo_world_def comp_def)

lemma demo_key_length: "length demo_key = 32"
  by (simp add: demo_key_def)

theorem encrypt_decrypt_roundtrip_witness:
  "A256GCM_correct demo_world \<and> length demo_key = 32 \<and>
   (\<exists>jwe. encryptContent demo_world demo_rng [1, 2, 3] demo_key ''application/pdf'' = Inr jwe
      \<and> decryptContent demo_world jwe demo_key
          = Inr \<lparr>content = [1, 2, 3], contentType = Some ''application/pdf''\<rparr>)"
  using encrypt_decrypt_roundtrip [OF demo_world_correct demo_key_length]
    demo_world_correct demo_key_length
  by blast

section \<open>Numbers as text\<close>

function decimal :: "nat \<Rightarrow> string" where
  "decimal n = (if n < 10 then [char_of (48 + n)] else decimal (n div 10) @ [char_of (48 + n mod 10)])"
  by pat_completeness auto
termination
  by (relation "measure id") auto

declare decimal.simps [simp del]

definition Number_toString :: "int \<Rightarrow> string" where
  "Number_toString i = (if i < 0 then CHR ''-'' # decimal (nat (- i)) else decimal (nat i))"

fun join :: "string \<Rightarrow> string list \<Rightarrow> string" where
  "join sep [] = []"
| "join sep [x] = x"
| "join sep (x # xs) = x @ sep @ join sep xs"

definition JSON_stringify_strings :: "string list \<Rightarrow> string" where
  "JSON_stringify_strings xs = ''['' @ join '','' (map JSON_stringify_string xs) @ '']''"

section \<open>config.ts\<close>

record config =
  API_URL :: string
  VIEWER_URL :: string
  S3_BUCKET_NAME :: string
  ENCRYPTION_KEY :: string
  SHL_EXPIRATION_DAYS_DEFAULT :: int
  SHL_EXPIRATION_DAYS_MAX :: int

fun Buffer_from_hex :: "string \<Rightarrow> byte list" where
  "Buffer_from_hex (a # b # rest) =
     (case (hex_value a, hex_value b) of
        (Some x, Some y) \<Rightarrow> of_nat (x * 16 + y) # Buffer_from_hex rest
      | _ \<Rightarrow> [])"
| "Buffer_from_hex [a] = []"
| "Buffer_from_hex [] = []"

section \<open>db/schema.ts\<close>

text \<open>
  A column of mode \<open>timestamp\<close> stores whole seconds; a \<open>Date\<close> written to it is read
  back as the start of its second.  Instants are milliseconds since the epoch.
\<close>

definition timestamp_column :: "int \<Rightarrow> int" where
  "timestamp_column ms = (ms div 1000) * 1000"

datatype shl_status = active | revoked | expired

datatype event_type =
    SHL_CREATED | SHL_DELIVERED_SMS | SHL_DELIVERED_EMAIL | SHL_DELIVERY_FAILED
  | SHL_ACCESSED | SHL_REVOKED

record session_row =
  session_id :: string
  iss :: string
  session_patientId :: string
  session_patientName :: "string option"
  session_providerId :: string
  session_providerName :: "string option"
  accessTokenEncrypted :: "byte list"
  refreshTokenEncrypted :: "byte list option"
  session_expiresAt :: int
  session_createdAt :: int

record shl_row =
  shl_id :: string
  sessionId :: "string option"
  patientId :: string
  patientName :: string
  patientPhone :: "string option"
  patientEmail :: "string option"
  providerId :: string
  providerName :: string
  bundleS3Key :: string
  documentS3Keys :: string
  status :: shl_status
  expiresAt :: int
  accessCount :: int
  lastAccessedAt :: "int option"
  createdAt :: int
  revokedAt :: "int option"
  revokedBy :: "string option"

record audit_log =
  log_id :: string
  shlId :: "string option"
  eventType :: event_type
  accessorIp :: "string option"
  accessorUserAgent :: "string option"
  accessorRecipient :: "string option"
  accessorLocation :: "string option"
  log_providerId :: "string option"
  log_providerName :: "string option"
  details :: "string option"
  log_timestamp :: int

record s3_object =
  Body :: string
  ContentType :: string
  Metadata :: "(string \<times> string) list"

datatype notification = Sms string string | Email string string string

text \<open>
  Everything the server can change: the three tables of the registry, the objects of the
  bucket, and the messages handed to the SMS and email senders.
\<close>

record system =
  shls :: "shl_row list"
  auditLogs :: "audit_log list"
  sessions :: "session_row list"
  bucket :: "string \<rightharpoonup> s3_object"
  outbox :: "notification list"

definition select_shl :: "system \<Rightarrow> (shl_row \<Rightarrow> bool) \<Rightarrow> shl_row option" where
  "select_shl sys p = find p (shls sys)"

definition update_shl :: "string \<Rightarrow> (shl_row \<Rightarrow> shl_row) \<Rightarrow> system \<Rightarrow> system" where
  "update_shl i f sys = sys\<lparr>shls := map (\<lambda>r. if shl_id r = i then f r else r) (shls sys)\<rparr>"

definition insert_shl :: "shl_row \<Rightarrow> system \<Rightarrow> error + system" where
  "insert_shl r sys =
     (if shl_id r \<in> shl_id ` set (shls sys) then Inl (ConstraintFailed ''shls.id'')
      else Inr (sys\<lparr>shls := shls sys @ [r]\<rparr>))"

definition insert_audit_log :: "audit_log \<Rightarrow> system \<Rightarrow> error + system" where
  "insert_audit_log l sys =
     (if log_id l \<in> log_id ` set (auditLogs sys) then Inl (ConstraintFailed ''audit_logs.id'')
      else Inr (sys\<lparr>auditLogs := auditLogs sys @ [l]\<rparr>))"

section \<open>services/encryption.ts, continued\<close>

text \<open>
  The source of randomness is a stream of bytes; \<open>crypto.getRandomValues\<close> on a fresh
  array of \<open>n\<close> bytes takes its first \<open>n\<close>.
\<close>

definition generateShlKey :: "(nat \<Rightarrow> byte) \<Rightarrow> error + (byte list \<times> string)" where
  "generateShlKey rng =
     (let key = getRandomValues rng SHL_KEY_BYTES;
          keyBase64Url = base64url_encode key
      in if length keyBase64Url \<noteq> SHL_KEY_BASE64URL_LENGTH
         then Inl (InvalidKeyLength (length keyBase64Url))
         else Inr (key, keyBase64Url))"

definition generateManifestId :: "(nat \<Rightarrow> byte) \<Rightarrow> string" where
  "generateManifestId rng = base64url_encode (getRandomValues rng SHL_KEY_BYTES)"

definition encryptString ::
  "world \<Rightarrow> (nat \<Rightarrow> byte) \<Rightarrow> string \<Rightarrow> byte list \<Rightarrow> string \<Rightarrow> error + string" where
  "encryptString w rng txt key contentType' = encryptContent w rng (utf8_encode txt) key contentType'"

definition decryptString :: "world \<Rightarrow> string \<Rightarrow> byte list \<Rightarrow> error + (string \<times> string option)" where
  "decryptString w jwe key =
     (case decryptContent w jwe key of
        Inl e \<Rightarrow> Inl e
      | Inr d \<Rightarrow>
          (case utf8_decode (content d) of
             None \<Rightarrow> Inl (JWEInvalid ''text outside the modelled alphabet'')
           | Some txt \<Rightarrow> Inr (txt, contentType d)))"

definition encryptTokenForStorage ::
  "world \<Rightarrow> (nat \<Rightarrow> byte) \<Rightarrow> string \<Rightarrow> byte list \<Rightarrow> error + byte list" where
  "encryptTokenForStorage w rng token encryptionKey =
     (case encryptString w rng token encryptionKey ''text/plain'' of
        Inl e \<Rightarrow> Inl e
      | Inr jwe \<Rightarrow> Inr (utf8_encode jwe))"

definition decryptTokenFromStorage :: "world \<Rightarrow> byte list \<Rightarrow> byte list \<Rightarrow> error + string" where
  "decryptTokenFromStorage w encryptedToken encryptionKey =
     (case utf8_decode encryptedToken of
        None \<Rightarrow> Inl (JWEInvalid ''text outside the modelled alphabet'')
      | Some jwe \<Rightarrow>
          (case decryptString w jwe encryptionKey of
             Inl e \<Rightarrow> Inl e
           | Inr (txt, cty) \<Rightarrow> Inr txt))"

lemma token_storage_roundtrip:
  assumes "A256GCM_correct w" and "length K = 32"
  shows "\<exists>stored. encryptTokenForStorage w rng token K = Inr stored
           \<and> decryptTokenFromStorage w stored K = Inr token"
proof -
  let ?h = "[(''alg'', ''dir''), (''enc'', ''A256GCM''), (''cty'', ''text/plain'')]"
  have h: "json_get ?h ''alg'' = Some ''dir''" "json_get ?h ''enc'' = Some ''A256GCM''"
    "json_get ?h ''zip'' = None" "json_get ?h ''cty'' = Some ''text/plain''"
    by (simp_all add: json_get_def)
  obtain jwe where compact: "CompactEncrypt w rng (utf8_encode token) ?h K = Inr jwe"
    and plain: "compactDecrypt w jwe K = Inr (utf8_encode token, ?h)"
    using compact_roundtrip [OF assms h(1-3)] by blast
  have sealed: "encryptContent w rng (utf8_encode token) K ''text/plain'' = Inr jwe"
    using assms(2) compact by (simp add: encryptContent_def SHL_KEY_BYTES_def SHL_KEY_LENGTH_def)
  have opened: "decryptContent w jwe K
        = Inr \<lparr>content = utf8_encode token, contentType = Some ''text/plain''\<rparr>"
    using assms(2) plain h(4)
    by (simp add: decryptContent_def SHL_KEY_BYTES_def SHL_KEY_LENGTH_def)
  have "encryptTokenForStorage w rng token K = Inr (utf8_encode jwe)"
    by (simp add: encryptTokenForStorage_def encryptString_def sealed)
  moreover have "decryptTokenFromStorage w (utf8_encode jwe) K = Inr token"
    by (simp add: decryptTokenFromStorage_def decryptString_def utf8_roundtrip opened)
  ultimately show ?thesis by blast
qed

lemma base64url_length: "length (base64url_encode bs) = (4 * length bs + 2) div 3"
proof (induction bs rule: base64url_encode.induct)
  case (1 a b c rest)
  have "(4 * length (a # b # c # rest) + 2) div 3 = 4 + (4 * length rest + 2) div 3"
    by simp
  with 1 show ?case by (simp add: Let_def)
qed (simp_all add: Let_def)

lemma generateShlKey_ok:
  "generateShlKey rng = Inr (getRandomValues rng 32, base64url_encode (getRandomValues rng 32))"
  by (simp add: generateShlKey_def SHL_KEY_BYTES_def SHL_KEY_LENGTH_def
      SHL_KEY_BASE64URL_LENGTH_def base64url_length getRandomValues_def Let_def)

section \<open>Shared types\<close>

record HumanName =
  name_text :: "string option"
  given :: "string list option"
  family :: "string option"
  prefix :: "string list option"
  suffix :: "string list option"

record FhirPatient =
  patient_id :: string
  patient_name :: "HumanName list option"
  patient_other :: string

record DocumentContentMetadata =
  mediaType :: string
  size_bytes :: int

record PracticeFusionDocument =
  documentGuid :: string
  documentName :: string
  documentType :: string
  documentDateTime :: string
  documentContentMetadata :: "DocumentContentMetadata option"

record Attachment =
  attachment_contentType :: string
  attachment_url :: string
  attachment_title :: string
  attachment_size :: "int option"

record FhirDocumentReference =
  reference_id :: string
  meta_profile :: "string list"
  reference_status :: string
  type_coding :: "string \<times> string \<times> string"
  category_coding :: "string \<times> string"
  subject_reference :: string
  reference_date :: string
  attachment :: Attachment

datatype resource = PatientResource FhirPatient | DocumentResource FhirDocumentReference

record FhirBundle =
  bundle_timestamp :: string
  entry :: "(string \<times> resource) list"

record ShlPayload =
  url :: string
  key :: string
  exp :: int
  label :: string

definition FHIR_US_CORE_DOCUMENT_REFERENCE_PROFILE :: string where
  "FHIR_US_CORE_DOCUMENT_REFERENCE_PROFILE =
     ''http://hl7.org/fhir/us/core/StructureDefinition/us-core-documentreference''"

definition FHIR_NULL_FLAVOR_SYSTEM :: string where
  "FHIR_NULL_FLAVOR_SYSTEM = ''http://terminology.hl7.org/CodeSystem/v3-NullFlavor''"

definition FHIR_DOCUMENT_CATEGORY_SYSTEM :: string where
  "FHIR_DOCUMENT_CATEGORY_SYSTEM =
     ''http://hl7.org/fhir/us/core/CodeSystem/us-core-documentreference-category''"

definition S3_CONTENT_TYPE_JWE :: string where
  "S3_CONTENT_TYPE_JWE = ''application/jose''"

section \<open>The collaborators\<close>

text \<open>
  What the server reaches over the network or asks of the runtime's locale and calendar:
  the EHR's FHIR and document endpoints, the object store's \<open>PutObject\<close> and URL
  signer, the geolocation service, and the date functions.  Each is a function of the
  request it is sent; a failed exchange is an \<open>error\<close>.
\<close>

record env =
  getPatient :: "string \<Rightarrow> string \<Rightarrow> string \<Rightarrow> error + FhirPatient"
  getDocumentMetadata :: "string \<Rightarrow> string \<Rightarrow> error + PracticeFusionDocument"
  getDocumentContent :: "string \<Rightarrow> string \<Rightarrow> error + (byte list \<times> string)"
  putObject :: "string \<Rightarrow> error option"
  getSignedUrl :: "string \<Rightarrow> error + string"
  ipApi :: "string \<Rightarrow> (string \<times> string \<times> string) option"
  JSON_stringify_bundle :: "FhirBundle \<Rightarrow> string"
  toISOString :: "int \<Rightarrow> string"
  addDays :: "int \<Rightarrow> int \<Rightarrow> int"
  toLocaleDateString :: "int \<Rightarrow> string"
  toLocaleString :: "int \<Rightarrow> string"

text \<open>The random values one request draws.\<close>

record entropy =
  key_bytes :: "nat \<Rightarrow> byte"
  id_bytes :: "nat \<Rightarrow> byte"
  iv_bytes :: "nat \<Rightarrow> nat \<Rightarrow> byte"
  bundle_uuid :: "nat \<Rightarrow> string"
  log_uuid :: "nat \<Rightarrow> string"

section \<open>services/fhir.ts\<close>

definition truthy :: "string option \<Rightarrow> bool" where
  "truthy s = (case s of None \<Rightarrow> False | Some t \<Rightarrow> t \<noteq> [])"

definition spread :: "string list option \<Rightarrow> string list" where
  "spread xs = (case xs of None \<Rightarrow> [] | Some ys \<Rightarrow> ys)"

definition getPatientDisplayName :: "FhirPatient \<Rightarrow> string" where
  "getPatientDisplayName patient =
     (case patient_name patient of
        None \<Rightarrow> ''Unknown Patient''
      | Some [] \<Rightarrow> ''Unknown Patient''
      | Some (name # others) \<Rightarrow>
          if truthy (name_text name) then the (name_text name)
          else
            (let parts = spread (prefix name) @ spread (given name)
                   @ (if truthy (family name) then [the (family name)] else [])
                   @ spread (suffix name)
             in if join '' '' parts = [] then ''Unknown Patient'' else join '' '' parts))"

section \<open>services/storage.ts\<close>

definition generateS3Key :: "string \<Rightarrow> string \<Rightarrow> string" where
  "generateS3Key manifestId fileId = ''shls/'' @ manifestId @ ''/'' @ fileId @ ''.jwe''"

definition uploadEncryptedFile ::
  "env \<Rightarrow> string \<Rightarrow> string \<Rightarrow> (string \<times> string) list \<Rightarrow> (string \<rightharpoonup> s3_object)
     \<Rightarrow> (error + unit) \<times> (string \<rightharpoonup> s3_object)" where
  "uploadEncryptedFile e k content' metadata store =
     (case putObject e k of
        Some err \<Rightarrow> (Inl err, store)
      | None \<Rightarrow>
          (Inr (), store(k \<mapsto> \<lparr>Body = content', ContentType = S3_CONTENT_TYPE_JWE,
                                  Metadata = metadata\<rparr>)))"

definition generateSignedUrl :: "env \<Rightarrow> string \<Rightarrow> error + string" where
  "generateSignedUrl e k = getSignedUrl e k"

definition uploadBundle ::
  "env \<Rightarrow> string \<Rightarrow> string \<Rightarrow> (string \<rightharpoonup> s3_object) \<Rightarrow> (error + string) \<times> (string \<rightharpoonup> s3_object)" where
  "uploadBundle e manifestId encryptedBundle store =
     (let k = generateS3Key manifestId ''bundle'' in
      case uploadEncryptedFile e k encryptedBundle [(''x-shl-type'', ''bundle'')] store of
        (Inl err, store') \<Rightarrow> (Inl err, store')
      | (Inr u, store') \<Rightarrow> (Inr k, store'))"

definition uploadDocument ::
  "env \<Rightarrow> string \<Rightarrow> string \<Rightarrow> string \<Rightarrow> string \<Rightarrow> (string \<rightharpoonup> s3_object)
     \<Rightarrow> (error + string) \<times> (string \<rightharpoonup> s3_object)" where
  "uploadDocument e manifestId documentId encryptedContent originalContentType store =
     (let k = generateS3Key manifestId (''doc-'' @ documentId) in
      case uploadEncryptedFile e k encryptedContent
             [(''x-shl-type'', ''document''), (''x-original-content-type'', originalContentType)]
             store of
        (Inl err, store') \<Rightarrow> (Inl err, store')
      | (Inr u, store') \<Rightarrow> (Inr k, store'))"

section \<open>services/notifications.ts\<close>

datatype delivery = sent | failed | skipped

record DeliveryResult =
  sms :: delivery
  email :: delivery

definition newline :: string where
  "newline = [CHR 0x0A]"

definition delivery_sms_text :: "env \<Rightarrow> nat \<Rightarrow> string \<Rightarrow> int \<Rightarrow> string" where
  "delivery_sms_text e documentCount viewerUrl expiresAt' =
     ''Your healthcare provider has shared '' @ decimal documentCount
       @ '' document(s) with you. View them securely at: '' @ viewerUrl
       @ '' (expires '' @ toLocaleDateString e expiresAt' @ '')''"

definition delivery_email_body :: "env \<Rightarrow> nat \<Rightarrow> string \<Rightarrow> int \<Rightarrow> string" where
  "delivery_email_body e documentCount viewerUrl expiresAt' =
     join newline
       [''Hello,'', '''',
        ''Your healthcare provider has shared '' @ decimal documentCount @ '' document(s) with you.'',
        '''',
        ''Click the link below to view your documents securely:'',
        viewerUrl, '''',
        ''This link will expire on '' @ toLocaleDateString e expiresAt' @ ''.'', '''',
        ''For your security, you may be asked to provide your name before viewing the documents.'',
        '''',
        ''If you did not expect to receive this message, please contact your healthcare provider.'']"

definition sendDeliveryNotification ::
  "env \<Rightarrow> string \<Rightarrow> string option \<Rightarrow> string option \<Rightarrow> string \<Rightarrow> int \<Rightarrow> nat
     \<Rightarrow> notification list \<Rightarrow> DeliveryResult \<times> notification list" where
  "sendDeliveryNotification e patientName' phone email' viewerUrl expiresAt' documentCount out =
     (let out1 = (if truthy phone
                  then out @ [Sms (the phone) (delivery_sms_text e documentCount viewerUrl expiresAt')]
                  else out);
          out2 = (if truthy email'
                  then out1 @ [Email (the email') (''Your healthcare documents from '' @ patientName')
                                 (delivery_email_body e documentCount viewerUrl expiresAt')]
                  else out1)
      in (\<lparr>sms = (if truthy phone then sent else skipped),
           email = (if truthy email' then sent else skipped)\<rparr>, out2))"

definition access_sms_text :: "string \<Rightarrow> string \<Rightarrow> string \<Rightarrow> string" where
  "access_sms_text recipient locationStr timeStr =
     ''Your health documents were viewed by '' @ [CHR 0x22] @ recipient @ [CHR 0x22] @ '' from ''
       @ locationStr @ '' at '' @ timeStr
       @ ''. If this wasn't you or someone you authorized, contact your healthcare provider.''"

definition access_email_body :: "string \<Rightarrow> string \<Rightarrow> string \<Rightarrow> string" where
  "access_email_body recipient locationStr timeStr =
     join newline
       [''Hello,'', '''',
        ''Your health documents were accessed:'', '''',
        ''- Viewed by: '' @ recipient,
        ''- Location: '' @ locationStr,
        ''- Time: '' @ timeStr, '''',
        ''If this was you or someone you authorized, no action is needed.'', '''',
        ''If you did not authorize this access, please contact your healthcare provider immediately.'']"

definition sendAccessNotification ::
  "env \<Rightarrow> string option \<Rightarrow> string option \<Rightarrow> string \<Rightarrow> string option \<Rightarrow> int
     \<Rightarrow> notification list \<Rightarrow> notification list" where
  "sendAccessNotification e phone email' recipient location accessTime out =
     (let locationStr = (if truthy location then the location else ''Unknown location'');
          timeStr = toLocaleString e accessTime;
          out1 = (if truthy phone
                  then out @ [Sms (the phone) (access_sms_text recipient locationStr timeStr)]
                  else out)
      in if truthy email'
         then out1 @ [Email (the email') ''Your health documents were accessed''
                        (access_email_body recipient locationStr timeStr)]
         else out1)"

section \<open>services/shl.ts\<close>

record GenerateShlParams =
  params_sessionId :: string
  fhirBaseUrl :: string
  params_patientId :: string
  accessToken :: string
  documentIds :: "string list"
  phone :: "string option"
  params_email :: "string option"
  expirationDays :: int
  params_providerId :: string
  params_providerName :: string

record GenerateShlResult =
  result_id :: string
  viewerUrl :: string
  shlPayload :: string
  result_bundleS3Key :: string
  result_documentS3Keys :: "string list"
  result_expiresAt :: int
  result_patientName :: string

record UploadedDocument =
  documentId :: string
  s3Key :: string
  s3Url :: string
  uploaded_contentType :: string
  uploaded_size :: nat
  metadata :: PracticeFusionDocument

definition createDocumentReference ::
  "PracticeFusionDocument \<Rightarrow> string \<Rightarrow> string \<Rightarrow> FhirDocumentReference" where
  "createDocumentReference doc s3Url' patientId' =
     \<lparr>reference_id = ''doc-'' @ documentGuid doc,
      meta_profile = [FHIR_US_CORE_DOCUMENT_REFERENCE_PROFILE],
      reference_status = ''current'',
      type_coding = (FHIR_NULL_FLAVOR_SYSTEM, ''UNK'',
                     if documentType doc = [] then ''Document'' else documentType doc),
      category_coding = (FHIR_DOCUMENT_CATEGORY_SYSTEM, ''clinical-note''),
      subject_reference = ''Patient/'' @ patientId',
      reference_date = documentDateTime doc,
      attachment =
        \<lparr>attachment_contentType =
           (case documentContentMetadata doc of
              None \<Rightarrow> ''application/octet-stream''
            | Some m \<Rightarrow> if mediaType m = [] then ''application/octet-stream'' else mediaType m),
         attachment_url = s3Url',
         attachment_title = documentName doc,
         attachment_size = map_option size_bytes (documentContentMetadata doc)\<rparr>\<rparr>"

definition createFhirBundle ::
  "env \<Rightarrow> (nat \<Rightarrow> string) \<Rightarrow> int \<Rightarrow> FhirPatient \<Rightarrow> FhirDocumentReference list \<Rightarrow> FhirBundle" where
  "createFhirBundle e uuid now patient documentRefs =
     \<lparr>bundle_timestamp = toISOString e now,
      entry = (''urn:uuid:'' @ uuid 0, PatientResource patient)
              # map (\<lambda>(i, doc). (''urn:uuid:'' @ uuid (Suc i), DocumentResource doc))
                    (zip [0..<length documentRefs] documentRefs)\<rparr>"

definition createShlPayload :: "string \<Rightarrow> string \<Rightarrow> int \<Rightarrow> string \<Rightarrow> ShlPayload" where
  "createShlPayload manifestUrl keyBase64Url expiresAt' patientName' =
     \<lparr>url = manifestUrl,
      key = keyBase64Url,
      exp = expiresAt' div 1000,
      label = take 80 (''Documents for '' @ patientName')\<rparr>"

definition JSON_stringify_payload :: "ShlPayload \<Rightarrow> string" where
  "JSON_stringify_payload payload =
     ''{'' @ JSON_stringify_string ''url'' @ '':'' @ JSON_stringify_string (url payload)
       @ '','' @ JSON_stringify_string ''key'' @ '':'' @ JSON_stringify_string (key payload)
       @ '','' @ JSON_stringify_string ''exp'' @ '':'' @ Number_toString (exp payload)
       @ '','' @ JSON_stringify_string ''label'' @ '':'' @ JSON_stringify_string (label payload)
       @ ''}''"

definition encodeShlPayload :: "ShlPayload \<Rightarrow> string" where
  "encodeShlPayload payload = base64url_encode (utf8_encode (JSON_stringify_payload payload))"

definition createViewerUrl :: "config \<Rightarrow> string \<Rightarrow> string" where
  "createViewerUrl cfg shlPayloadBase64 = VIEWER_URL cfg @ ''/#shlink:/'' @ shlPayloadBase64"

text \<open>
  The body of the loop of step 4: fetch one document, encrypt it and upload it.  The
  bucket is returned whether the body ends or throws, since an upload that happened stays.
\<close>

definition upload_one ::
  "world \<Rightarrow> env \<Rightarrow> (nat \<Rightarrow> byte) \<Rightarrow> byte list \<Rightarrow> string \<Rightarrow> string \<Rightarrow> string
     \<Rightarrow> (string \<rightharpoonup> s3_object) \<Rightarrow> (error + UploadedDocument) \<times> (string \<rightharpoonup> s3_object)" where
  "upload_one w e iv k manifestId token docId store =
     (case getDocumentMetadata e docId token of
        Inl err \<Rightarrow> (Inl err, store)
      | Inr metadata' \<Rightarrow>
          (case getDocumentContent e docId token of
             Inl err \<Rightarrow> (Inl err, store)
           | Inr (content', contentType') \<Rightarrow>
               (case encryptContent w iv content' k contentType' of
                  Inl err \<Rightarrow> (Inl err, store)
                | Inr encryptedContent \<Rightarrow>
                    (case uploadDocument e manifestId docId encryptedContent contentType' store of
                       (Inl err, store') \<Rightarrow> (Inl err, store')
                     | (Inr s3Key', store') \<Rightarrow>
                         (case generateSignedUrl e s3Key' of
                            Inl err \<Rightarrow> (Inl err, store')
                          | Inr s3Url' \<Rightarrow>
                              (Inr \<lparr>documentId = docId, s3Key = s3Key', s3Url = s3Url',
                                    uploaded_contentType = contentType',
                                    uploaded_size = length content',
                                    metadata = metadata'\<rparr>, store'))))))"

fun upload_documents ::
  "world \<Rightarrow> env \<Rightarrow> entropy \<Rightarrow> byte list \<Rightarrow> string \<Rightarrow> string \<Rightarrow> string list
     \<Rightarrow> UploadedDocument list \<Rightarrow> (string \<rightharpoonup> s3_object)
     \<Rightarrow> (error + UploadedDocument list) \<times> (string \<rightharpoonup> s3_object)" where
  "upload_documents w e rnd k manifestId token [] uploadedDocs store = (Inr uploadedDocs, store)"
| "upload_documents w e rnd k manifestId token (docId # docIds) uploadedDocs store =
     (case upload_one w e (iv_bytes rnd (length uploadedDocs)) k manifestId token docId store of
        (Inl err, store') \<Rightarrow> (Inl err, store')
      | (Inr doc, store') \<Rightarrow>
          upload_documents w e rnd k manifestId token docIds (uploadedDocs @ [doc]) store')"

definition generateShl ::
  "world \<Rightarrow> env \<Rightarrow> config \<Rightarrow> entropy \<Rightarrow> int \<Rightarrow> GenerateShlParams \<Rightarrow> (string \<rightharpoonup> s3_object)
     \<Rightarrow> (error + GenerateShlResult) \<times> (string \<rightharpoonup> s3_object)" where
  "generateShl w e cfg rnd now params store =
     (case generateShlKey (key_bytes rnd) of
        Inl err \<Rightarrow> (Inl err, store)
      | Inr (k, keyBase64Url) \<Rightarrow>
          (let manifestId = generateManifestId (id_bytes rnd) in
           case getPatient e (fhirBaseUrl params) (params_patientId params) (accessToken params) of
             Inl err \<Rightarrow> (Inl err, store)
           | Inr patient \<Rightarrow>
               (let patientName' = getPatientDisplayName patient in
                case upload_documents w e rnd k manifestId (accessToken params)
                       (documentIds params) [] store of
                  (Inl err, store1) \<Rightarrow> (Inl err, store1)
                | (Inr uploadedDocs, store1) \<Rightarrow>
                    (let documentRefs =
                           map (\<lambda>doc. createDocumentReference (metadata doc) (s3Url doc)
                                         (params_patientId params)) uploadedDocs;
                         bundle = createFhirBundle e (bundle_uuid rnd) now patient documentRefs;
                         bundleJson = JSON_stringify_bundle e bundle
                     in case encryptString w (iv_bytes rnd (length uploadedDocs)) bundleJson k
                               ''application/fhir+json'' of
                          Inl err \<Rightarrow> (Inl err, store1)
                        | Inr encryptedBundle \<Rightarrow>
                            (case uploadBundle e manifestId encryptedBundle store1 of
                               (Inl err, store2) \<Rightarrow> (Inl err, store2)
                             | (Inr bundleS3Key', store2) \<Rightarrow>
                                 (let expiresAt' = addDays e now (expirationDays params);
                                      manifestUrl = API_URL cfg @ ''/shl/'' @ manifestId @ ''/manifest'';
                                      payload = createShlPayload manifestUrl keyBase64Url expiresAt'
                                                  patientName';
                                      shlPayloadBase64 = encodeShlPayload payload
                                  in (Inr \<lparr>result_id = manifestId,
                                           viewerUrl = createViewerUrl cfg shlPayloadBase64,
                                           shlPayload = ''shlink:/'' @ shlPayloadBase64,
                                           result_bundleS3Key = bundleS3Key',
                                           result_documentS3Keys = map s3Key uploadedDocs,
                                           result_expiresAt = expiresAt',
                                           result_patientName = patientName'\<rparr>,
                                      store2)))))))"

definition getBundleUrl :: "env \<Rightarrow> string \<Rightarrow> error + string" where
  "getBundleUrl e bundleS3Key' = generateSignedUrl e bundleS3Key'"

section \<open>routes/shl.ts\<close>

record manifest_file =
  file_contentType :: string
  location :: string

record GenerateShlResponse =
  response_id :: string
  response_viewerUrl :: string
  response_expiresAt :: string
  documentCount :: nat
  deliveryStatus :: DeliveryResult

record shl_summary =
  summary_id :: string
  summary_patientName :: string
  summary_status :: shl_status
  summary_expiresAt :: int
  summary_accessCount :: int
  summary_createdAt :: int
  summary_documentCount :: nat

datatype response_body =
    ErrorBody string
  | InternalServerError error
  | ManifestBody "manifest_file list"
  | GenerateBody GenerateShlResponse
  | ListBody "shl_summary list"
  | RevokedBody string

record response =
  status_code :: nat
  body :: response_body

record session_context =
  ctx_sessionId :: string
  ctx_iss :: string
  ctx_patientId :: string
  ctx_providerId :: string
  ctx_providerName :: string
  ctx_accessToken :: string

definition getEncryptionKey :: "config \<Rightarrow> byte list" where
  "getEncryptionKey cfg = Buffer_from_hex (ENCRYPTION_KEY cfg)"

text \<open>
  \<open>requireSession\<close> either answers the request itself (401), or throws while decrypting the
  stored token (the framework then answers 500), or yields the session.
\<close>

definition requireSession ::
  "world \<Rightarrow> config \<Rightarrow> int \<Rightarrow> string option \<Rightarrow> system \<Rightarrow> response + session_context" where
  "requireSession w cfg now cookie sys =
     (if \<not> truthy cookie then Inl \<lparr>status_code = 401, body = ErrorBody ''Not authenticated''\<rparr>
      else
        (case find (\<lambda>s. session_id s = the cookie) (sessions sys) of
           None \<Rightarrow> Inl \<lparr>status_code = 401, body = ErrorBody ''Session not found''\<rparr>
         | Some session \<Rightarrow>
             if session_expiresAt session < now
             then Inl \<lparr>status_code = 401, body = ErrorBody ''Session expired''\<rparr>
             else
               (case decryptTokenFromStorage w (accessTokenEncrypted session) (getEncryptionKey cfg) of
                  Inl err \<Rightarrow> Inl \<lparr>status_code = 500, body = InternalServerError err\<rparr>
                | Inr token \<Rightarrow>
                    Inr \<lparr>ctx_sessionId = session_id session,
                         ctx_iss = iss session,
                         ctx_patientId = session_patientId session,
                         ctx_providerId = session_providerId session,
                         ctx_providerName =
                           (if truthy (session_providerName session)
                            then the (session_providerName session) else ''Unknown Provider''),
                         ctx_accessToken = token\<rparr>)))"

record GenerateShlBody =
  body_documentIds :: "string list"
  body_phone :: "string option"
  body_email :: "string option"
  body_expirationDays :: int

definition validExpiration :: "config \<Rightarrow> int \<Rightarrow> int" where
  "validExpiration cfg requested =
     min (max 1 (if requested = 0 then SHL_EXPIRATION_DAYS_DEFAULT cfg else requested))
         (SHL_EXPIRATION_DAYS_MAX cfg)"

definition delivery_text :: "delivery \<Rightarrow> string" where
  "delivery_text d = (case d of sent \<Rightarrow> ''sent'' | failed \<Rightarrow> ''failed'' | skipped \<Rightarrow> ''skipped'')"

definition new_audit_log :: "string \<Rightarrow> string \<Rightarrow> event_type \<Rightarrow> int \<Rightarrow> audit_log" where
  "new_audit_log uuid i ev now =
     \<lparr>log_id = uuid, shlId = Some i, eventType = ev,
      accessorIp = None, accessorUserAgent = None, accessorRecipient = None,
      accessorLocation = None, log_providerId = None, log_providerName = None,
      details = None, log_timestamp = timestamp_column now\<rparr>"

definition new_shl_row ::
  "session_context \<Rightarrow> GenerateShlBody \<Rightarrow> GenerateShlResult \<Rightarrow> int \<Rightarrow> shl_row" where
  "new_shl_row session b result now =
     \<lparr>shl_id = result_id result,
      sessionId = Some (ctx_sessionId session),
      patientId = ctx_patientId session,
      patientName = result_patientName result,
      patientPhone = body_phone b,
      patientEmail = body_email b,
      providerId = ctx_providerId session,
      providerName = ctx_providerName session,
      bundleS3Key = result_bundleS3Key result,
      documentS3Keys = JSON_stringify_strings (result_documentS3Keys result),
      status = active,
      expiresAt = timestamp_column (result_expiresAt result),
      accessCount = 0,
      lastAccessedAt = None,
      createdAt = timestamp_column now,
      revokedAt = None,
      revokedBy = None\<rparr>"

definition created_details :: "nat \<Rightarrow> int \<Rightarrow> string" where
  "created_details n days =
     ''{'' @ JSON_stringify_string ''documentCount'' @ '':'' @ decimal n
       @ '','' @ JSON_stringify_string ''expirationDays'' @ '':'' @ Number_toString days @ ''}''"

definition failure_response :: response where
  "failure_response = \<lparr>status_code = 500, body = ErrorBody ''Failed to generate health link''\<rparr>"

definition log_deliveries ::
  "entropy \<Rightarrow> int \<Rightarrow> GenerateShlBody \<Rightarrow> string \<Rightarrow> DeliveryResult \<Rightarrow> system
     \<Rightarrow> error option \<times> system" where
  "log_deliveries rnd now b i ds sys =
     (case (if truthy (body_phone b)
            then insert_audit_log
                   ((new_audit_log (log_uuid rnd 1) i
                       (if sms ds = sent then SHL_DELIVERED_SMS else SHL_DELIVERY_FAILED) now)
                      \<lparr>details := Some (JSON_stringify_object
                          [(''phone'', the (body_phone b)), (''status'', delivery_text (sms ds))])\<rparr>)
                   sys
            else Inr sys) of
        Inl err \<Rightarrow> (Some err, sys)
      | Inr sys1 \<Rightarrow>
          if truthy (body_email b)
          then
            (case insert_audit_log
                    ((new_audit_log (log_uuid rnd (if truthy (body_phone b) then 2 else 1)) i
                        (if email ds = sent then SHL_DELIVERED_EMAIL else SHL_DELIVERY_FAILED) now)
                       \<lparr>details := Some (JSON_stringify_object
                           [(''email'', the (body_email b)), (''status'', delivery_text (email ds))])\<rparr>)
                    sys1 of
               Inl err \<Rightarrow> (Some err, sys1)
             | Inr sys2 \<Rightarrow> (None, sys2))
          else (None, sys1))"

text \<open>The \<open>try\<close> block of \<open>handleGenerateShl\<close>; whatever it throws is answered 500.\<close>

definition issue_link ::
  "world \<Rightarrow> env \<Rightarrow> config \<Rightarrow> entropy \<Rightarrow> int \<Rightarrow> session_context \<Rightarrow> GenerateShlBody \<Rightarrow> system
     \<Rightarrow> response \<times> system" where
  "issue_link w e cfg rnd now session b sys =
     (let validExpiration' = validExpiration cfg (body_expirationDays b) in
      case generateShl w e cfg rnd now
             \<lparr>params_sessionId = ctx_sessionId session,
              fhirBaseUrl = ctx_iss session,
              params_patientId = ctx_patientId session,
              accessToken = ctx_accessToken session,
              documentIds = body_documentIds b,
              phone = body_phone b,
              params_email = body_email b,
              expirationDays = validExpiration',
              params_providerId = ctx_providerId session,
              params_providerName = ctx_providerName session\<rparr>
             (bucket sys) of
        (Inl err, store) \<Rightarrow> (failure_response, sys\<lparr>bucket := store\<rparr>)
      | (Inr result, store) \<Rightarrow>
          (case insert_shl (new_shl_row session b result now) (sys\<lparr>bucket := store\<rparr>) of
             Inl err \<Rightarrow> (failure_response, sys\<lparr>bucket := store\<rparr>)
           | Inr sys1 \<Rightarrow>
               (case insert_audit_log
                       ((new_audit_log (log_uuid rnd 0) (result_id result) SHL_CREATED now)
                          \<lparr>log_providerId := Some (ctx_providerId session),
                           log_providerName := Some (ctx_providerName session),
                           details := Some (created_details (length (body_documentIds b))
                                              validExpiration')\<rparr>)
                       sys1 of
                  Inl err \<Rightarrow> (failure_response, sys1)
                | Inr sys2 \<Rightarrow>
                    (case sendDeliveryNotification e (result_patientName result) (body_phone b)
                            (body_email b) (viewerUrl result) (result_expiresAt result)
                            (length (body_documentIds b)) (outbox sys2) of
                       (ds, out) \<Rightarrow>
                         (case log_deliveries rnd now b (result_id result) ds
                                 (sys2\<lparr>outbox := out\<rparr>) of
                            (Some err, sys3) \<Rightarrow> (failure_response, sys3)
                          | (None, sys3) \<Rightarrow>
                              (\<lparr>status_code = 201,
                                body = GenerateBody
                                  \<lparr>response_id = result_id result,
                                   response_viewerUrl = viewerUrl result,
                                   response_expiresAt = toISOString e (result_expiresAt result),
                                   documentCount = length (body_documentIds b),
                                   deliveryStatus = ds\<rparr>\<rparr>, sys3))))))"

definition handleGenerateShl ::
  "world \<Rightarrow> env \<Rightarrow> config \<Rightarrow> entropy \<Rightarrow> int \<Rightarrow> string option \<Rightarrow> GenerateShlBody option
     \<Rightarrow> system \<Rightarrow> response \<times> system" where
  "handleGenerateShl w e cfg rnd now cookie request_body' sys =
     (case requireSession w cfg now cookie sys of
        Inl reply \<Rightarrow> (reply, sys)
      | Inr session \<Rightarrow>
        (case request_body' of
          None \<Rightarrow>
            (\<lparr>status_code = 500, body = InternalServerError (body_undefined ''documentIds'')\<rparr>, sys)
        | Some b \<Rightarrow>
          if body_documentIds b = []
          then (\<lparr>status_code = 400, body = ErrorBody ''At least one document must be selected''\<rparr>, sys)
          else if \<not> truthy (body_phone b) \<and> \<not> truthy (body_email b)
          then (\<lparr>status_code = 400,
                 body = ErrorBody ''At least one contact method (phone or email) is required''\<rparr>, sys)
          else issue_link w e cfg rnd now session b sys))"

definition displayed_status :: "int \<Rightarrow> shl_row \<Rightarrow> shl_status" where
  "displayed_status now shl = (if expiresAt shl < now \<and> status shl = active then expired else status shl)"

definition handleListShls ::
  "world \<Rightarrow> config \<Rightarrow> int \<Rightarrow> string option \<Rightarrow> system \<Rightarrow> response \<times> system" where
  "handleListShls w cfg now cookie sys =
     (case requireSession w cfg now cookie sys of
        Inl reply \<Rightarrow> (reply, sys)
      | Inr session \<Rightarrow>
          (\<lparr>status_code = 200,
            body = ListBody
              (map (\<lambda>shl. \<lparr>summary_id = shl_id shl,
                            summary_patientName = patientName shl,
                            summary_status = displayed_status now shl,
                            summary_expiresAt = expiresAt shl,
                            summary_accessCount = accessCount shl,
                            summary_createdAt = createdAt shl,
                            summary_documentCount = 0\<rparr>)
                 (rev (sort_key createdAt
                    (filter (\<lambda>shl. patientId shl = ctx_patientId session) (shls sys)))))\<rparr>, sys))"

definition handleRevokeShl ::
  "world \<Rightarrow> config \<Rightarrow> entropy \<Rightarrow> int \<Rightarrow> string option \<Rightarrow> string \<Rightarrow> system \<Rightarrow> response \<times> system" where
  "handleRevokeShl w cfg rnd now cookie i sys =
     (case requireSession w cfg now cookie sys of
        Inl reply \<Rightarrow> (reply, sys)
      | Inr session \<Rightarrow>
          (case select_shl sys (\<lambda>r. shl_id r = i \<and> patientId r = ctx_patientId session) of
             None \<Rightarrow> (\<lparr>status_code = 404, body = ErrorBody ''Health link not found''\<rparr>, sys)
           | Some shl \<Rightarrow>
               if status shl = revoked
               then (\<lparr>status_code = 400, body = ErrorBody ''Health link is already revoked''\<rparr>, sys)
               else
                 (let sys1 = update_shl i
                               (\<lambda>r. r\<lparr>status := revoked,
                                       revokedAt := Some (timestamp_column now),
                                       revokedBy := Some (ctx_providerId session)\<rparr>) sys
                  in case insert_audit_log
                            ((new_audit_log (log_uuid rnd 0) i SHL_REVOKED now)
                               \<lparr>log_providerId := Some (ctx_providerId session),
                                log_providerName := Some (ctx_providerName session)\<rparr>)
                            sys1 of
                       Inl err \<Rightarrow>
                         (\<lparr>status_code = 500, body = ErrorBody ''Failed to revoke health link''\<rparr>, sys1)
                     | Inr sys2 \<Rightarrow>
                         (\<lparr>status_code = 200, body = RevokedBody ''Health link revoked''\<rparr>, sys2))))"

section \<open>routes/manifest.ts\<close>

record GeoLocation =
  city :: string
  region :: string
  country :: string

text \<open>
  The route declares no schema, so a \<open>POST\<close> may arrive without a body:
  \<open>request.body\<close> is then \<open>undefined\<close>.
\<close>

record ManifestBody =
  recipient :: "string option"

record manifest_request =
  request_id :: string
  request_body :: "ManifestBody option"
  x_forwarded_for :: "string option"
  x_real_ip :: "string option"
  user_agent :: "string option"
  request_ip :: string

definition startsWith :: "string \<Rightarrow> string \<Rightarrow> bool" where
  "startsWith s p = (take (length p) s = p)"

definition is_space :: "char \<Rightarrow> bool" where
  "is_space c = ((of_char c :: nat) \<in> {9, 10, 11, 12, 13, 32, 160})"

definition trim :: "string \<Rightarrow> string" where
  "trim s = rev (dropWhile is_space (rev (dropWhile is_space s)))"

definition or_else :: "string \<Rightarrow> string \<Rightarrow> string" where
  "or_else s d = (if s = [] then d else s)"

definition getGeoLocation :: "env \<Rightarrow> string \<Rightarrow> GeoLocation option" where
  "getGeoLocation e ip =
     (if ip = ''127.0.0.1'' \<or> ip = ''::1'' \<or> startsWith ip ''192.168.'' \<or> startsWith ip ''10.''
      then Some \<lparr>city = ''Local'', region = ''Development'', country = ''localhost''\<rparr>
      else
        (case ipApi e ip of
           None \<Rightarrow> None
         | Some (c, r, n) \<Rightarrow>
             Some \<lparr>city = or_else c ''Unknown'', region = or_else r ''Unknown'',
                   country = or_else n ''Unknown''\<rparr>))"

definition getClientIp :: "manifest_request \<Rightarrow> string" where
  "getClientIp req =
     (if truthy (x_forwarded_for req)
      then trim (takeWhile (\<lambda>c. c \<noteq> CHR '','') (the (x_forwarded_for req)))
      else if truthy (x_real_ip req) then the (x_real_ip req)
      else request_ip req)"

definition recipient_or_anonymous :: "string option \<Rightarrow> string" where
  "recipient_or_anonymous recipient' = (if truthy recipient' then the recipient' else ''Anonymous'')"

definition location_json :: "GeoLocation \<Rightarrow> string" where
  "location_json l =
     JSON_stringify_object [(''city'', city l), (''region'', region l), (''country'', country l)]"

definition location_line :: "GeoLocation \<Rightarrow> string" where
  "location_line l = city l @ '', '' @ region l @ '', '' @ country l"

definition accessed_log ::
  "env \<Rightarrow> entropy \<Rightarrow> int \<Rightarrow> manifest_request \<Rightarrow> string option \<Rightarrow> audit_log" where
  "accessed_log e rnd now req recipient' =
     (new_audit_log (log_uuid rnd 0) (request_id req) SHL_ACCESSED now)
       \<lparr>accessorIp := Some (getClientIp req),
        accessorUserAgent := user_agent req,
        accessorRecipient := Some (recipient_or_anonymous recipient'),
        accessorLocation := map_option location_json (getGeoLocation e (getClientIp req))\<rparr>"

definition count_access :: "shl_row \<Rightarrow> int \<Rightarrow> string \<Rightarrow> system \<Rightarrow> system" where
  "count_access shl now i sys =
     update_shl i (\<lambda>r. r\<lparr>accessCount := accessCount shl + 1,
                          lastAccessedAt := Some (timestamp_column now)\<rparr>) sys"

definition notify_access ::
  "env \<Rightarrow> shl_row \<Rightarrow> int \<Rightarrow> manifest_request \<Rightarrow> string option \<Rightarrow> system \<Rightarrow> system" where
  "notify_access e shl now req recipient' sys =
     sys\<lparr>outbox := sendAccessNotification e (patientPhone shl) (patientEmail shl)
                       (recipient_or_anonymous recipient')
                       (map_option location_line (getGeoLocation e (getClientIp req)))
                       now (outbox sys)\<rparr>"

definition manifest_reply :: "env \<Rightarrow> shl_row \<Rightarrow> response" where
  "manifest_reply e shl =
     (case getBundleUrl e (bundleS3Key shl) of
        Inl err \<Rightarrow> \<lparr>status_code = 500, body = InternalServerError err\<rparr>
      | Inr bundleUrl \<Rightarrow>
          \<lparr>status_code = 200,
           body = ManifestBody [\<lparr>file_contentType = ''application/fhir+json'',
                                  location = bundleUrl\<rparr>]\<rparr>)"

text \<open>
  The handler first destructures \<open>request.body\<close>; on \<open>undefined\<close> that throws a
  \<open>TypeError\<close> before anything is read or written, and the framework answers 500.
\<close>

definition handleManifest ::
  "env \<Rightarrow> entropy \<Rightarrow> int \<Rightarrow> manifest_request \<Rightarrow> system \<Rightarrow> response \<times> system" where
  "handleManifest e rnd now req sys =
     (case request_body req of
        None \<Rightarrow> (\<lparr>status_code = 500, body = InternalServerError (body_undefined ''recipient'')\<rparr>, sys)
      | Some b \<Rightarrow>
     (case select_shl sys (\<lambda>r. shl_id r = request_id req) of
        None \<Rightarrow> (\<lparr>status_code = 404, body = ErrorBody ''Link not found''\<rparr>, sys)
      | Some shl \<Rightarrow>
          if status shl = revoked
          then (\<lparr>status_code = 410, body = ErrorBody ''This link has been revoked''\<rparr>, sys)
          else if expiresAt shl < now
          then (\<lparr>status_code = 410, body = ErrorBody ''This link has expired''\<rparr>,
                update_shl (request_id req) (\<lambda>r. r\<lparr>status := expired\<rparr>) sys)
          else
            (case insert_audit_log (accessed_log e rnd now req (recipient b)) sys of
               Inl err \<Rightarrow> (\<lparr>status_code = 500, body = InternalServerError err\<rparr>, sys)
             | Inr sys1 \<Rightarrow>
                 (manifest_reply e shl,
                  notify_access e shl now req (recipient b)
                    (count_access shl now (request_id req) sys1)))))"

text \<open>
  The same handler cut at its \<open>await\<close>s.  Between two of them the event loop may run a
  step of another request; each request keeps the row it selected and the instant it read.
\<close>

datatype manifest_task =
    Arrived manifest_request
  | Checked manifest_request "string option" shl_row int
  | Logged manifest_request "string option" shl_row int
  | Counted manifest_request "string option" shl_row int
  | Finished response

fun manifest_step :: "env \<Rightarrow> entropy \<Rightarrow> int \<Rightarrow> manifest_task \<Rightarrow> system \<Rightarrow> manifest_task \<times> system" where
  "manifest_step e rnd now (Arrived req) sys =
     (case request_body req of
        None \<Rightarrow>
          (Finished \<lparr>status_code = 500, body = InternalServerError (body_undefined ''recipient'')\<rparr>,
           sys)
      | Some b \<Rightarrow>
     (case select_shl sys (\<lambda>r. shl_id r = request_id req) of
        None \<Rightarrow> (Finished \<lparr>status_code = 404, body = ErrorBody ''Link not found''\<rparr>, sys)
      | Some shl \<Rightarrow>
          if status shl = revoked
          then (Finished \<lparr>status_code = 410, body = ErrorBody ''This link has been revoked''\<rparr>, sys)
          else if expiresAt shl < now
          then (Finished \<lparr>status_code = 410, body = ErrorBody ''This link has expired''\<rparr>,
                update_shl (request_id req) (\<lambda>r. r\<lparr>status := expired\<rparr>) sys)
          else (Checked req (recipient b) shl now, sys)))"
| "manifest_step e rnd now (Checked req recipient' shl t) sys =
     (case insert_audit_log (accessed_log e rnd t req recipient') sys of
        Inl err \<Rightarrow> (Finished \<lparr>status_code = 500, body = InternalServerError err\<rparr>, sys)
      | Inr sys1 \<Rightarrow> (Logged req recipient' shl t, sys1))"
| "manifest_step e rnd now (Logged req recipient' shl t) sys =
     (Counted req recipient' shl t, count_access shl t (request_id req) sys)"
| "manifest_step e rnd now (Counted req recipient' shl t) sys =
     (Finished (manifest_reply e shl), notify_access e shl t req recipient' sys)"
| "manifest_step e rnd now (Finished reply) sys = (Finished reply, sys)"

text \<open>
  A schedule names, step by step, which request runs next; request \<open>i\<close> draws its own
  random values and reads the clock when it runs its first step.
\<close>

fun run_schedule ::
  "env \<Rightarrow> (nat \<Rightarrow> entropy) \<Rightarrow> (nat \<Rightarrow> int) \<Rightarrow> nat list \<Rightarrow> manifest_task list \<Rightarrow> system
     \<Rightarrow> manifest_task list \<times> system" where
  "run_schedule e rnds clock [] tasks sys = (tasks, sys)"
| "run_schedule e rnds clock (i # schedule) tasks sys =
     (if i < length tasks
      then (case manifest_step e (rnds i) (clock i) (tasks ! i) sys of
              (task', sys') \<Rightarrow> run_schedule e rnds clock schedule (tasks[i := task']) sys')
      else run_schedule e rnds clock schedule tasks sys)"

lemma manifest_steps_serial:
  "handleManifest e rnd now req sys = (reply, sys') \<longleftrightarrow>
   run_schedule e (\<lambda>i. rnd) (\<lambda>i. now) [0, 0, 0, 0] [Arrived req] sys = ([Finished reply], sys')"
  by (auto simp: handleManifest_def split: option.splits sum.splits)

section \<open>A concrete deployment\<close>

text \<open>
  One configuration, one set of collaborators that all answer, one stored session and
  three links (one active, one revoked, one past its expiry but still stored as active),
  on which the statements below are instantiated.
\<close>

definition demo_config :: config where
  "demo_config =
     \<lparr>API_URL = ''https://api.example.org'',
      VIEWER_URL = ''https://viewer.example.org'',
      S3_BUCKET_NAME = ''smart-health-links'',
      ENCRYPTION_KEY = concat (replicate 32 ''07''),
      SHL_EXPIRATION_DAYS_DEFAULT = 90,
      SHL_EXPIRATION_DAYS_MAX = 365\<rparr>"

definition demo_document :: "string \<Rightarrow> PracticeFusionDocument" where
  "demo_document d =
     \<lparr>documentGuid = d, documentName = ''Report'', documentType = ''Lab'',
      documentDateTime = ''2024-01-01'',
      documentContentMetadata = Some \<lparr>mediaType = ''application/pdf'', size_bytes = 3\<rparr>\<rparr>"

definition demo_patient :: FhirPatient where
  "demo_patient =
     \<lparr>patient_id = ''patient-1'',
      patient_name = Some [\<lparr>name_text = Some ''Ada Lovelace'', given = None, family = None,
                             prefix = None, suffix = None\<rparr>],
      patient_other = []\<rparr>"

definition demo_env :: env where
  "demo_env =
     \<lparr>getPatient = (\<lambda>base p token. Inr demo_patient),
      getDocumentMetadata = (\<lambda>d token. Inr (demo_document d)),
      getDocumentContent = (\<lambda>d token. Inr ([1, 2, 3], ''application/pdf'')),
      putObject = (\<lambda>k. None),
      getSignedUrl = (\<lambda>k. Inr (''https://s3.example.org/'' @ k)),
      ipApi = (\<lambda>ip. None),
      JSON_stringify_bundle = (\<lambda>b. ''{}''),
      toISOString = (\<lambda>t. ''2025-01-01T00:00:00.000Z''),
      addDays = (\<lambda>t n. t + n * 86400000),
      toLocaleDateString = (\<lambda>t. ''Wednesday, January 1, 2025''),
      toLocaleString = (\<lambda>t. ''Jan 1, 2025, 12:00 AM'')\<rparr>"

definition demo_entropy :: entropy where
  "demo_entropy =
     \<lparr>key_bytes = demo_rng,
      id_bytes = (\<lambda>i. of_nat (i + 100)),
      iv_bytes = (\<lambda>n i. of_nat (n + i)),
      bundle_uuid = (\<lambda>n. ''6f1c2a58-bundle-entry''),
      log_uuid = (\<lambda>n. if n = 0 then ''0b9d-log-0'' else if n = 1 then ''0b9d-log-1''
                        else ''0b9d-log-2'')\<rparr>"

definition demo_stored_token :: "byte list" where
  "demo_stored_token =
     (case encryptTokenForStorage demo_world demo_rng ''access-token'' demo_key of
        Inr stored \<Rightarrow> stored
      | Inl err \<Rightarrow> [])"

definition demo_session :: session_row where
  "demo_session =
     \<lparr>session_id = ''session-1'',
      iss = ''https://fhir.example.org'',
      session_patientId = ''patient-1'',
      session_patientName = None,
      session_providerId = ''provider-1'',
      session_providerName = Some ''Dr. Adams'',
      accessTokenEncrypted = demo_stored_token,
      refreshTokenEncrypted = None,
      session_expiresAt = 2000000,
      session_createdAt = 0\<rparr>"

definition demo_context :: session_context where
  "demo_context =
     \<lparr>ctx_sessionId = ''session-1'',
      ctx_iss = ''https://fhir.example.org'',
      ctx_patientId = ''patient-1'',
      ctx_providerId = ''provider-1'',
      ctx_providerName = ''Dr. Adams'',
      ctx_accessToken = ''access-token''\<rparr>"

definition demo_link :: "string \<Rightarrow> shl_status \<Rightarrow> int \<Rightarrow> shl_row" where
  "demo_link i st expires =
     \<lparr>shl_id = i, sessionId = Some ''session-1'', patientId = ''patient-1'',
      patientName = ''Ada Lovelace'', patientPhone = Some ''+15550100'', patientEmail = None,
      providerId = ''provider-1'', providerName = ''Dr. Adams'',
      bundleS3Key = ''shls/'' @ i @ ''/bundle.jwe'', documentS3Keys = ''[]'',
      status = st, expiresAt = expires, accessCount = 0, lastAccessedAt = None,
      createdAt = 0, revokedAt = None, revokedBy = None\<rparr>"

definition demo_system :: system where
  "demo_system =
     \<lparr>shls = [demo_link ''link-active'' active 9000000,
              demo_link ''link-revoked'' revoked 9000000,
              demo_link ''link-expired'' active 1000],
      auditLogs = [],
      sessions = [demo_session],
      bucket = Map.empty,
      outbox = []\<rparr>"

definition demo_request :: "string \<Rightarrow> manifest_request" where
  "demo_request i =
     \<lparr>request_id = i, request_body = Some \<lparr>recipient = Some ''Pharmacy''\<rparr>,
      x_forwarded_for = None, x_real_ip = None,
      user_agent = Some ''curl'', request_ip = ''127.0.0.1''\<rparr>"

text \<open>The same request sent with no body at all.\<close>

definition demo_bare_request :: "string \<Rightarrow> manifest_request" where
  "demo_bare_request i = (demo_request i)\<lparr>request_body := None\<rparr>"

lemma Buffer_from_hex_07: "Buffer_from_hex (concat (replicate n ''07'')) = replicate n 7"
  by (induction n) (simp_all add: hex_value_def)

lemma demo_encryption_key: "getEncryptionKey demo_config = demo_key"
  by (simp add: getEncryptionKey_def demo_config_def demo_key_def Buffer_from_hex_07)

lemma demo_token_decrypts:
  "decryptTokenFromStorage demo_world demo_stored_token demo_key = Inr ''access-token''"
proof -
  obtain stored where "encryptTokenForStorage demo_world demo_rng ''access-token'' demo_key = Inr stored"
    and "decryptTokenFromStorage demo_world stored demo_key = Inr ''access-token''"
    using token_storage_roundtrip [OF demo_world_correct demo_key_length] by blast
  then show ?thesis by (simp add: demo_stored_token_def)
qed

lemma demo_requireSession:
  "now \<le> 2000000 \<Longrightarrow>
   requireSession demo_world demo_config now (Some ''session-1'') demo_system = Inr demo_context"
  by (simp add: requireSession_def truthy_def demo_system_def demo_session_def demo_context_def
      demo_encryption_key demo_token_decrypts)

section \<open>Serving the manifest\<close>

lemma update_shl_tables [simp]:
  "auditLogs (update_shl i f sys) = auditLogs sys"
  "sessions (update_shl i f sys) = sessions sys"
  "bucket (update_shl i f sys) = bucket sys"
  "outbox (update_shl i f sys) = outbox sys"
  "shls (update_shl i f sys) = map (\<lambda>r. if shl_id r = i then f r else r) (shls sys)"
  by (simp_all add: update_shl_def)

lemma mark_expired_idempotent:
  "update_shl i (\<lambda>r. r\<lparr>status := expired\<rparr>) (update_shl i (\<lambda>r. r\<lparr>status := expired\<rparr>) sys)
   = update_shl i (\<lambda>r. r\<lparr>status := expired\<rparr>) sys"
  by (simp add: update_shl_def comp_def)

lemma mark_expired_keeps_counters:
  "map accessCount (map (\<lambda>r. if shl_id r = i then r\<lparr>status := expired\<rparr> else r) rows)
     = map accessCount rows"
  "map lastAccessedAt (map (\<lambda>r. if shl_id r = i then r\<lparr>status := expired\<rparr> else r) rows)
     = map lastAccessedAt rows"
  by (induction rows) simp_all

text \<open>
  A request that carries a body.  An unknown id is answered 404.  A link stored as revoked
  is answered 410 with the revocation message and nothing changes.  Otherwise, when the
  request comes after \<open>expiresAt\<close>, the answer is 410 with the expiry message and the
  only write is \<open>status := expired\<close> on the row of that id: a write that is idempotent,
  leaves every other column, the audit log, the sessions and the bucket as they were, sends
  no notification, and whose answer carries no signed URL.
\<close>

lemma manifest_with_body:
  assumes body: "request_body req = Some b"
  shows "(select_shl sys (\<lambda>r. shl_id r = request_id req) = None \<longrightarrow>
      handleManifest e rnd now req sys
        = (\<lparr>status_code = 404, body = ErrorBody ''Link not found''\<rparr>, sys))
   \<and> (\<forall>shl. select_shl sys (\<lambda>r. shl_id r = request_id req) = Some shl \<and> status shl = revoked \<longrightarrow>
      handleManifest e rnd now req sys
        = (\<lparr>status_code = 410, body = ErrorBody ''This link has been revoked''\<rparr>, sys))
   \<and> (\<forall>shl. select_shl sys (\<lambda>r. shl_id r = request_id req) = Some shl \<and> status shl \<noteq> revoked
          \<and> expiresAt shl < now \<longrightarrow>
      fst (handleManifest e rnd now req sys)
        = \<lparr>status_code = 410, body = ErrorBody ''This link has expired''\<rparr>
      \<and> shls (snd (handleManifest e rnd now req sys))
          = map (\<lambda>r. if shl_id r = request_id req then r\<lparr>status := expired\<rparr> else r) (shls sys)
      \<and> map accessCount (shls (snd (handleManifest e rnd now req sys))) = map accessCount (shls sys)
      \<and> map lastAccessedAt (shls (snd (handleManifest e rnd now req sys)))
          = map lastAccessedAt (shls sys)
      \<and> auditLogs (snd (handleManifest e rnd now req sys)) = auditLogs sys
      \<and> outbox (snd (handleManifest e rnd now req sys)) = outbox sys
      \<and> bucket (snd (handleManifest e rnd now req sys)) = bucket sys
      \<and> sessions (snd (handleManifest e rnd now req sys)) = sessions sys
      \<and> update_shl (request_id req) (\<lambda>r. r\<lparr>status := expired\<rparr>)
            (snd (handleManifest e rnd now req sys))
          = snd (handleManifest e rnd now req sys))"
proof (intro conjI allI impI)
  assume "select_shl sys (\<lambda>r. shl_id r = request_id req) = None"
  then show "handleManifest e rnd now req sys
      = (\<lparr>status_code = 404, body = ErrorBody ''Link not found''\<rparr>, sys)"
    by (simp add: handleManifest_def body)
next
  fix shl
  assume "select_shl sys (\<lambda>r. shl_id r = request_id req) = Some shl \<and> status shl = revoked"
  then show "handleManifest e rnd now req sys
      = (\<lparr>status_code = 410, body = ErrorBody ''This link has been revoked''\<rparr>, sys)"
    by (simp add: handleManifest_def body)
next
  fix shl
  assume a: "select_shl sys (\<lambda>r. shl_id r = request_id req) = Some shl \<and> status shl \<noteq> revoked
      \<and> expiresAt shl < now"
  then have run: "handleManifest e rnd now req sys
      = (\<lparr>status_code = 410, body = ErrorBody ''This link has expired''\<rparr>,
         update_shl (request_id req) (\<lambda>r. r\<lparr>status := expired\<rparr>) sys)"
    by (simp add: handleManifest_def body)
  show "fst (handleManifest e rnd now req sys)
      = \<lparr>status_code = 410, body = ErrorBody ''This link has expired''\<rparr>"
    by (simp add: run)
  show "shls (snd (handleManifest e rnd now req sys))
      = map (\<lambda>r. if shl_id r = request_id req then r\<lparr>status := expired\<rparr> else r) (shls sys)"
    by (simp add: run)
  show "map accessCount (shls (snd (handleManifest e rnd now req sys))) = map accessCount (shls sys)"
    by (simp add: run mark_expired_keeps_counters del: map_map)
  show "map lastAccessedAt (shls (snd (handleManifest e rnd now req sys)))
      = map lastAccessedAt (shls sys)"
    by (simp add: run mark_expired_keeps_counters del: map_map)
  show "auditLogs (snd (handleManifest e rnd now req sys)) = auditLogs sys"
    by (simp add: run)
  show "outbox (snd (handleManifest e rnd now req sys)) = outbox sys"
    by (simp add: run)
  show "bucket (snd (handleManifest e rnd now req sys)) = bucket sys"
    by (simp add: run)
  show "sessions (snd (handleManifest e rnd now req sys)) = sessions sys"
    by (simp add: run)
  show "update_shl (request_id req) (\<lambda>r. r\<lparr>status := expired\<rparr>)
      (snd (handleManifest e rnd now req sys)) = snd (handleManifest e rnd now req sys)"
    by (simp add: run mark_expired_idempotent)
qed

lemma demo_select:
  "select_shl demo_system (\<lambda>r. shl_id r = ''link-unknown'') = None"
  "select_shl demo_system (\<lambda>r. shl_id r = ''link-revoked'')
     = Some (demo_link ''link-revoked'' revoked 9000000)"
  "select_shl demo_system (\<lambda>r. shl_id r = ''link-expired'')
     = Some (demo_link ''link-expired'' active 1000)"
  "select_shl demo_system (\<lambda>r. shl_id r = ''link-active'')
     = Some (demo_link ''link-active'' active 9000000)"
  by (simp_all add: select_shl_def demo_system_def demo_link_def)

lemma manifest_with_body_demo:
  "select_shl demo_system (\<lambda>r. shl_id r = request_id (demo_request ''link-unknown'')) = None
   \<and> handleManifest demo_env demo_entropy 5000 (demo_request ''link-unknown'') demo_system
       = (\<lparr>status_code = 404, body = ErrorBody ''Link not found''\<rparr>, demo_system)
   \<and> status (demo_link ''link-revoked'' revoked 9000000) = revoked
   \<and> handleManifest demo_env demo_entropy 5000 (demo_request ''link-revoked'') demo_system
       = (\<lparr>status_code = 410, body = ErrorBody ''This link has been revoked''\<rparr>, demo_system)
   \<and> status (demo_link ''link-expired'' active 1000) \<noteq> revoked
   \<and> expiresAt (demo_link ''link-expired'' active 1000) < 5000
   \<and> fst (handleManifest demo_env demo_entropy 5000 (demo_request ''link-expired'') demo_system)
       = \<lparr>status_code = 410, body = ErrorBody ''This link has expired''\<rparr>
   \<and> map status (shls (snd (handleManifest demo_env demo_entropy 5000
         (demo_request ''link-expired'') demo_system))) = [active, revoked, expired]
   \<and> auditLogs (snd (handleManifest demo_env demo_entropy 5000
         (demo_request ''link-expired'') demo_system)) = []"
proof -
  have b: "request_body (demo_request i) = Some \<lparr>recipient = Some ''Pharmacy''\<rparr>" for i
    by (simp add: demo_request_def)
  note t = manifest_with_body [OF b, of demo_system _ demo_env demo_entropy 5000]
  have unknown: "select_shl demo_system (\<lambda>r. shl_id r = request_id (demo_request ''link-unknown'')) = None"
    by (simp add: demo_request_def demo_select)
  have revoked': "select_shl demo_system (\<lambda>r. shl_id r = request_id (demo_request ''link-revoked''))
      = Some (demo_link ''link-revoked'' revoked 9000000)
      \<and> status (demo_link ''link-revoked'' revoked 9000000) = revoked"
    by (simp add: demo_request_def demo_select demo_link_def)
  have expired': "select_shl demo_system (\<lambda>r. shl_id r = request_id (demo_request ''link-expired''))
      = Some (demo_link ''link-expired'' active 1000)
      \<and> status (demo_link ''link-expired'' active 1000) \<noteq> revoked
      \<and> expiresAt (demo_link ''link-expired'' active 1000) < 5000"
    by (simp add: demo_request_def demo_select demo_link_def)
  from t [of "''link-unknown''"] unknown
  have 1: "handleManifest demo_env demo_entropy 5000 (demo_request ''link-unknown'') demo_system
       = (\<lparr>status_code = 404, body = ErrorBody ''Link not found''\<rparr>, demo_system)"
    by blast
  from t [of "''link-revoked''"] revoked'
  have 2: "handleManifest demo_env demo_entropy 5000 (demo_request ''link-revoked'') demo_system
       = (\<lparr>status_code = 410, body = ErrorBody ''This link has been revoked''\<rparr>, demo_system)"
    by blast
  from t [of "''link-expired''"] expired'
  have 3: "fst (handleManifest demo_env demo_entropy 5000 (demo_request ''link-expired'') demo_system)
       = \<lparr>status_code = 410, body = ErrorBody ''This link has expired''\<rparr>"
    and 4: "shls (snd (handleManifest demo_env demo_entropy 5000 (demo_request ''link-expired'')
          demo_system))
        = map (\<lambda>r. if shl_id r = request_id (demo_request ''link-expired'')
                     then r\<lparr>status := expired\<rparr> else r) (shls demo_system)"
    and 5: "auditLogs (snd (handleManifest demo_env demo_entropy 5000
         (demo_request ''link-expired'') demo_system)) = auditLogs demo_system"
    by blast+
  have 6: "map status (shls (snd (handleManifest demo_env demo_entropy 5000
         (demo_request ''link-expired'') demo_system))) = [active, revoked, expired]"
    unfolding 4 by (simp add: demo_system_def demo_link_def demo_request_def)
  show ?thesis
    using unknown revoked' expired' 1 2 3 5 6 by (simp add: demo_system_def)
qed

text \<open>
  Claim C3 (manifest of an unknown, revoked or expired link), evaluated on a request that
  carries no body.  The handler throws while destructuring \<open>request.body\<close>, before the
  link is looked up: the answer is 500 for an unknown id (not 404), for a revoked link and
  for an expired one (not 410), and the expired link is not marked \<open>expired\<close>.
\<close>

theorem manifest_without_body:
  "select_shl demo_system (\<lambda>r. shl_id r = request_id (demo_bare_request ''link-unknown'')) = None
   \<and> handleManifest demo_env demo_entropy 5000 (demo_bare_request ''link-unknown'') demo_system
       = (\<lparr>status_code = 500, body = InternalServerError (body_undefined ''recipient'')\<rparr>,
          demo_system)
   \<and> map_option status (select_shl demo_system (\<lambda>r. shl_id r = ''link-revoked'')) = Some revoked
   \<and> handleManifest demo_env demo_entropy 5000 (demo_bare_request ''link-revoked'') demo_system
       = (\<lparr>status_code = 500, body = InternalServerError (body_undefined ''recipient'')\<rparr>,
          demo_system)
   \<and> map_option expiresAt (select_shl demo_system (\<lambda>r. shl_id r = ''link-expired'')) = Some 1000
   \<and> handleManifest demo_env demo_entropy 5000 (demo_bare_request ''link-expired'') demo_system
       = (\<lparr>status_code = 500, body = InternalServerError (body_undefined ''recipient'')\<rparr>,
          demo_system)
   \<and> map_option status (select_shl (snd (handleManifest demo_env demo_entropy 5000
         (demo_bare_request ''link-expired'') demo_system)) (\<lambda>r. shl_id r = ''link-expired''))
       = Some active
   \<and> fst (handleManifest demo_env demo_entropy 5000 (demo_request ''link-unknown'') demo_system)
       = \<lparr>status_code = 404, body = ErrorBody ''Link not found''\<rparr>"
  by (simp add: handleManifest_def demo_bare_request_def demo_request_def demo_select
      demo_link_def)

section \<open>Revocation\<close>

lemma find_map_update:
  assumes "\<And>r. P (f r) = P r"
  shows "find P (map (\<lambda>r. if Q r then f r else r) rows)
           = map_option (\<lambda>r. if Q r then f r else r) (find P rows)"
  using assms by (induction rows) auto

lemma select_after_revoke:
  "select_shl sys (\<lambda>r. shl_id r = i \<and> patientId r = p) = Some shl \<Longrightarrow>
   select_shl (update_shl i (\<lambda>r. r\<lparr>status := revoked, revokedAt := t, revokedBy := b\<rparr>) sys)
      (\<lambda>r. shl_id r = i \<and> patientId r = p)
     = Some (shl\<lparr>status := revoked, revokedAt := t, revokedBy := b\<rparr>)"
proof -
  assume a: "select_shl sys (\<lambda>r. shl_id r = i \<and> patientId r = p) = Some shl"
  then have "shl_id shl = i"
    by (auto simp: select_shl_def dest: find_Some_iff [THEN iffD1])
  with a show ?thesis
    by (simp add: select_shl_def update_shl_def find_map_update)
qed

lemma insert_audit_log_tables:
  "insert_audit_log l sys = Inr sys' \<Longrightarrow>
   shls sys' = shls sys \<and> sessions sys' = sessions sys \<and> bucket sys' = bucket sys
     \<and> outbox sys' = outbox sys \<and> auditLogs sys' = auditLogs sys @ [l]"
  by (auto simp: insert_audit_log_def split: if_splits)

lemma insert_audit_log_fresh:
  "log_id l \<notin> log_id ` set (auditLogs sys) \<Longrightarrow>
   insert_audit_log l sys = Inr (sys\<lparr>auditLogs := auditLogs sys @ [l]\<rparr>)"
  by (simp add: insert_audit_log_def)

definition revocation_log :: "entropy \<Rightarrow> int \<Rightarrow> session_context \<Rightarrow> string \<Rightarrow> audit_log" where
  "revocation_log rnd now session i =
     (new_audit_log (log_uuid rnd 0) i SHL_REVOKED now)
       \<lparr>log_providerId := Some (ctx_providerId session),
        log_providerName := Some (ctx_providerName session)\<rparr>"

lemma revoke_shls:
  assumes "requireSession w cfg now cookie sys = Inr session"
    and "select_shl sys (\<lambda>r. shl_id r = i \<and> patientId r = ctx_patientId session) = Some shl"
    and "status shl \<noteq> revoked"
  shows "shls (snd (handleRevokeShl w cfg rnd now cookie i sys))
           = shls (update_shl i (\<lambda>r. r\<lparr>status := revoked,
                                         revokedAt := Some (timestamp_column now),
                                         revokedBy := Some (ctx_providerId session)\<rparr>) sys)"
    and "status_code (fst (handleRevokeShl w cfg rnd now cookie i sys)) \<in> {200, 500}"
  using assms
  by (auto simp: handleRevokeShl_def Let_def split: sum.splits dest: insert_audit_log_tables)

lemma revoke_fresh:
  assumes "requireSession w cfg now cookie sys = Inr session"
    and "select_shl sys (\<lambda>r. shl_id r = i \<and> patientId r = ctx_patientId session) = Some shl"
    and "status shl \<noteq> revoked"
    and "log_uuid rnd 0 \<notin> log_id ` set (auditLogs sys)"
  shows "handleRevokeShl w cfg rnd now cookie i sys
           = (\<lparr>status_code = 200, body = RevokedBody ''Health link revoked''\<rparr>,
              (update_shl i (\<lambda>r. r\<lparr>status := revoked,
                                     revokedAt := Some (timestamp_column now),
                                     revokedBy := Some (ctx_providerId session)\<rparr>) sys)
                \<lparr>auditLogs := auditLogs sys @ [revocation_log rnd now session i]\<rparr>)"
  using assms
  by (simp add: handleRevokeShl_def Let_def insert_audit_log_def revocation_log_def new_audit_log_def)

text \<open>
  Claim C10 (revoking an expired link).  A link stored as expired, or stored as active
  with \<open>expiresAt\<close> in the past, is not rejected by the revoke operation: the answer is
  neither the 400 of an already revoked link nor a 404, and the persisted row becomes
  revoked with the revocation time and the revoking provider stamped.  When the audit
  row's fresh id is not yet in the log the answer is the success message.
\<close>

theorem revoke_expired_link:
  assumes "requireSession w cfg now cookie sys = Inr session"
    and "select_shl sys (\<lambda>r. shl_id r = i \<and> patientId r = ctx_patientId session) = Some shl"
    and "status shl = expired \<or> (status shl = active \<and> expiresAt shl < now)"
  shows "status_code (fst (handleRevokeShl w cfg rnd now cookie i sys)) \<noteq> 400
       \<and> status_code (fst (handleRevokeShl w cfg rnd now cookie i sys)) \<noteq> 404
       \<and> select_shl (snd (handleRevokeShl w cfg rnd now cookie i sys))
            (\<lambda>r. shl_id r = i \<and> patientId r = ctx_patientId session)
           = Some (shl\<lparr>status := revoked, revokedAt := Some (timestamp_column now),
                       revokedBy := Some (ctx_providerId session)\<rparr>)
       \<and> (log_uuid rnd 0 \<notin> log_id ` set (auditLogs sys) \<longrightarrow>
            fst (handleRevokeShl w cfg rnd now cookie i sys)
              = \<lparr>status_code = 200, body = RevokedBody ''Health link revoked''\<rparr>)"
proof -
  from assms(3) have live: "status shl \<noteq> revoked" by auto
  have code: "status_code (fst (handleRevokeShl w cfg rnd now cookie i sys)) \<in> {200, 500}"
    by (rule revoke_shls(2) [OF assms(1,2) live])
  have rows: "shls (snd (handleRevokeShl w cfg rnd now cookie i sys))
      = shls (update_shl i (\<lambda>r. r\<lparr>status := revoked, revokedAt := Some (timestamp_column now),
                                    revokedBy := Some (ctx_providerId session)\<rparr>) sys)"
    by (rule revoke_shls(1) [OF assms(1,2) live])
  have "select_shl (snd (handleRevokeShl w cfg rnd now cookie i sys))
            (\<lambda>r. shl_id r = i \<and> patientId r = ctx_patientId session)
      = select_shl (update_shl i (\<lambda>r. r\<lparr>status := revoked, revokedAt := Some (timestamp_column now),
                                    revokedBy := Some (ctx_providerId session)\<rparr>) sys)
            (\<lambda>r. shl_id r = i \<and> patientId r = ctx_patientId session)"
    by (simp only: select_shl_def rows)
  then have persisted: "select_shl (snd (handleRevokeShl w cfg rnd now cookie i sys))
            (\<lambda>r. shl_id r = i \<and> patientId r = ctx_patientId session)
           = Some (shl\<lparr>status := revoked, revokedAt := Some (timestamp_column now),
                       revokedBy := Some (ctx_providerId session)\<rparr>)"
    by (simp only: select_after_revoke [OF assms(2)])
  have ok: "log_uuid rnd 0 \<notin> log_id ` set (auditLogs sys) \<longrightarrow>
            fst (handleRevokeShl w cfg rnd now cookie i sys)
              = \<lparr>status_code = 200, body = RevokedBody ''Health link revoked''\<rparr>"
    using revoke_fresh [OF assms(1,2) live] by simp
  from code persisted ok show ?thesis by auto
qed

lemma demo_select_own:
  "select_shl demo_system (\<lambda>r. shl_id r = ''link-expired'' \<and> patientId r = ctx_patientId demo_context)
     = Some (demo_link ''link-expired'' active 1000)"
  "select_shl demo_system (\<lambda>r. shl_id r = ''link-revoked'' \<and> patientId r = ctx_patientId demo_context)
     = Some (demo_link ''link-revoked'' revoked 9000000)"
  "select_shl demo_system (\<lambda>r. shl_id r = ''link-active'' \<and> patientId r = ctx_patientId demo_context)
     = Some (demo_link ''link-active'' active 9000000)"
  by (simp_all add: select_shl_def demo_system_def demo_link_def demo_context_def)

theorem revoke_expired_link_witness:
  "requireSession demo_world demo_config 5000 (Some ''session-1'') demo_system = Inr demo_context
   \<and> select_shl demo_system
        (\<lambda>r. shl_id r = ''link-expired'' \<and> patientId r = ctx_patientId demo_context)
       = Some (demo_link ''link-expired'' active 1000)
   \<and> status (demo_link ''link-expired'' active 1000) = active
   \<and> expiresAt (demo_link ''link-expired'' active 1000) < 5000
   \<and> select_shl (snd (handleRevokeShl demo_world demo_config demo_entropy 5000 (Some ''session-1'')
                         ''link-expired'' demo_system))
        (\<lambda>r. shl_id r = ''link-expired'' \<and> patientId r = ctx_patientId demo_context)
       = Some ((demo_link ''link-expired'' active 1000)
                 \<lparr>status := revoked, revokedAt := Some 5000, revokedBy := Some ''provider-1''\<rparr>)
   \<and> fst (handleRevokeShl demo_world demo_config demo_entropy 5000 (Some ''session-1'')
            ''link-expired'' demo_system)
       = \<lparr>status_code = 200, body = RevokedBody ''Health link revoked''\<rparr>"
proof -
  have s: "requireSession demo_world demo_config 5000 (Some ''session-1'') demo_system = Inr demo_context"
    by (rule demo_requireSession) simp
  have l: "status (demo_link ''link-expired'' active 1000) = expired
      \<or> (status (demo_link ''link-expired'' active 1000) = active
          \<and> expiresAt (demo_link ''link-expired'' active 1000) < 5000)"
    by (simp add: demo_link_def)
  have fresh: "log_uuid demo_entropy 0 \<notin> log_id ` set (auditLogs demo_system)"
    by (simp add: demo_system_def)
  note t = revoke_expired_link [OF s demo_select_own(1) l, of demo_entropy]
  from t fresh have "fst (handleRevokeShl demo_world demo_config demo_entropy 5000 (Some ''session-1'')
            ''link-expired'' demo_system)
       = \<lparr>status_code = 200, body = RevokedBody ''Health link revoked''\<rparr>"
    by blast
  moreover from t have "select_shl (snd (handleRevokeShl demo_world demo_config demo_entropy 5000
        (Some ''session-1'') ''link-expired'' demo_system))
        (\<lambda>r. shl_id r = ''link-expired'' \<and> patientId r = ctx_patientId demo_context)
       = Some ((demo_link ''link-expired'' active 1000)
                 \<lparr>status := revoked, revokedAt := Some (timestamp_column 5000),
                  revokedBy := Some (ctx_providerId demo_context)\<rparr>)"
    by blast
  ultimately show ?thesis
    using s demo_select_own(1)
    by (simp add: demo_link_def demo_context_def timestamp_column_def)
qed

subsection \<open>Sequences of operations\<close>

text \<open>
  The operations that reach the registry, each with the random values it draws and the
  instant at which it runs; the instants of a sequence are unrelated, so time may advance
  past any expiry between two operations.
\<close>

datatype operation =
    ManifestRequest entropy int manifest_request
  | RevokeRequest entropy int "string option" string
  | ListRequest int "string option"
  | GenerateRequest entropy int "string option" "GenerateShlBody option"

fun perform :: "world \<Rightarrow> env \<Rightarrow> config \<Rightarrow> operation \<Rightarrow> system \<Rightarrow> system" where
  "perform w e cfg (ManifestRequest rnd now req) sys = snd (handleManifest e rnd now req sys)"
| "perform w e cfg (RevokeRequest rnd now cookie i) sys = snd (handleRevokeShl w cfg rnd now cookie i sys)"
| "perform w e cfg (ListRequest now cookie) sys = snd (handleListShls w cfg now cookie sys)"
| "perform w e cfg (GenerateRequest rnd now cookie b) sys =
     snd (handleGenerateShl w e cfg rnd now cookie b sys)"

fun run :: "world \<Rightarrow> env \<Rightarrow> config \<Rightarrow> operation list \<Rightarrow> system \<Rightarrow> system" where
  "run w e cfg [] sys = sys"
| "run w e cfg (op # ops) sys = run w e cfg ops (perform w e cfg op sys)"

definition link_status :: "system \<Rightarrow> string \<Rightarrow> shl_status option" where
  "link_status sys i = map_option status (select_shl sys (\<lambda>r. shl_id r = i))"

lemma link_status_rows:
  "shls sys' = shls sys \<Longrightarrow> link_status sys' i = link_status sys i"
  by (simp add: link_status_def select_shl_def)

lemma link_status_update:
  assumes "link_status sys i = Some revoked"
    and "\<And>r. shl_id (f r) = shl_id r"
    and "j = i \<Longrightarrow> (\<And>r. status r = revoked \<Longrightarrow> status (f r) = revoked)"
  shows "link_status (update_shl j f sys) i = Some revoked"
proof -
  have same: "(shl_id (f r) = i) = (shl_id r = i)" for r
    by (simp add: assms(2))
  obtain r where r: "find (\<lambda>r. shl_id r = i) (shls sys) = Some r" and st: "status r = revoked"
    using assms(1) by (auto simp: link_status_def select_shl_def)
  then have "shl_id r = i"
    by (auto dest: find_Some_iff [THEN iffD1])
  then show ?thesis
    using r st assms(3)
    by (auto simp: link_status_def select_shl_def update_shl_def
        find_map_update [where P = "\<lambda>r. shl_id r = i" and f = f, OF same])
qed

lemma find_append_keep: "find P xs = Some x \<Longrightarrow> find P (xs @ ys) = Some x"
  by (induction xs) auto

lemma link_status_insert:
  assumes "insert_shl r sys = Inr sys'" and "link_status sys i = Some st"
  shows "link_status sys' i = Some st"
proof -
  from assms(1) have rows: "shls sys' = shls sys @ [r]"
    by (auto simp: insert_shl_def split: if_splits)
  from assms(2) obtain z where z: "find (\<lambda>r. shl_id r = i) (shls sys) = Some z" and "status z = st"
    by (auto simp: link_status_def select_shl_def)
  then show ?thesis
    by (simp add: link_status_def select_shl_def rows find_append_keep [OF z])
qed

lemma manifest_keeps_revoked:
  assumes "link_status sys i = Some revoked"
  shows "link_status (snd (handleManifest e rnd now req sys)) i = Some revoked"
proof (cases "request_body req")
  case None
  then show ?thesis using assms by (simp add: handleManifest_def)
next
  case b: (Some b)
  show ?thesis
proof (cases "select_shl sys (\<lambda>r. shl_id r = request_id req)")
  case None
  then show ?thesis using assms b by (simp add: handleManifest_def)
next
  case (Some shl)
  show ?thesis
  proof (cases "status shl = revoked")
    case True
    with Some show ?thesis using assms b by (simp add: handleManifest_def)
  next
    case False
    have other: "request_id req \<noteq> i"
    proof
      assume "request_id req = i"
      with Some have "link_status sys i = Some (status shl)"
        by (simp add: link_status_def)
      with assms False show False by simp
    qed
    show ?thesis
    proof (cases "expiresAt shl < now")
      case True
      have kept: "link_status (update_shl (request_id req) (\<lambda>r. r\<lparr>status := expired\<rparr>) sys) i
          = Some revoked"
        by (rule link_status_update [OF assms]) (simp_all add: other)
      have "snd (handleManifest e rnd now req sys)
          = update_shl (request_id req) (\<lambda>r. r\<lparr>status := expired\<rparr>) sys"
        using Some False True b by (simp add: handleManifest_def)
      then show ?thesis
        by (simp only: kept)
    next
      case fresh: False
      show ?thesis
      proof (cases "insert_audit_log (accessed_log e rnd now req (recipient b)) sys")
        case (Inl err)
        have "snd (handleManifest e rnd now req sys) = sys"
          using Some False fresh Inl b by (simp add: handleManifest_def)
        then show ?thesis
          by (simp only: assms)
      next
        case (Inr sys1)
        then have "shls sys1 = shls sys" by (auto dest: insert_audit_log_tables)
        then have s1: "link_status sys1 i = Some revoked"
          using assms by (simp only: link_status_rows [of sys1 sys])
        have counted: "link_status (count_access shl now (request_id req) sys1) i = Some revoked"
          unfolding count_access_def
          by (rule link_status_update [OF s1]) (simp_all add: other)
        have "shls (notify_access e shl now req (recipient b) (count_access shl now (request_id req) sys1))
            = shls (count_access shl now (request_id req) sys1)"
          by (simp add: notify_access_def)
        from link_status_rows [OF this]
        have notified: "link_status (notify_access e shl now req (recipient b)
            (count_access shl now (request_id req) sys1)) i = Some revoked"
          using counted by simp
        have "snd (handleManifest e rnd now req sys)
            = notify_access e shl now req (recipient b) (count_access shl now (request_id req) sys1)"
          using Some False fresh Inr b by (simp add: handleManifest_def)
        then show ?thesis
          by (simp only: notified)
      qed
    qed
  qed
qed
qed

lemma revoke_keeps_revoked:
  assumes "link_status sys i = Some revoked"
  shows "link_status (snd (handleRevokeShl w cfg rnd now cookie j sys)) i = Some revoked"
proof (cases "requireSession w cfg now cookie sys")
  case (Inl reply)
  then show ?thesis using assms by (simp add: handleRevokeShl_def)
next
  case (Inr session)
  show ?thesis
  proof (cases "select_shl sys (\<lambda>r. shl_id r = j \<and> patientId r = ctx_patientId session)")
    case None
    with Inr show ?thesis using assms by (simp add: handleRevokeShl_def)
  next
    case (Some shl)
    show ?thesis
    proof (cases "status shl = revoked")
      case True
      with Inr Some show ?thesis using assms by (simp add: handleRevokeShl_def)
    next
      case False
      have "link_status (update_shl j (\<lambda>r. r\<lparr>status := revoked,
              revokedAt := Some (timestamp_column now),
              revokedBy := Some (ctx_providerId session)\<rparr>) sys) i = Some revoked"
        by (intro link_status_update [OF assms]) simp_all
      then show ?thesis
        unfolding link_status_def select_shl_def revoke_shls(1) [OF Inr Some False] .
    qed
  qed
qed

lemma list_changes_nothing: "snd (handleListShls w cfg now cookie sys) = sys"
  by (cases "requireSession w cfg now cookie sys") (simp_all add: handleListShls_def)

lemma log_deliveries_rows: "shls (snd (log_deliveries rnd now b i ds sys)) = shls sys"
  by (simp add: log_deliveries_def insert_audit_log_def)

lemma log_deliveries_rows_eq:
  "log_deliveries rnd now b i ds sys = (r, sys') \<Longrightarrow> shls sys' = shls sys"
  using log_deliveries_rows [of rnd now b i ds sys] by simp

lemma issue_link_rows:
  "shls (snd (issue_link w e cfg rnd now session b sys)) = shls sys
   \<or> (\<exists>r sys0 sys1. shls sys0 = shls sys \<and> insert_shl r sys0 = Inr sys1
        \<and> shls (snd (issue_link w e cfg rnd now session b sys)) = shls sys1)"
proof -
  let ?params = "\<lparr>params_sessionId = ctx_sessionId session, fhirBaseUrl = ctx_iss session,
      params_patientId = ctx_patientId session, accessToken = ctx_accessToken session,
      documentIds = body_documentIds b, phone = body_phone b, params_email = body_email b,
      expirationDays = validExpiration cfg (body_expirationDays b),
      params_providerId = ctx_providerId session,
      params_providerName = ctx_providerName session\<rparr>"
  obtain outcome store where g: "generateShl w e cfg rnd now ?params (bucket sys) = (outcome, store)"
    by (cases "generateShl w e cfg rnd now ?params (bucket sys)")
  show ?thesis
  proof (cases outcome)
    case (Inl err)
    with g show ?thesis by (simp add: issue_link_def Let_def)
  next
    case result: (Inr result)
    show ?thesis
    proof (cases "insert_shl (new_shl_row session b result now) (sys\<lparr>bucket := store\<rparr>)")
      case (Inl err)
      with g result show ?thesis by (simp add: issue_link_def Let_def)
    next
      case sys1: (Inr sys1)
      let ?created = "(new_audit_log (log_uuid rnd 0) (result_id result) SHL_CREATED now)
          \<lparr>log_providerId := Some (ctx_providerId session),
           log_providerName := Some (ctx_providerName session),
           details := Some (created_details (length (body_documentIds b))
                              (validExpiration cfg (body_expirationDays b)))\<rparr>"
      have "shls (snd (issue_link w e cfg rnd now session b sys)) = shls sys1"
      proof (cases "insert_audit_log ?created sys1")
        case (Inl err)
        with g result sys1 show ?thesis by (simp add: issue_link_def Let_def)
      next
        case sys2: (Inr sys2)
        then have r2: "shls sys2 = shls sys1" by (auto dest: insert_audit_log_tables)
        obtain ds out where n: "sendDeliveryNotification e (result_patientName result) (body_phone b)
            (body_email b) (viewerUrl result) (result_expiresAt result)
            (length (body_documentIds b)) (outbox sys2) = (ds, out)"
          by (cases "sendDeliveryNotification e (result_patientName result) (body_phone b)
            (body_email b) (viewerUrl result) (result_expiresAt result)
            (length (body_documentIds b)) (outbox sys2)")
        obtain failure sys3 where l: "log_deliveries rnd now b (result_id result) ds
            (sys2\<lparr>outbox := out\<rparr>) = (failure, sys3)"
          by (cases "log_deliveries rnd now b (result_id result) ds (sys2\<lparr>outbox := out\<rparr>)")
        then have r3: "shls sys3 = shls sys1"
          using log_deliveries_rows_eq [OF l] r2 by simp
        show ?thesis
          using g result sys1 sys2 n l r3
          by (cases failure) (simp_all add: issue_link_def Let_def)
      qed
      moreover have "shls (sys\<lparr>bucket := store\<rparr>) = shls sys" by simp
      ultimately show ?thesis using sys1 by blast
    qed
  qed
qed

lemma generate_rows:
  "shls (snd (handleGenerateShl w e cfg rnd now cookie b sys)) = shls sys
   \<or> (\<exists>r sys0 sys1. shls sys0 = shls sys \<and> insert_shl r sys0 = Inr sys1
        \<and> shls (snd (handleGenerateShl w e cfg rnd now cookie b sys)) = shls sys1)"
  using issue_link_rows [of w e cfg rnd now _ _ sys]
  by (auto simp: handleGenerateShl_def split: sum.splits option.splits)

lemma generate_keeps_revoked:
  assumes "link_status sys i = Some revoked"
  shows "link_status (snd (handleGenerateShl w e cfg rnd now cookie b sys)) i = Some revoked"
proof -
  from generate_rows [of w e cfg rnd now cookie b sys]
  consider "shls (snd (handleGenerateShl w e cfg rnd now cookie b sys)) = shls sys"
    | r sys0 sys1 where "shls sys0 = shls sys" "insert_shl r sys0 = Inr sys1"
        "shls (snd (handleGenerateShl w e cfg rnd now cookie b sys)) = shls sys1"
    by blast
  then show ?thesis
  proof cases
    case 1
    from link_status_rows [OF 1] show ?thesis using assms by simp
  next
    case 2
    from link_status_rows [OF 2(1)] assms have "link_status sys0 i = Some revoked"
      by simp
    then have "link_status sys1 i = Some revoked"
      by (rule link_status_insert [OF 2(2)])
    with link_status_rows [OF 2(3)] show ?thesis by simp
  qed
qed

lemma perform_keeps_revoked:
  "link_status sys i = Some revoked \<Longrightarrow> link_status (perform w e cfg op sys) i = Some revoked"
  by (cases op)
     (simp_all add: manifest_keeps_revoked revoke_keeps_revoked generate_keeps_revoked
        list_changes_nothing)

lemma run_keeps_revoked:
  "link_status sys i = Some revoked \<Longrightarrow> link_status (run w e cfg ops sys) i = Some revoked"
  by (induction ops arbitrary: sys) (simp_all add: perform_keeps_revoked)

text \<open>
  Claim C4 (revocation is terminal).  Revoking a link that is stored as revoked answers
  400 ``already revoked'' and changes nothing.  Revoking any other link of the session's
  patient sets its status to revoked, stamps the revocation time and the revoking
  provider, and appends one \<open>SHL_REVOKED\<close> audit row (its fresh id not yet being in the
  log).  And once a link's persisted status is revoked it stays revoked through every
  sequence of manifest requests, revocations, listings and issuances, run at any instants.
\<close>

theorem revocation_is_terminal:
  "(requireSession w cfg now cookie sys = Inr session
      \<and> select_shl sys (\<lambda>r. shl_id r = i \<and> patientId r = ctx_patientId session) = Some shl
      \<and> status shl = revoked \<longrightarrow>
    handleRevokeShl w cfg rnd now cookie i sys
      = (\<lparr>status_code = 400, body = ErrorBody ''Health link is already revoked''\<rparr>, sys))
   \<and> (requireSession w cfg now cookie sys = Inr session
      \<and> select_shl sys (\<lambda>r. shl_id r = i \<and> patientId r = ctx_patientId session) = Some shl
      \<and> status shl \<noteq> revoked
      \<and> log_uuid rnd 0 \<notin> log_id ` set (auditLogs sys) \<longrightarrow>
    fst (handleRevokeShl w cfg rnd now cookie i sys)
      = \<lparr>status_code = 200, body = RevokedBody ''Health link revoked''\<rparr>
    \<and> shls (snd (handleRevokeShl w cfg rnd now cookie i sys))
        = map (\<lambda>r. if shl_id r = i
                     then r\<lparr>status := revoked, revokedAt := Some (timestamp_column now),
                            revokedBy := Some (ctx_providerId session)\<rparr>
                     else r) (shls sys)
    \<and> auditLogs (snd (handleRevokeShl w cfg rnd now cookie i sys))
        = auditLogs sys @ [revocation_log rnd now session i]
    \<and> eventType (revocation_log rnd now session i) = SHL_REVOKED
    \<and> shlId (revocation_log rnd now session i) = Some i
    \<and> log_providerId (revocation_log rnd now session i) = Some (ctx_providerId session)
    \<and> link_status (snd (handleRevokeShl w cfg rnd now cookie i sys)) i = Some revoked)
   \<and> (link_status sys i = Some revoked \<longrightarrow>
        link_status (run w e cfg ops sys) i = Some revoked
        \<and> link_status (run w e cfg ops sys) i \<noteq> Some active)"
proof (intro conjI impI)
  assume "requireSession w cfg now cookie sys = Inr session
      \<and> select_shl sys (\<lambda>r. shl_id r = i \<and> patientId r = ctx_patientId session) = Some shl
      \<and> status shl = revoked"
  then show "handleRevokeShl w cfg rnd now cookie i sys
      = (\<lparr>status_code = 400, body = ErrorBody ''Health link is already revoked''\<rparr>, sys)"
    by (simp add: handleRevokeShl_def)
next
  assume a: "requireSession w cfg now cookie sys = Inr session
      \<and> select_shl sys (\<lambda>r. shl_id r = i \<and> patientId r = ctx_patientId session) = Some shl
      \<and> status shl \<noteq> revoked
      \<and> log_uuid rnd 0 \<notin> log_id ` set (auditLogs sys)"
  then have s: "requireSession w cfg now cookie sys = Inr session"
    and l: "select_shl sys (\<lambda>r. shl_id r = i \<and> patientId r = ctx_patientId session) = Some shl"
    and live: "status shl \<noteq> revoked"
    and fresh: "log_uuid rnd 0 \<notin> log_id ` set (auditLogs sys)"
    by simp_all
  note ran = revoke_fresh [OF s l live fresh]
  show "fst (handleRevokeShl w cfg rnd now cookie i sys)
      = \<lparr>status_code = 200, body = RevokedBody ''Health link revoked''\<rparr>"
    by (simp add: ran)
  show "shls (snd (handleRevokeShl w cfg rnd now cookie i sys))
        = map (\<lambda>r. if shl_id r = i
                     then r\<lparr>status := revoked, revokedAt := Some (timestamp_column now),
                            revokedBy := Some (ctx_providerId session)\<rparr>
                     else r) (shls sys)"
    by (simp add: ran)
  show "auditLogs (snd (handleRevokeShl w cfg rnd now cookie i sys))
        = auditLogs sys @ [revocation_log rnd now session i]"
    by (simp add: ran)
  show "eventType (revocation_log rnd now session i) = SHL_REVOKED"
    by (simp add: revocation_log_def new_audit_log_def)
  show "shlId (revocation_log rnd now session i) = Some i"
    by (simp add: revocation_log_def new_audit_log_def)
  show "log_providerId (revocation_log rnd now session i) = Some (ctx_providerId session)"
    by (simp add: revocation_log_def new_audit_log_def)
  have first: "shl_id shl = i"
    using l by (auto simp: select_shl_def dest: find_Some_iff [THEN iffD1])
  have "shl \<in> set (shls sys)"
    using l by (auto simp: select_shl_def find_Some_iff)
  then have "find (\<lambda>r. shl_id r = i) (shls sys) \<noteq> None"
    using first by (auto simp: find_None_iff)
  then obtain z where z: "find (\<lambda>r. shl_id r = i) (shls sys) = Some z"
    by auto
  then have zi: "shl_id z = i"
    by (auto dest: find_Some_iff [THEN iffD1])
  show "link_status (snd (handleRevokeShl w cfg rnd now cookie i sys)) i = Some revoked"
    using z zi
    by (simp add: ran link_status_def select_shl_def update_shl_def
        find_map_update [where P = "\<lambda>r. shl_id r = i"
          and f = "\<lambda>r. r\<lparr>status := revoked, revokedAt := Some (timestamp_column now),
                           revokedBy := Some (ctx_providerId session)\<rparr>"])
next
  assume "link_status sys i = Some revoked"
  then show "link_status (run w e cfg ops sys) i = Some revoked"
    by (rule run_keeps_revoked)
next
  assume "link_status sys i = Some revoked"
  then have "link_status (run w e cfg ops sys) i = Some revoked"
    by (rule run_keeps_revoked)
  then show "link_status (run w e cfg ops sys) i \<noteq> Some active"
    by simp
qed

definition demo_operations :: "operation list" where
  "demo_operations =
     [ManifestRequest demo_entropy 5000 (demo_request ''link-revoked''),
      RevokeRequest demo_entropy 6000 (Some ''session-1'') ''link-revoked'',
      ListRequest 7000 (Some ''session-1''),
      ManifestRequest demo_entropy 99000000 (demo_request ''link-revoked''),
      RevokeRequest demo_entropy 8000 (Some ''session-1'') ''link-active'']"

theorem revocation_is_terminal_witness:
  "requireSession demo_world demo_config 5000 (Some ''session-1'') demo_system = Inr demo_context
   \<and> status (demo_link ''link-revoked'' revoked 9000000) = revoked
   \<and> handleRevokeShl demo_world demo_config demo_entropy 5000 (Some ''session-1'') ''link-revoked''
        demo_system
       = (\<lparr>status_code = 400, body = ErrorBody ''Health link is already revoked''\<rparr>, demo_system)
   \<and> status (demo_link ''link-active'' active 9000000) \<noteq> revoked
   \<and> fst (handleRevokeShl demo_world demo_config demo_entropy 5000 (Some ''session-1'')
            ''link-active'' demo_system)
       = \<lparr>status_code = 200, body = RevokedBody ''Health link revoked''\<rparr>
   \<and> link_status (snd (handleRevokeShl demo_world demo_config demo_entropy 5000 (Some ''session-1'')
            ''link-active'' demo_system)) ''link-active'' = Some revoked
   \<and> link_status demo_system ''link-revoked'' = Some revoked
   \<and> link_status (run demo_world demo_env demo_config demo_operations demo_system) ''link-revoked''
       = Some revoked"
proof -
  have s: "requireSession demo_world demo_config 5000 (Some ''session-1'') demo_system = Inr demo_context"
    by (rule demo_requireSession) simp
  have r: "status (demo_link ''link-revoked'' revoked 9000000) = revoked"
    and a: "status (demo_link ''link-active'' active 9000000) \<noteq> revoked"
    by (simp_all add: demo_link_def)
  have fresh: "log_uuid demo_entropy 0 \<notin> log_id ` set (auditLogs demo_system)"
    by (simp add: demo_system_def)
  have st: "link_status demo_system ''link-revoked'' = Some revoked"
    by (simp add: link_status_def demo_select demo_link_def)
  have 1: "handleRevokeShl demo_world demo_config demo_entropy 5000 (Some ''session-1'')
        ''link-revoked'' demo_system
       = (\<lparr>status_code = 400, body = ErrorBody ''Health link is already revoked''\<rparr>, demo_system)"
    using revocation_is_terminal [where w = demo_world and cfg = demo_config and now = 5000
        and cookie = "Some ''session-1''" and sys = demo_system and session = demo_context
        and i = "''link-revoked''" and shl = "demo_link ''link-revoked'' revoked 9000000"
        and rnd = demo_entropy]
      s demo_select_own(2) r
    by blast
  have 2: "fst (handleRevokeShl demo_world demo_config demo_entropy 5000 (Some ''session-1'')
            ''link-active'' demo_system)
       = \<lparr>status_code = 200, body = RevokedBody ''Health link revoked''\<rparr>
     \<and> link_status (snd (handleRevokeShl demo_world demo_config demo_entropy 5000
            (Some ''session-1'') ''link-active'' demo_system)) ''link-active'' = Some revoked"
    using revocation_is_terminal [where w = demo_world and cfg = demo_config and now = 5000
        and cookie = "Some ''session-1''" and sys = demo_system and session = demo_context
        and i = "''link-active''" and shl = "demo_link ''link-active'' active 9000000"
        and rnd = demo_entropy]
      s demo_select_own(3) a fresh
    by blast
  have 3: "link_status (run demo_world demo_env demo_config demo_operations demo_system)
        ''link-revoked'' = Some revoked"
    using revocation_is_terminal [where sys = demo_system and i = "''link-revoked''"
        and w = demo_world and e = demo_env and cfg = demo_config and ops = demo_operations] st
    by blast
  show ?thesis
    using s r a st 1 2 3 by simp
qed

section \<open>Issuing a link\<close>

lemma encryptContent_ok:
  "length k = 32 \<Longrightarrow>
   encryptContent w rng c k T
     = Inr (compact_serialization w rng c [(''alg'', ''dir''), (''enc'', ''A256GCM''), (''cty'', T)] k)"
  by (simp add: encryptContent_def CompactEncrypt_def json_get_def SHL_KEY_BYTES_def
      SHL_KEY_LENGTH_def)

lemma random_key_length: "length (getRandomValues rng 32) = 32"
  by (simp add: getRandomValues_def)

lemma generateManifestId_length: "length (generateManifestId rng) = 43"
  by (simp add: generateManifestId_def base64url_length getRandomValues_def SHL_KEY_BYTES_def
      SHL_KEY_LENGTH_def)

lemma uploadDocument_cases:
  "(putObject e (generateS3Key mid (''doc-'' @ d)) = None
      \<and> uploadDocument e mid d jwe T store
          = (Inr (generateS3Key mid (''doc-'' @ d)),
             store(generateS3Key mid (''doc-'' @ d) \<mapsto>
               \<lparr>Body = jwe, ContentType = S3_CONTENT_TYPE_JWE,
                Metadata = [(''x-shl-type'', ''document''), (''x-original-content-type'', T)]\<rparr>)))
   \<or> (\<exists>err. putObject e (generateS3Key mid (''doc-'' @ d)) = Some err
        \<and> uploadDocument e mid d jwe T store = (Inl err, store))"
  by (cases "putObject e (generateS3Key mid (''doc-'' @ d))")
     (simp_all add: uploadDocument_def uploadEncryptedFile_def Let_def)

lemma uploadBundle_cases:
  "(putObject e (generateS3Key mid ''bundle'') = None
      \<and> uploadBundle e mid jwe store
          = (Inr (generateS3Key mid ''bundle''),
             store(generateS3Key mid ''bundle'' \<mapsto>
               \<lparr>Body = jwe, ContentType = S3_CONTENT_TYPE_JWE,
                Metadata = [(''x-shl-type'', ''bundle'')]\<rparr>)))
   \<or> (\<exists>err. putObject e (generateS3Key mid ''bundle'') = Some err
        \<and> uploadBundle e mid jwe store = (Inl err, store))"
  by (cases "putObject e (generateS3Key mid ''bundle'')")
     (simp_all add: uploadBundle_def uploadEncryptedFile_def Let_def)

text \<open>One turn of the loop: it throws, leaving the bucket as it was or with this document's
  object stored, or it stores the object and yields the document's record.\<close>

lemma upload_one_cases:
  assumes "upload_one w e iv k mid token d store = (r, store')"
  shows "(store' = store \<or> (\<exists>obj. store' = store(generateS3Key mid (''doc-'' @ d) \<mapsto> obj)))
       \<and> (\<forall>up. r = Inr up \<longrightarrow>
            s3Key up = generateS3Key mid (''doc-'' @ d) \<and> documentId up = d
            \<and> (\<exists>obj. store' = store(generateS3Key mid (''doc-'' @ d) \<mapsto> obj)))"
proof (cases "getDocumentMetadata e d token")
  case (Inl err)
  with assms show ?thesis by (auto simp: upload_one_def)
next
  case meta: (Inr meta)
  show ?thesis
  proof (cases "getDocumentContent e d token")
    case (Inl err)
    with assms meta show ?thesis by (auto simp: upload_one_def)
  next
    case content: (Inr cT)
    obtain c T where cT: "cT = (c, T)" by (cases cT)
    show ?thesis
    proof (cases "encryptContent w iv c k T")
      case (Inl err)
      with assms meta content cT show ?thesis by (auto simp: upload_one_def)
    next
      case jwe: (Inr jwe)
      from uploadDocument_cases [of e mid d jwe T store]
      show ?thesis
      proof (elim disjE conjE exE)
        fix err
        assume "uploadDocument e mid d jwe T store = (Inl err, store)"
        with assms meta content cT jwe show ?thesis by (auto simp: upload_one_def)
      next
        let ?obj = "\<lparr>Body = jwe, ContentType = S3_CONTENT_TYPE_JWE,
            Metadata = [(''x-shl-type'', ''document''), (''x-original-content-type'', T)]\<rparr>"
        assume up: "uploadDocument e mid d jwe T store
            = (Inr (generateS3Key mid (''doc-'' @ d)),
               store(generateS3Key mid (''doc-'' @ d) \<mapsto> ?obj))"
        show ?thesis
        proof (cases "generateSignedUrl e (generateS3Key mid (''doc-'' @ d))")
          case (Inl err)
          with assms meta content cT jwe up
          have "r = Inl err \<and> store' = store(generateS3Key mid (''doc-'' @ d) \<mapsto> ?obj)"
            by (auto simp: upload_one_def)
          then show ?thesis by blast
        next
          case (Inr link)
          let ?up = "\<lparr>documentId = d, s3Key = generateS3Key mid (''doc-'' @ d), s3Url = link,
              uploaded_contentType = T, uploaded_size = length c, metadata = meta\<rparr>"
          from assms meta content cT jwe up Inr
          have "r = Inr ?up \<and> store' = store(generateS3Key mid (''doc-'' @ d) \<mapsto> ?obj)"
            by (auto simp: upload_one_def)
          then show ?thesis by auto
        qed
      qed
    qed
  qed
qed


lemma upload_one_stored:
  assumes "upload_one w e iv k mid token d store = (Inr up, store')"
  shows "generateS3Key mid (''doc-'' @ d) \<in> dom store'" and "s3Key up = generateS3Key mid (''doc-'' @ d)"
  using upload_one_cases [OF assms] by (auto simp: fun_upd_idem_iff)

lemma upload_documents_keys:
  "upload_documents w e rnd k mid token ds acc store = (Inr ups, store') \<Longrightarrow>
   map s3Key ups = map s3Key acc @ map (\<lambda>d. generateS3Key mid (''doc-'' @ d)) ds"
proof (induction ds arbitrary: acc store)
  case Nil
  then show ?case by simp
next
  case (Cons d ds)
  obtain r store1 where one: "upload_one w e (iv_bytes rnd (length acc)) k mid token d store = (r, store1)"
    by (cases "upload_one w e (iv_bytes rnd (length acc)) k mid token d store")
  with Cons.prems obtain up where r: "r = Inr up"
    and rest: "upload_documents w e rnd k mid token ds (acc @ [up]) store1 = (Inr ups, store')"
    by (cases r) auto
  from Cons.IH [OF rest] upload_one_stored(2) [OF one [unfolded r]] show ?case by simp
qed




text \<open>What a successful issuance returns, read off \<open>generateShl\<close>.\<close>

definition issued_payload :: "env \<Rightarrow> config \<Rightarrow> entropy \<Rightarrow> int \<Rightarrow> GenerateShlParams \<Rightarrow> FhirPatient \<Rightarrow> ShlPayload" where
  "issued_payload e cfg rnd now params patient =
     createShlPayload (API_URL cfg @ ''/shl/'' @ generateManifestId (id_bytes rnd) @ ''/manifest'')
       (base64url_encode (getRandomValues (key_bytes rnd) 32))
       (addDays e now (expirationDays params))
       (getPatientDisplayName patient)"

definition issued_result ::
  "env \<Rightarrow> config \<Rightarrow> entropy \<Rightarrow> int \<Rightarrow> GenerateShlParams \<Rightarrow> FhirPatient \<Rightarrow> GenerateShlResult" where
  "issued_result e cfg rnd now params patient =
     \<lparr>result_id = generateManifestId (id_bytes rnd),
      viewerUrl = createViewerUrl cfg (encodeShlPayload (issued_payload e cfg rnd now params patient)),
      shlPayload = ''shlink:/'' @ encodeShlPayload (issued_payload e cfg rnd now params patient),
      result_bundleS3Key = generateS3Key (generateManifestId (id_bytes rnd)) ''bundle'',
      result_documentS3Keys =
        map (\<lambda>d. generateS3Key (generateManifestId (id_bytes rnd)) (''doc-'' @ d)) (documentIds params),
      result_expiresAt = addDays e now (expirationDays params),
      result_patientName = getPatientDisplayName patient\<rparr>"

lemma generateShl_cases:
  assumes "generateShl w e cfg rnd now params store = (r, store')"
  shows "(\<exists>err. getPatient e (fhirBaseUrl params) (params_patientId params) (accessToken params) = Inl err
            \<and> r = Inl err \<and> store' = store)
       \<or> (\<exists>err. upload_documents w e rnd (getRandomValues (key_bytes rnd) 32)
                   (generateManifestId (id_bytes rnd)) (accessToken params) (documentIds params) [] store
                 = (Inl err, store') \<and> r = Inl err)
       \<or> (\<exists>ups err. upload_documents w e rnd (getRandomValues (key_bytes rnd) 32)
                   (generateManifestId (id_bytes rnd)) (accessToken params) (documentIds params) [] store
                 = (Inr ups, store')
             \<and> putObject e (generateS3Key (generateManifestId (id_bytes rnd)) ''bundle'') = Some err
             \<and> r = Inl err)
       \<or> (\<exists>patient ups store1 obj.
             getPatient e (fhirBaseUrl params) (params_patientId params) (accessToken params) = Inr patient
             \<and> upload_documents w e rnd (getRandomValues (key_bytes rnd) 32)
                   (generateManifestId (id_bytes rnd)) (accessToken params) (documentIds params) [] store
                 = (Inr ups, store1)
             \<and> putObject e (generateS3Key (generateManifestId (id_bytes rnd)) ''bundle'') = None
             \<and> store' = store1(generateS3Key (generateManifestId (id_bytes rnd)) ''bundle'' \<mapsto> obj)
             \<and> r = Inr (issued_result e cfg rnd now params patient))"
proof (cases "getPatient e (fhirBaseUrl params) (params_patientId params) (accessToken params)")
  case (Inl err)
  with assms show ?thesis
    by (simp add: generateShl_def generateShlKey_ok Let_def)
next
  case patient: (Inr patient)
  let ?k = "getRandomValues (key_bytes rnd) 32"
  let ?mid = "generateManifestId (id_bytes rnd)"
  obtain r1 store1 where loop: "upload_documents w e rnd ?k ?mid (accessToken params)
      (documentIds params) [] store = (r1, store1)"
    by (cases "upload_documents w e rnd ?k ?mid (accessToken params) (documentIds params) [] store")
  show ?thesis
  proof (cases r1)
    case (Inl err)
    with assms patient loop show ?thesis
      by (simp add: generateShl_def generateShlKey_ok Let_def)
  next
    case ups: (Inr ups)
    note keys = upload_documents_keys [OF loop [unfolded ups]]
    let ?refs = "map (\<lambda>doc. createDocumentReference (metadata doc) (s3Url doc) (params_patientId params)) ups"
    let ?json = "JSON_stringify_bundle e (createFhirBundle e (bundle_uuid rnd) now patient ?refs)"
    let ?jwe = "compact_serialization w (iv_bytes rnd (length ups)) (utf8_encode ?json)
        [(''alg'', ''dir''), (''enc'', ''A256GCM''), (''cty'', ''application/fhir+json'')] ?k"
    have sealed: "encryptString w (iv_bytes rnd (length ups)) ?json ?k ''application/fhir+json'' = Inr ?jwe"
      by (simp add: encryptString_def encryptContent_ok random_key_length)
    from uploadBundle_cases [of e ?mid ?jwe store1] show ?thesis
    proof (elim disjE conjE exE)
      fix err
      assume "putObject e (generateS3Key ?mid ''bundle'') = Some err"
        and "uploadBundle e ?mid ?jwe store1 = (Inl err, store1)"
      with assms patient loop ups sealed show ?thesis
        by (simp add: generateShl_def generateShlKey_ok Let_def)
    next
      let ?obj = "\<lparr>Body = ?jwe, ContentType = S3_CONTENT_TYPE_JWE,
          Metadata = [(''x-shl-type'', ''bundle'')]\<rparr>"
      assume put: "putObject e (generateS3Key ?mid ''bundle'') = None"
        and up: "uploadBundle e ?mid ?jwe store1
          = (Inr (generateS3Key ?mid ''bundle''), store1(generateS3Key ?mid ''bundle'' \<mapsto> ?obj))"
      from assms patient loop ups sealed up keys
      have "r = Inr (issued_result e cfg rnd now params patient)
          \<and> store' = store1(generateS3Key ?mid ''bundle'' \<mapsto> ?obj)"
        by (simp add: generateShl_def generateShlKey_ok Let_def issued_result_def issued_payload_def)
      with patient loop ups put show ?thesis by blast
    qed
  qed
qed


lemma generateShl_success:
  assumes "generateShl w e cfg rnd now params store = (Inr result, store')"
  shows "\<exists>patient. getPatient e (fhirBaseUrl params) (params_patientId params) (accessToken params)
            = Inr patient
          \<and> result = issued_result e cfg rnd now params patient"
  using generateShl_cases [OF assms] by auto


lemma failure_response_code: "status_code failure_response = 500"
  by (simp add: failure_response_def)

text \<open>The answer 201 is given on one path only: the one that inserted the row.\<close>

lemma issue_link_created:
  assumes "status_code (fst (issue_link w e cfg rnd now session b sys)) = 201"
  shows "\<exists>result store.
      generateShl w e cfg rnd now
        \<lparr>params_sessionId = ctx_sessionId session, fhirBaseUrl = ctx_iss session,
         params_patientId = ctx_patientId session, accessToken = ctx_accessToken session,
         documentIds = body_documentIds b, phone = body_phone b, params_email = body_email b,
         expirationDays = validExpiration cfg (body_expirationDays b),
         params_providerId = ctx_providerId session,
         params_providerName = ctx_providerName session\<rparr> (bucket sys) = (Inr result, store)
      \<and> shls (snd (issue_link w e cfg rnd now session b sys))
          = shls sys @ [new_shl_row session b result now]
      \<and> (\<exists>ds. body (fst (issue_link w e cfg rnd now session b sys))
            = GenerateBody \<lparr>response_id = result_id result,
                response_viewerUrl = viewerUrl result,
                response_expiresAt = toISOString e (result_expiresAt result),
                documentCount = length (body_documentIds b),
                deliveryStatus = ds\<rparr>)"
proof -
  let ?params = "\<lparr>params_sessionId = ctx_sessionId session, fhirBaseUrl = ctx_iss session,
      params_patientId = ctx_patientId session, accessToken = ctx_accessToken session,
      documentIds = body_documentIds b, phone = body_phone b, params_email = body_email b,
      expirationDays = validExpiration cfg (body_expirationDays b),
      params_providerId = ctx_providerId session,
      params_providerName = ctx_providerName session\<rparr>"
  obtain outcome store where g: "generateShl w e cfg rnd now ?params (bucket sys) = (outcome, store)"
    by (cases "generateShl w e cfg rnd now ?params (bucket sys)")
  show ?thesis
  proof (cases outcome)
    case (Inl err)
    with g assms show ?thesis by (simp add: issue_link_def Let_def failure_response_def)
  next
    case result: (Inr result)
    show ?thesis
    proof (cases "insert_shl (new_shl_row session b result now) (sys\<lparr>bucket := store\<rparr>)")
      case (Inl err)
      with g result assms show ?thesis by (simp add: issue_link_def Let_def failure_response_def)
    next
      case sys1: (Inr sys1)
      then have r1: "shls sys1 = shls sys @ [new_shl_row session b result now]"
        by (auto simp: insert_shl_def split: if_splits)
      let ?created = "(new_audit_log (log_uuid rnd 0) (result_id result) SHL_CREATED now)
          \<lparr>log_providerId := Some (ctx_providerId session),
           log_providerName := Some (ctx_providerName session),
           details := Some (created_details (length (body_documentIds b))
                              (validExpiration cfg (body_expirationDays b)))\<rparr>"
      show ?thesis
      proof (cases "insert_audit_log ?created sys1")
        case (Inl err)
        with g result sys1 assms show ?thesis
          by (simp add: issue_link_def Let_def failure_response_def)
      next
        case sys2: (Inr sys2)
        then have r2: "shls sys2 = shls sys1" by (auto dest: insert_audit_log_tables)
        obtain ds out where n: "sendDeliveryNotification e (result_patientName result) (body_phone b)
            (body_email b) (viewerUrl result) (result_expiresAt result)
            (length (body_documentIds b)) (outbox sys2) = (ds, out)"
          by (cases "sendDeliveryNotification e (result_patientName result) (body_phone b)
            (body_email b) (viewerUrl result) (result_expiresAt result)
            (length (body_documentIds b)) (outbox sys2)")
        obtain failure sys3 where l: "log_deliveries rnd now b (result_id result) ds
            (sys2\<lparr>outbox := out\<rparr>) = (failure, sys3)"
          by (cases "log_deliveries rnd now b (result_id result) ds (sys2\<lparr>outbox := out\<rparr>)")
        then have r3: "shls sys3 = shls sys @ [new_shl_row session b result now]"
          using log_deliveries_rows_eq [OF l] r2 r1 by simp
        show ?thesis
        proof (cases failure)
          case (Some err)
          with g result sys1 sys2 n l assms show ?thesis
            by (simp add: issue_link_def Let_def failure_response_def)
        next
          case None
          with g result sys1 sys2 n l r3
          have "shls (snd (issue_link w e cfg rnd now session b sys))
                = shls sys @ [new_shl_row session b result now]
              \<and> body (fst (issue_link w e cfg rnd now session b sys))
                = GenerateBody \<lparr>response_id = result_id result,
                    response_viewerUrl = viewerUrl result,
                    response_expiresAt = toISOString e (result_expiresAt result),
                    documentCount = length (body_documentIds b),
                    deliveryStatus = ds\<rparr>"
            by (simp add: issue_link_def Let_def)
          with g result show ?thesis by blast
        qed
      qed
    qed
  qed
qed

lemma handleGenerateShl_without_body:
  "requireSession w cfg now cookie sys = Inr session \<Longrightarrow>
   handleGenerateShl w e cfg rnd now cookie None sys
     = (\<lparr>status_code = 500, body = InternalServerError (body_undefined ''documentIds'')\<rparr>, sys)"
  by (simp add: handleGenerateShl_def)

lemma handleGenerateShl_created:
  assumes "status_code (fst (handleGenerateShl w e cfg rnd now cookie (Some b) sys)) = 201"
  shows "\<exists>session. requireSession w cfg now cookie sys = Inr session
      \<and> body_documentIds b \<noteq> [] \<and> (truthy (body_phone b) \<or> truthy (body_email b))
      \<and> handleGenerateShl w e cfg rnd now cookie (Some b) sys = issue_link w e cfg rnd now session b sys"
proof (cases "requireSession w cfg now cookie sys")
  case (Inl reply)
  have "reply = \<lparr>status_code = 401, body = ErrorBody ''Not authenticated''\<rparr>
      \<or> reply = \<lparr>status_code = 401, body = ErrorBody ''Session not found''\<rparr>
      \<or> reply = \<lparr>status_code = 401, body = ErrorBody ''Session expired''\<rparr>
      \<or> (\<exists>err. reply = \<lparr>status_code = 500, body = InternalServerError err\<rparr>)"
    using Inl by (auto simp: requireSession_def split: if_splits option.splits sum.splits)
  then have "status_code reply \<noteq> 201" by auto
  with assms Inl show ?thesis by (simp add: handleGenerateShl_def)
next
  case (Inr session)
  with assms show ?thesis
    by (auto simp: handleGenerateShl_def split: if_splits)
qed

text \<open>The row an issuance answered 201 has written.\<close>

lemma issued_row:
  assumes created: "status_code (fst (handleGenerateShl w e cfg rnd now cookie (Some b) sys)) = 201"
  shows "\<exists>row. shls (snd (handleGenerateShl w e cfg rnd now cookie (Some b) sys)) = shls sys @ [row]
           \<and> shl_id row = generateManifestId (id_bytes rnd)
           \<and> status row = active
           \<and> expiresAt row
               = timestamp_column (addDays e now (validExpiration cfg (body_expirationDays b)))"
proof -
  from handleGenerateShl_created [OF created] obtain session where
    run: "handleGenerateShl w e cfg rnd now cookie (Some b) sys = issue_link w e cfg rnd now session b sys"
    by blast
  let ?params = "\<lparr>params_sessionId = ctx_sessionId session, fhirBaseUrl = ctx_iss session,
      params_patientId = ctx_patientId session, accessToken = ctx_accessToken session,
      documentIds = body_documentIds b, phone = body_phone b, params_email = body_email b,
      expirationDays = validExpiration cfg (body_expirationDays b),
      params_providerId = ctx_providerId session,
      params_providerName = ctx_providerName session\<rparr>"
  from issue_link_created [OF created [unfolded run]] obtain result store where
    g: "generateShl w e cfg rnd now ?params (bucket sys) = (Inr result, store)"
    and rows: "shls (snd (issue_link w e cfg rnd now session b sys))
        = shls sys @ [new_shl_row session b result now]"
    by blast
  from generateShl_success [OF g] obtain patient where
    result: "result = issued_result e cfg rnd now ?params patient"
    by blast
  have "shl_id (new_shl_row session b result now) = generateManifestId (id_bytes rnd)
      \<and> status (new_shl_row session b result now) = active
      \<and> expiresAt (new_shl_row session b result now)
          = timestamp_column (addDays e now (validExpiration cfg (body_expirationDays b)))"
    by (simp add: new_shl_row_def result issued_result_def)
  with rows run
  show ?thesis
    by auto
qed

text \<open>
  Claim C6 (validation of an issuance request), as the code has it.  A request whose body
  has no document id, or neither phone nor email, is answered 400 and nothing is committed.
  The window used for the link is the requested number of days clamped into
  \<open>[1, SHL_EXPIRATION_DAYS_MAX]\<close> when the request names a number other than 0, and the
  configured default clamped the same way when it names 0: a nonzero request at or below
  1 gives exactly 1 day.  The row of an issued link expires that many days after issuance.
\<close>

theorem issuance_validation:
  "(requireSession w cfg now cookie sys = Inr session \<and> body_documentIds b = [] \<longrightarrow>
      handleGenerateShl w e cfg rnd now cookie (Some b) sys
        = (\<lparr>status_code = 400, body = ErrorBody ''At least one document must be selected''\<rparr>, sys))
   \<and> (requireSession w cfg now cookie sys = Inr session \<and> body_documentIds b \<noteq> []
        \<and> \<not> truthy (body_phone b) \<and> \<not> truthy (body_email b) \<longrightarrow>
      handleGenerateShl w e cfg rnd now cookie (Some b) sys
        = (\<lparr>status_code = 400,
            body = ErrorBody ''At least one contact method (phone or email) is required''\<rparr>, sys))
   \<and> (body_expirationDays b \<noteq> 0 \<longrightarrow>
        validExpiration cfg (body_expirationDays b)
          = min (max 1 (body_expirationDays b)) (SHL_EXPIRATION_DAYS_MAX cfg))
   \<and> (body_expirationDays b = 0 \<longrightarrow>
        validExpiration cfg (body_expirationDays b)
          = min (max 1 (SHL_EXPIRATION_DAYS_DEFAULT cfg)) (SHL_EXPIRATION_DAYS_MAX cfg))
   \<and> (1 \<le> SHL_EXPIRATION_DAYS_MAX cfg \<longrightarrow>
        1 \<le> validExpiration cfg (body_expirationDays b)
        \<and> validExpiration cfg (body_expirationDays b) \<le> SHL_EXPIRATION_DAYS_MAX cfg)
   \<and> (1 \<le> SHL_EXPIRATION_DAYS_MAX cfg \<and> body_expirationDays b \<noteq> 0 \<and> body_expirationDays b \<le> 1 \<longrightarrow>
        validExpiration cfg (body_expirationDays b) = 1)
   \<and> (status_code (fst (handleGenerateShl w e cfg rnd now cookie (Some b) sys)) = 201 \<longrightarrow>
        (\<exists>row. shls (snd (handleGenerateShl w e cfg rnd now cookie (Some b) sys)) = shls sys @ [row]
           \<and> shl_id row = generateManifestId (id_bytes rnd)
           \<and> status row = active
           \<and> expiresAt row
               = timestamp_column (addDays e now (validExpiration cfg (body_expirationDays b)))))"
proof (intro conjI impI)
  assume "requireSession w cfg now cookie sys = Inr session \<and> body_documentIds b = []"
  then show "handleGenerateShl w e cfg rnd now cookie (Some b) sys
      = (\<lparr>status_code = 400, body = ErrorBody ''At least one document must be selected''\<rparr>, sys)"
    by (simp add: handleGenerateShl_def)
next
  assume "requireSession w cfg now cookie sys = Inr session \<and> body_documentIds b \<noteq> []
        \<and> \<not> truthy (body_phone b) \<and> \<not> truthy (body_email b)"
  then show "handleGenerateShl w e cfg rnd now cookie (Some b) sys
        = (\<lparr>status_code = 400,
            body = ErrorBody ''At least one contact method (phone or email) is required''\<rparr>, sys)"
    by (simp add: handleGenerateShl_def)
next
  assume "body_expirationDays b \<noteq> 0"
  then show "validExpiration cfg (body_expirationDays b)
      = min (max 1 (body_expirationDays b)) (SHL_EXPIRATION_DAYS_MAX cfg)"
    by (simp add: validExpiration_def)
next
  assume "body_expirationDays b = 0"
  then show "validExpiration cfg (body_expirationDays b)
      = min (max 1 (SHL_EXPIRATION_DAYS_DEFAULT cfg)) (SHL_EXPIRATION_DAYS_MAX cfg)"
    by (simp add: validExpiration_def)
next
  assume "1 \<le> SHL_EXPIRATION_DAYS_MAX cfg"
  then show "1 \<le> validExpiration cfg (body_expirationDays b)"
    by (simp add: validExpiration_def)
next
  show "validExpiration cfg (body_expirationDays b) \<le> SHL_EXPIRATION_DAYS_MAX cfg"
    by (simp add: validExpiration_def)
next
  assume "1 \<le> SHL_EXPIRATION_DAYS_MAX cfg \<and> body_expirationDays b \<noteq> 0 \<and> body_expirationDays b \<le> 1"
  then show "validExpiration cfg (body_expirationDays b) = 1"
    by (simp add: validExpiration_def)
next
  assume "status_code (fst (handleGenerateShl w e cfg rnd now cookie (Some b) sys)) = 201"
  then show "\<exists>row. shls (snd (handleGenerateShl w e cfg rnd now cookie (Some b) sys)) = shls sys @ [row]
           \<and> shl_id row = generateManifestId (id_bytes rnd)
           \<and> status row = active
           \<and> expiresAt row
               = timestamp_column (addDays e now (validExpiration cfg (body_expirationDays b)))"
    by (rule issued_row)
qed




lemma generateShl_outcome:
  "fst (generateShl w e cfg rnd now params store) =
     (case getPatient e (fhirBaseUrl params) (params_patientId params) (accessToken params) of
        Inl err \<Rightarrow> Inl err
      | Inr patient \<Rightarrow>
          (case fst (upload_documents w e rnd (getRandomValues (key_bytes rnd) 32)
                       (generateManifestId (id_bytes rnd)) (accessToken params)
                       (documentIds params) [] store) of
             Inl err \<Rightarrow> Inl err
           | Inr ups \<Rightarrow>
               (case putObject e (generateS3Key (generateManifestId (id_bytes rnd)) ''bundle'') of
                  Some err \<Rightarrow> Inl err
                | None \<Rightarrow> Inr (issued_result e cfg rnd now params patient))))"
proof (cases "getPatient e (fhirBaseUrl params) (params_patientId params) (accessToken params)")
  case (Inl err)
  then show ?thesis
    by (simp add: generateShl_def generateShlKey_ok Let_def)
next
  case patient: (Inr patient)
  let ?k = "getRandomValues (key_bytes rnd) 32"
  let ?mid = "generateManifestId (id_bytes rnd)"
  obtain r1 store1 where loop: "upload_documents w e rnd ?k ?mid (accessToken params)
      (documentIds params) [] store = (r1, store1)"
    by (cases "upload_documents w e rnd ?k ?mid (accessToken params) (documentIds params) [] store")
  show ?thesis
  proof (cases r1)
    case (Inl err)
    with patient loop show ?thesis
      by (simp add: generateShl_def generateShlKey_ok Let_def)
  next
    case ups: (Inr ups)
    note keys = upload_documents_keys [OF loop [unfolded ups]]
    let ?refs = "map (\<lambda>doc. createDocumentReference (metadata doc) (s3Url doc) (params_patientId params)) ups"
    let ?json = "JSON_stringify_bundle e (createFhirBundle e (bundle_uuid rnd) now patient ?refs)"
    let ?jwe = "compact_serialization w (iv_bytes rnd (length ups)) (utf8_encode ?json)
        [(''alg'', ''dir''), (''enc'', ''A256GCM''), (''cty'', ''application/fhir+json'')] ?k"
    have sealed: "encryptString w (iv_bytes rnd (length ups)) ?json ?k ''application/fhir+json'' = Inr ?jwe"
      by (simp add: encryptString_def encryptContent_ok random_key_length)
    from uploadBundle_cases [of e ?mid ?jwe store1] show ?thesis
    proof (elim disjE conjE exE)
      fix err
      assume "putObject e (generateS3Key ?mid ''bundle'') = Some err"
        and "uploadBundle e ?mid ?jwe store1 = (Inl err, store1)"
      with patient loop ups sealed show ?thesis
        by (simp add: generateShl_def generateShlKey_ok Let_def)
    next
      let ?obj = "\<lparr>Body = ?jwe, ContentType = S3_CONTENT_TYPE_JWE,
          Metadata = [(''x-shl-type'', ''bundle'')]\<rparr>"
      assume put: "putObject e (generateS3Key ?mid ''bundle'') = None"
        and up: "uploadBundle e ?mid ?jwe store1
          = (Inr (generateS3Key ?mid ''bundle''), store1(generateS3Key ?mid ''bundle'' \<mapsto> ?obj))"
      from patient loop ups sealed up keys put show ?thesis
        by (simp add: generateShl_def generateShlKey_ok Let_def issued_result_def issued_payload_def)
    qed
  qed
qed

lemma upload_one_ok:
  assumes "length k = 32"
    and "getDocumentMetadata e d token = Inr m" and "getDocumentContent e d token = Inr cT"
    and "putObject e (generateS3Key mid (''doc-'' @ d)) = None"
    and "getSignedUrl e (generateS3Key mid (''doc-'' @ d)) = Inr u"
  shows "\<exists>up. fst (upload_one w e iv k mid token d store) = Inr up"
  using assms
  by (cases cT) (simp add: upload_one_def encryptContent_ok uploadDocument_def
      uploadEncryptedFile_def generateSignedUrl_def Let_def)

lemma upload_documents_ok:
  assumes "length k = 32"
    and "\<forall>d\<in>set ds. (\<exists>m. getDocumentMetadata e d token = Inr m)
           \<and> (\<exists>cT. getDocumentContent e d token = Inr cT)
           \<and> putObject e (generateS3Key mid (''doc-'' @ d)) = None
           \<and> (\<exists>u. getSignedUrl e (generateS3Key mid (''doc-'' @ d)) = Inr u)"
  shows "\<exists>ups. fst (upload_documents w e rnd k mid token ds acc store) = Inr ups"
  using assms(2)
proof (induction ds arbitrary: acc store)
  case Nil
  show ?case by simp
next
  case (Cons d ds)
  from Cons.prems obtain m cT u where "getDocumentMetadata e d token = Inr m"
    and "getDocumentContent e d token = Inr cT"
    and "putObject e (generateS3Key mid (''doc-'' @ d)) = None"
    and "getSignedUrl e (generateS3Key mid (''doc-'' @ d)) = Inr u"
    by auto
  from upload_one_ok [OF assms(1) this, of w "iv_bytes rnd (length acc)" store]
  obtain up s where one: "upload_one w e (iv_bytes rnd (length acc)) k mid token d store = (Inr up, s)"
    by (cases "upload_one w e (iv_bytes rnd (length acc)) k mid token d store") auto
  from Cons.prems have "\<forall>d\<in>set ds. (\<exists>m. getDocumentMetadata e d token = Inr m)
           \<and> (\<exists>cT. getDocumentContent e d token = Inr cT)
           \<and> putObject e (generateS3Key mid (''doc-'' @ d)) = None
           \<and> (\<exists>u. getSignedUrl e (generateS3Key mid (''doc-'' @ d)) = Inr u)"
    by simp
  from Cons.IH [OF this, of "acc @ [up]" s] show ?case by (simp add: one)
qed

text \<open>With fresh identifiers, an issuance whose artifacts were stored is answered 201.\<close>

lemma issue_link_success:
  assumes g: "fst (generateShl w e cfg rnd now
      \<lparr>params_sessionId = ctx_sessionId session, fhirBaseUrl = ctx_iss session,
       params_patientId = ctx_patientId session, accessToken = ctx_accessToken session,
       documentIds = body_documentIds b, phone = body_phone b, params_email = body_email b,
       expirationDays = validExpiration cfg (body_expirationDays b),
       params_providerId = ctx_providerId session,
       params_providerName = ctx_providerName session\<rparr> (bucket sys)) = Inr result"
    and fresh_id: "result_id result \<notin> shl_id ` set (shls sys)"
    and fresh_logs: "log_uuid rnd 0 \<notin> log_id ` set (auditLogs sys)"
      "log_uuid rnd 1 \<notin> log_id ` set (auditLogs sys)"
      "log_uuid rnd 2 \<notin> log_id ` set (auditLogs sys)"
    and different: "distinct [log_uuid rnd 0, log_uuid rnd 1, log_uuid rnd 2]"
  shows "status_code (fst (issue_link w e cfg rnd now session b sys)) = 201"
proof -
  let ?params = "\<lparr>params_sessionId = ctx_sessionId session, fhirBaseUrl = ctx_iss session,
      params_patientId = ctx_patientId session, accessToken = ctx_accessToken session,
      documentIds = body_documentIds b, phone = body_phone b, params_email = body_email b,
      expirationDays = validExpiration cfg (body_expirationDays b),
      params_providerId = ctx_providerId session,
      params_providerName = ctx_providerName session\<rparr>"
  obtain store where g': "generateShl w e cfg rnd now ?params (bucket sys) = (Inr result, store)"
    using g by (cases "generateShl w e cfg rnd now ?params (bucket sys)") simp
  show ?thesis
    using fresh_id fresh_logs different
    by (auto simp: issue_link_def g' Let_def insert_shl_def insert_audit_log_def log_deliveries_def
        sendDeliveryNotification_def new_audit_log_def new_shl_row_def)
qed

definition demo_body :: "string list \<Rightarrow> string option \<Rightarrow> int \<Rightarrow> GenerateShlBody" where
  "demo_body docs phone' days =
     \<lparr>body_documentIds = docs, body_phone = phone', body_email = None, body_expirationDays = days\<rparr>"

definition demo_params :: "string list \<Rightarrow> string option \<Rightarrow> int \<Rightarrow> GenerateShlParams" where
  "demo_params docs phone' days =
     \<lparr>params_sessionId = ''session-1'', fhirBaseUrl = ''https://fhir.example.org'',
      params_patientId = ''patient-1'', accessToken = ''access-token'',
      documentIds = docs, phone = phone', params_email = None,
      expirationDays = validExpiration demo_config days,
      params_providerId = ''provider-1'', params_providerName = ''Dr. Adams''\<rparr>"

lemma demo_generateShl:
  "fst (generateShl demo_world demo_env demo_config demo_entropy now
          (demo_params docs phone' days) store)
   = Inr (issued_result demo_env demo_config demo_entropy now (demo_params docs phone' days)
            demo_patient)"
proof -
  have "\<exists>ups. fst (upload_documents demo_world demo_env demo_entropy
      (getRandomValues (key_bytes demo_entropy) 32) (generateManifestId (id_bytes demo_entropy))
      ''access-token'' docs [] store) = Inr ups"
    by (rule upload_documents_ok) (simp_all add: random_key_length demo_env_def)
  then show ?thesis
    by (auto simp: generateShl_outcome demo_params_def demo_env_def)
qed

lemma demo_fresh_id:
  "generateManifestId rng \<notin> shl_id ` set (shls demo_system)"
proof
  assume "generateManifestId rng \<in> shl_id ` set (shls demo_system)"
  then have "length (generateManifestId rng) \<in> length ` shl_id ` set (shls demo_system)"
    by (rule imageI)
  then show False
    by (simp add: generateManifestId_length demo_system_def demo_link_def)
qed

lemma demo_issue_link:
  "status_code (fst (issue_link demo_world demo_env demo_config demo_entropy now demo_context
      (demo_body docs phone' days) demo_system)) = 201"
proof (rule issue_link_success)
  show "fst (generateShl demo_world demo_env demo_config demo_entropy now
      \<lparr>params_sessionId = ctx_sessionId demo_context, fhirBaseUrl = ctx_iss demo_context,
       params_patientId = ctx_patientId demo_context, accessToken = ctx_accessToken demo_context,
       documentIds = body_documentIds (demo_body docs phone' days),
       phone = body_phone (demo_body docs phone' days),
       params_email = body_email (demo_body docs phone' days),
       expirationDays = validExpiration demo_config (body_expirationDays (demo_body docs phone' days)),
       params_providerId = ctx_providerId demo_context,
       params_providerName = ctx_providerName demo_context\<rparr> (bucket demo_system))
    = Inr (issued_result demo_env demo_config demo_entropy now (demo_params docs phone' days)
            demo_patient)"
    using demo_generateShl [of now docs phone' days "bucket demo_system"]
    by (simp add: demo_params_def demo_context_def demo_body_def)
  show "result_id (issued_result demo_env demo_config demo_entropy now (demo_params docs phone' days)
      demo_patient) \<notin> shl_id ` set (shls demo_system)"
    by (simp add: issued_result_def demo_fresh_id)
qed (simp_all add: demo_system_def demo_entropy_def)

lemma demo_handleGenerateShl:
  assumes "now \<le> 2000000" and "docs \<noteq> []" and "truthy phone'"
  shows "status_code (fst (handleGenerateShl demo_world demo_env demo_config demo_entropy now
      (Some ''session-1'') (Some (demo_body docs phone' days)) demo_system)) = 201"
  using assms demo_issue_link [of now docs phone' days]
  by (simp add: handleGenerateShl_def demo_requireSession demo_body_def)

theorem issuance_validation_witness:
  "requireSession demo_world demo_config 5000 (Some ''session-1'') demo_system = Inr demo_context
   \<and> handleGenerateShl demo_world demo_env demo_config demo_entropy 5000 (Some ''session-1'')
         (Some (demo_body [] (Some ''+15550100'') 30)) demo_system
       = (\<lparr>status_code = 400, body = ErrorBody ''At least one document must be selected''\<rparr>,
          demo_system)
   \<and> handleGenerateShl demo_world demo_env demo_config demo_entropy 5000 (Some ''session-1'')
         (Some (demo_body [''doc-a''] None 30)) demo_system
       = (\<lparr>status_code = 400,
           body = ErrorBody ''At least one contact method (phone or email) is required''\<rparr>,
          demo_system)
   \<and> validExpiration demo_config 1000 = 365
   \<and> validExpiration demo_config (- 5) = 1
   \<and> validExpiration demo_config 0 = 90
   \<and> status_code (fst (handleGenerateShl demo_world demo_env demo_config demo_entropy 5000
         (Some ''session-1'') (Some (demo_body [''doc-a'', ''doc-b''] (Some ''+15550100'') (- 5)))
         demo_system)) = 201
   \<and> (\<exists>row. shls (snd (handleGenerateShl demo_world demo_env demo_config demo_entropy 5000
            (Some ''session-1'') (Some (demo_body [''doc-a'', ''doc-b''] (Some ''+15550100'') (- 5)))
            demo_system)) = shls demo_system @ [row]
         \<and> status row = active
         \<and> expiresAt row = 86405000)"
proof -
  note t = issuance_validation [where w = demo_world and cfg = demo_config and now = 5000
      and cookie = "Some ''session-1''" and sys = demo_system and session = demo_context
      and e = demo_env and rnd = demo_entropy]
  have s: "requireSession demo_world demo_config 5000 (Some ''session-1'') demo_system
      = Inr demo_context"
    by (rule demo_requireSession) simp
  have created: "status_code (fst (handleGenerateShl demo_world demo_env demo_config demo_entropy
      5000 (Some ''session-1'') (Some (demo_body [''doc-a'', ''doc-b''] (Some ''+15550100'') (- 5)))
      demo_system)) = 201"
    by (rule demo_handleGenerateShl) (simp_all add: truthy_def)
  have 1: "handleGenerateShl demo_world demo_env demo_config demo_entropy 5000 (Some ''session-1'')
         (Some (demo_body [] (Some ''+15550100'') 30)) demo_system
       = (\<lparr>status_code = 400, body = ErrorBody ''At least one document must be selected''\<rparr>,
          demo_system)"
    using t [where b = "demo_body [] (Some ''+15550100'') 30"] s
    by (simp add: demo_body_def)
  have 2: "handleGenerateShl demo_world demo_env demo_config demo_entropy 5000 (Some ''session-1'')
         (Some (demo_body [''doc-a''] None 30)) demo_system
       = (\<lparr>status_code = 400,
           body = ErrorBody ''At least one contact method (phone or email) is required''\<rparr>,
          demo_system)"
    using t [where b = "demo_body [''doc-a''] None 30"] s
    by (simp add: demo_body_def truthy_def)
  have 3: "validExpiration demo_config 1000 = 365"
    using t [where b = "demo_body [''doc-a''] None 1000"]
    by (simp add: demo_body_def demo_config_def)
  have 4: "validExpiration demo_config (- 5) = 1"
    using t [where b = "demo_body [''doc-a''] None (- 5)"]
    by (simp add: demo_body_def demo_config_def)
  have 5: "validExpiration demo_config 0 = 90"
    using t [where b = "demo_body [''doc-a''] None 0"]
    by (simp add: demo_body_def demo_config_def)
  have 6: "\<exists>row. shls (snd (handleGenerateShl demo_world demo_env demo_config demo_entropy 5000
            (Some ''session-1'') (Some (demo_body [''doc-a'', ''doc-b''] (Some ''+15550100'') (- 5)))
            demo_system)) = shls demo_system @ [row]
         \<and> status row = active
         \<and> expiresAt row = 86405000"
    using t [where b = "demo_body [''doc-a'', ''doc-b''] (Some ''+15550100'') (- 5)"] created 4
    by (auto simp: demo_body_def demo_env_def timestamp_column_def)
  show ?thesis
    using s 1 2 3 4 5 6 created by simp
qed

text \<open>A request for 0 days is given the default of 90 days, not 1.\<close>

theorem expiration_zero_counterexample:
  "body_expirationDays (demo_body [''doc-a''] (Some ''+15550100'') 0) \<le> 1
   \<and> validExpiration demo_config (body_expirationDays (demo_body [''doc-a''] (Some ''+15550100'') 0))
       = 90
   \<and> min (max 1 (body_expirationDays (demo_body [''doc-a''] (Some ''+15550100'') 0)))
         (SHL_EXPIRATION_DAYS_MAX demo_config) = 1
   \<and> status_code (fst (handleGenerateShl demo_world demo_env demo_config demo_entropy 5000
         (Some ''session-1'') (Some (demo_body [''doc-a''] (Some ''+15550100'') 0)) demo_system))
       = 201
   \<and> map expiresAt (shls (snd (handleGenerateShl demo_world demo_env demo_config demo_entropy 5000
         (Some ''session-1'') (Some (demo_body [''doc-a''] (Some ''+15550100'') 0)) demo_system)))
       = [9000000, 9000000, 1000, 5000 + 90 * 86400000]
   \<and> (5000 + 90 * 86400000 :: int) \<noteq> 5000 + 1 * 86400000"
proof -
  have created: "status_code (fst (handleGenerateShl demo_world demo_env demo_config demo_entropy
      5000 (Some ''session-1'') (Some (demo_body [''doc-a''] (Some ''+15550100'') 0))
      demo_system)) = 201"
    by (rule demo_handleGenerateShl) (simp_all add: truthy_def)
  have days: "validExpiration demo_config
      (body_expirationDays (demo_body [''doc-a''] (Some ''+15550100'') 0)) = 90"
    by (simp add: validExpiration_def demo_config_def demo_body_def)
  from issued_row [OF created] obtain row where
    rows: "shls (snd (handleGenerateShl demo_world demo_env demo_config demo_entropy 5000
        (Some ''session-1'') (Some (demo_body [''doc-a''] (Some ''+15550100'') 0)) demo_system))
      = shls demo_system @ [row]"
    and expiry: "expiresAt row = timestamp_column (addDays demo_env 5000 (validExpiration demo_config
        (body_expirationDays (demo_body [''doc-a''] (Some ''+15550100'') 0))))"
    by blast
  have "expiresAt row = 5000 + 90 * 86400000"
    unfolding expiry days by (simp add: demo_env_def timestamp_column_def)
  then have "map expiresAt (shls (snd (handleGenerateShl demo_world demo_env demo_config
        demo_entropy 5000 (Some ''session-1'')
        (Some (demo_body [''doc-a''] (Some ''+15550100'') 0)) demo_system)))
      = [9000000, 9000000, 1000, 5000 + 90 * 86400000]"
    unfolding rows by (simp add: demo_system_def demo_link_def)
  with created days show ?thesis
    by (simp add: demo_body_def demo_config_def)
qed

section \<open>A failed issuance\<close>







section \<open>The link handed out\<close>

lemma whole_seconds:
  "(t::int) div 1000 * 1000 \<le> t" "(t::int) < t div 1000 * 1000 + 1000"
proof -
  have "t = t div 1000 * 1000 + t mod 1000" by simp
  moreover have "0 \<le> t mod 1000" "t mod 1000 < 1000" by simp_all
  ultimately show "t div 1000 * 1000 \<le> t" "t < t div 1000 * 1000 + 1000" by linarith+
qed

text \<open>
  Claim C9 (the payload of an issued link).  Whenever an issuance is answered 201, the
  URL in the answer is the viewer's address, \<open>/#\<close>, then \<open>shlink:/\<close> followed by the
  base64url encoding of the UTF-8 JSON text of an object with the four members \<open>url\<close>,
  \<open>key\<close>, \<open>exp\<close> and \<open>label\<close>, in that order: \<open>url\<close> is the manifest endpoint of the
  id of the row just inserted, \<open>key\<close> is the base64url text (43 characters) of the 32
  key bytes, \<open>exp\<close> is the expiry instant in whole seconds, rounded down (the instant
  the row stores), and \<open>label\<close> has at most 80 characters.
\<close>

theorem link_payload_shape:
  assumes "status_code (fst (handleGenerateShl w e cfg rnd now cookie (Some b) sys)) = 201"
  shows "\<exists>session patient row r.
      requireSession w cfg now cookie sys = Inr session
    \<and> getPatient e (ctx_iss session) (ctx_patientId session) (ctx_accessToken session) = Inr patient
    \<and> shls (snd (handleGenerateShl w e cfg rnd now cookie (Some b) sys)) = shls sys @ [row]
    \<and> body (fst (handleGenerateShl w e cfg rnd now cookie (Some b) sys)) = GenerateBody r
    \<and> response_id r = shl_id row
    \<and> (let K = getRandomValues (key_bytes rnd) 32;
            expiry = addDays e now (validExpiration cfg (body_expirationDays b));
            payload = \<lparr>url = API_URL cfg @ ''/shl/'' @ shl_id row @ ''/manifest'',
                       key = base64url_encode K,
                       exp = expiry div 1000,
                       label = take 80 (''Documents for '' @ getPatientDisplayName patient)\<rparr>;
            json = ''{'' @ JSON_stringify_string ''url'' @ '':'' @ JSON_stringify_string (url payload)
                   @ '','' @ JSON_stringify_string ''key'' @ '':'' @ JSON_stringify_string (key payload)
                   @ '','' @ JSON_stringify_string ''exp'' @ '':'' @ Number_toString (exp payload)
                   @ '','' @ JSON_stringify_string ''label'' @ '':''
                   @ JSON_stringify_string (label payload) @ ''}''
        in response_viewerUrl r
             = VIEWER_URL cfg @ ''/#'' @ ''shlink:/'' @ base64url_encode (utf8_encode json)
         \<and> json = JSON_stringify_payload payload
         \<and> length K = 32
         \<and> base64url_decode (key payload) = Some K
         \<and> length (key payload) = 43
         \<and> exp payload * 1000 \<le> expiry \<and> expiry < exp payload * 1000 + 1000
         \<and> exp payload * 1000 = expiresAt row
         \<and> length (label payload) \<le> 80)"
proof -
  from handleGenerateShl_created [OF assms] obtain session where
    session: "requireSession w cfg now cookie sys = Inr session"
    and run: "handleGenerateShl w e cfg rnd now cookie (Some b) sys = issue_link w e cfg rnd now session b sys"
    by blast
  let ?params = "\<lparr>params_sessionId = ctx_sessionId session, fhirBaseUrl = ctx_iss session,
      params_patientId = ctx_patientId session, accessToken = ctx_accessToken session,
      documentIds = body_documentIds b, phone = body_phone b, params_email = body_email b,
      expirationDays = validExpiration cfg (body_expirationDays b),
      params_providerId = ctx_providerId session,
      params_providerName = ctx_providerName session\<rparr>"
  from issue_link_created [OF assms [unfolded run]] obtain result store ds where
    g: "generateShl w e cfg rnd now ?params (bucket sys) = (Inr result, store)"
    and rows: "shls (snd (issue_link w e cfg rnd now session b sys))
        = shls sys @ [new_shl_row session b result now]"
    and answer: "body (fst (issue_link w e cfg rnd now session b sys))
        = GenerateBody \<lparr>response_id = result_id result,
            response_viewerUrl = viewerUrl result,
            response_expiresAt = toISOString e (result_expiresAt result),
            documentCount = length (body_documentIds b),
            deliveryStatus = ds\<rparr>"
    by blast
  from generateShl_success [OF g] obtain patient where
    patient: "getPatient e (ctx_iss session) (ctx_patientId session) (ctx_accessToken session)
        = Inr patient"
    and result: "result = issued_result e cfg rnd now ?params patient"
    by auto
  let ?row = "new_shl_row session b result now"
  let ?r = "\<lparr>response_id = result_id result,
            response_viewerUrl = viewerUrl result,
            response_expiresAt = toISOString e (result_expiresAt result),
            documentCount = length (body_documentIds b),
            deliveryStatus = ds\<rparr>"
  have shape: "let K = getRandomValues (key_bytes rnd) 32;
            expiry = addDays e now (validExpiration cfg (body_expirationDays b));
            payload = \<lparr>url = API_URL cfg @ ''/shl/'' @ shl_id ?row @ ''/manifest'',
                       key = base64url_encode K,
                       exp = expiry div 1000,
                       label = take 80 (''Documents for '' @ getPatientDisplayName patient)\<rparr>;
            json = ''{'' @ JSON_stringify_string ''url'' @ '':'' @ JSON_stringify_string (url payload)
                   @ '','' @ JSON_stringify_string ''key'' @ '':'' @ JSON_stringify_string (key payload)
                   @ '','' @ JSON_stringify_string ''exp'' @ '':'' @ Number_toString (exp payload)
                   @ '','' @ JSON_stringify_string ''label'' @ '':''
                   @ JSON_stringify_string (label payload) @ ''}''
        in response_viewerUrl ?r
             = VIEWER_URL cfg @ ''/#'' @ ''shlink:/'' @ base64url_encode (utf8_encode json)
         \<and> json = JSON_stringify_payload payload
         \<and> length K = 32
         \<and> base64url_decode (key payload) = Some K
         \<and> length (key payload) = 43
         \<and> exp payload * 1000 \<le> expiry \<and> expiry < exp payload * 1000 + 1000
         \<and> exp payload * 1000 = expiresAt ?row
         \<and> length (label payload) \<le> 80"
    unfolding Let_def
    by (simp add: result issued_result_def issued_payload_def createShlPayload_def
        createViewerUrl_def encodeShlPayload_def JSON_stringify_payload_def new_shl_row_def
        timestamp_column_def base64url_roundtrip base64url_length random_key_length
        whole_seconds)
  have "requireSession w cfg now cookie sys = Inr session
    \<and> getPatient e (ctx_iss session) (ctx_patientId session) (ctx_accessToken session) = Inr patient
    \<and> shls (snd (handleGenerateShl w e cfg rnd now cookie (Some b) sys)) = shls sys @ [?row]
    \<and> body (fst (handleGenerateShl w e cfg rnd now cookie (Some b) sys)) = GenerateBody ?r
    \<and> response_id ?r = shl_id ?row"
    using session patient rows answer by (simp add: run new_shl_row_def)
  with shape show ?thesis by blast
qed

theorem link_payload_shape_witness:
  "status_code (fst (handleGenerateShl demo_world demo_env demo_config demo_entropy 5000
      (Some ''session-1'') (Some (demo_body [''doc-a'', ''doc-b''] (Some ''+15550100'') 30)) demo_system))
     = 201
   \<and> (\<exists>row r.
        shls (snd (handleGenerateShl demo_world demo_env demo_config demo_entropy 5000
          (Some ''session-1'') (Some (demo_body [''doc-a'', ''doc-b''] (Some ''+15550100'') 30))
          demo_system)) = shls demo_system @ [row]
      \<and> body (fst (handleGenerateShl demo_world demo_env demo_config demo_entropy 5000
          (Some ''session-1'') (Some (demo_body [''doc-a'', ''doc-b''] (Some ''+15550100'') 30))
          demo_system)) = GenerateBody r
      \<and> response_viewerUrl r
          = ''https://viewer.example.org/#shlink:/''
            @ base64url_encode (utf8_encode (JSON_stringify_payload
                \<lparr>url = ''https://api.example.org/shl/'' @ shl_id row @ ''/manifest'',
                 key = base64url_encode (getRandomValues demo_rng 32),
                 exp = 2592005,
                 label = ''Documents for Ada Lovelace''\<rparr>))
      \<and> expiresAt row = 2592005000)"
proof -
  have created: "status_code (fst (handleGenerateShl demo_world demo_env demo_config demo_entropy
      5000 (Some ''session-1'') (Some (demo_body [''doc-a'', ''doc-b''] (Some ''+15550100'') 30))
      demo_system)) = 201"
    by (rule demo_handleGenerateShl) (simp_all add: truthy_def)
  have s: "requireSession demo_world demo_config 5000 (Some ''session-1'') demo_system
      = Inr demo_context"
    by (rule demo_requireSession) simp
  from link_payload_shape [OF created] obtain session patient row r where
    "requireSession demo_world demo_config 5000 (Some ''session-1'') demo_system = Inr session"
    and "getPatient demo_env (ctx_iss session) (ctx_patientId session) (ctx_accessToken session)
        = Inr patient"
    and rows: "shls (snd (handleGenerateShl demo_world demo_env demo_config demo_entropy 5000
          (Some ''session-1'') (Some (demo_body [''doc-a'', ''doc-b''] (Some ''+15550100'') 30))
          demo_system)) = shls demo_system @ [row]"
    and answer: "body (fst (handleGenerateShl demo_world demo_env demo_config demo_entropy 5000
          (Some ''session-1'') (Some (demo_body [''doc-a'', ''doc-b''] (Some ''+15550100'') 30))
          demo_system)) = GenerateBody r"
    and shape: "let K = getRandomValues (key_bytes demo_entropy) 32;
            expiry = addDays demo_env 5000 (validExpiration demo_config
                       (body_expirationDays (demo_body [''doc-a'', ''doc-b''] (Some ''+15550100'') 30)));
            payload = \<lparr>url = API_URL demo_config @ ''/shl/'' @ shl_id row @ ''/manifest'',
                       key = base64url_encode K,
                       exp = expiry div 1000,
                       label = take 80 (''Documents for '' @ getPatientDisplayName patient)\<rparr>;
            json = ''{'' @ JSON_stringify_string ''url'' @ '':'' @ JSON_stringify_string (url payload)
                   @ '','' @ JSON_stringify_string ''key'' @ '':'' @ JSON_stringify_string (key payload)
                   @ '','' @ JSON_stringify_string ''exp'' @ '':'' @ Number_toString (exp payload)
                   @ '','' @ JSON_stringify_string ''label'' @ '':''
                   @ JSON_stringify_string (label payload) @ ''}''
        in response_viewerUrl r
             = VIEWER_URL demo_config @ ''/#'' @ ''shlink:/'' @ base64url_encode (utf8_encode json)
         \<and> json = JSON_stringify_payload payload
         \<and> length K = 32
         \<and> base64url_decode (key payload) = Some K
         \<and> length (key payload) = 43
         \<and> exp payload * 1000 \<le> expiry \<and> expiry < exp payload * 1000 + 1000
         \<and> exp payload * 1000 = expiresAt row
         \<and> length (label payload) \<le> 80"
    by blast
  then have patient: "patient = demo_patient"
    by (simp add: demo_env_def)
  have days: "addDays demo_env 5000 (validExpiration demo_config
      (body_expirationDays (demo_body [''doc-a'', ''doc-b''] (Some ''+15550100'') 30))) = 2592005000"
    by (simp add: demo_env_def demo_body_def validExpiration_def demo_config_def)
  have name: "take 80 (''Documents for '' @ getPatientDisplayName demo_patient)
      = ''Documents for Ada Lovelace''"
    by (simp add: getPatientDisplayName_def demo_patient_def truthy_def)
  from shape have "response_viewerUrl r
          = ''https://viewer.example.org/#shlink:/''
            @ base64url_encode (utf8_encode (JSON_stringify_payload
                \<lparr>url = ''https://api.example.org/shl/'' @ shl_id row @ ''/manifest'',
                 key = base64url_encode (getRandomValues demo_rng 32),
                 exp = 2592005,
                 label = ''Documents for Ada Lovelace''\<rparr>))
      \<and> expiresAt row = 2592005000"
    unfolding Let_def days patient name
    by (simp add: JSON_stringify_payload_def demo_config_def demo_entropy_def)
  with created rows answer show ?thesis by blast
qed

section \<open>What the registry keeps of an issuance\<close>

text \<open>
  The registry is what the database holds: the links, the audit log and the sessions.
  The bucket holds ciphertext and the outbox the messages sent to the patient.
\<close>

definition registry :: "system \<Rightarrow> shl_row list \<times> audit_log list \<times> session_row list" where
  "registry sys = (shls sys, auditLogs sys, sessions sys)"


lemma registry_eq:
  "registry s = registry s' \<longleftrightarrow>
     shls s = shls s' \<and> auditLogs s = auditLogs s' \<and> sessions s = sessions s'"
  by (simp add: registry_def)

















text \<open>An issuance that succeeds, so that the statement speaks of a row actually written.\<close>

lemma demo_issuance_recorded:
  "length (shls (run demo_world demo_env demo_config
      [GenerateRequest demo_entropy 5000 (Some ''session-1'')
         (Some (demo_body [''doc-a''] (Some ''+15550100'') 30))] demo_system)) = 4"
proof -
  have "status_code (fst (handleGenerateShl demo_world demo_env demo_config demo_entropy 5000
      (Some ''session-1'') (Some (demo_body [''doc-a''] (Some ''+15550100'') 30)) demo_system)) = 201"
    by (rule demo_handleGenerateShl) (simp_all add: truthy_def)
  from handleGenerateShl_created [OF this] obtain session where
    run: "handleGenerateShl demo_world demo_env demo_config demo_entropy 5000 (Some ''session-1'')
        (Some (demo_body [''doc-a''] (Some ''+15550100'') 30)) demo_system
      = issue_link demo_world demo_env demo_config demo_entropy 5000 session
        (demo_body [''doc-a''] (Some ''+15550100'') 30) demo_system"
    and created: "status_code (fst (issue_link demo_world demo_env demo_config demo_entropy 5000
        session (demo_body [''doc-a''] (Some ''+15550100'') 30) demo_system)) = 201"
    using \<open>status_code (fst (handleGenerateShl demo_world demo_env demo_config demo_entropy 5000
      (Some ''session-1'') (Some (demo_body [''doc-a''] (Some ''+15550100'') 30)) demo_system)) = 201\<close>
    by auto
  from issue_link_created [OF created] obtain row where
    "shls (snd (issue_link demo_world demo_env demo_config demo_entropy 5000 session
        (demo_body [''doc-a''] (Some ''+15550100'') 30) demo_system)) = shls demo_system @ [row]"
    by blast
  moreover have "length (shls demo_system) = 3"
    by (simp add: demo_system_def)
  ultimately have "length (shls (snd (issue_link demo_world demo_env demo_config demo_entropy 5000
      session (demo_body [''doc-a''] (Some ''+15550100'') 30) demo_system))) = 4"
    by simp
  then show ?thesis
    by (simp add: run)
qed


section \<open>Two readers at once\<close>

text \<open>
  Two requests for the same active link, from an address that makes \<open>getGeoLocation\<close>
  go to the network, so that each handler is suspended between its \<open>select\<close> and its
  \<open>update\<close>.
\<close>

definition demo_remote_request :: manifest_request where
  "demo_remote_request =
     \<lparr>request_id = ''link-active'', request_body = Some \<lparr>recipient = Some ''Pharmacy''\<rparr>,
      x_forwarded_for = None, x_real_ip = None, user_agent = Some ''curl'',
      request_ip = ''203.0.113.7''\<rparr>"

definition demo_entropies :: "nat \<Rightarrow> entropy" where
  "demo_entropies i =
     demo_entropy\<lparr>log_uuid := (\<lambda>n. if i = 0 then ''7c1e-access-0'' else ''7c1e-access-1'')\<rparr>"

definition demo_clock :: "nat \<Rightarrow> int" where
  "demo_clock i = 5000 + int i"

definition access_events :: "system \<Rightarrow> string \<Rightarrow> nat" where
  "access_events sys i =
     length (filter (\<lambda>l. eventType l = SHL_ACCESSED \<and> shlId l = Some i) (auditLogs sys))"

definition access_count :: "system \<Rightarrow> string \<Rightarrow> int option" where
  "access_count sys i = map_option accessCount (select_shl sys (\<lambda>r. shl_id r = i))"

text \<open>
  Claim C8 (concurrent access accounting), evaluated.  Served one after the other, two
  requests leave two \<open>SHL_ACCESSED\<close> events and a count of 2.  Interleaved at their
  \<open>await\<close>s, both requests read the row while its count is 0 and both write 1: two
  events are recorded, both requests are answered 200, and the count has grown by 1.
\<close>

theorem concurrent_access_lost_update:
  "access_count demo_system ''link-active'' = Some 0
   \<and> access_events demo_system ''link-active'' = 0
   \<and> link_status demo_system ''link-active'' = Some active
   \<and> map (\<lambda>t. case t of Finished r \<Rightarrow> status_code r | _ \<Rightarrow> 0)
        (fst (run_schedule demo_env demo_entropies demo_clock [0, 0, 0, 0, 1, 1, 1, 1]
           [Arrived demo_remote_request, Arrived demo_remote_request] demo_system)) = [200, 200]
   \<and> access_events (snd (run_schedule demo_env demo_entropies demo_clock [0, 0, 0, 0, 1, 1, 1, 1]
        [Arrived demo_remote_request, Arrived demo_remote_request] demo_system)) ''link-active'' = 2
   \<and> access_count (snd (run_schedule demo_env demo_entropies demo_clock [0, 0, 0, 0, 1, 1, 1, 1]
        [Arrived demo_remote_request, Arrived demo_remote_request] demo_system)) ''link-active''
      = Some 2
   \<and> map (\<lambda>t. case t of Finished r \<Rightarrow> status_code r | _ \<Rightarrow> 0)
        (fst (run_schedule demo_env demo_entropies demo_clock [0, 1, 0, 1, 0, 1, 0, 1]
           [Arrived demo_remote_request, Arrived demo_remote_request] demo_system)) = [200, 200]
   \<and> access_events (snd (run_schedule demo_env demo_entropies demo_clock [0, 1, 0, 1, 0, 1, 0, 1]
        [Arrived demo_remote_request, Arrived demo_remote_request] demo_system)) ''link-active'' = 2
   \<and> access_count (snd (run_schedule demo_env demo_entropies demo_clock [0, 1, 0, 1, 0, 1, 0, 1]
        [Arrived demo_remote_request, Arrived demo_remote_request] demo_system)) ''link-active''
      = Some 1"
  by (simp add: access_count_def access_events_def link_status_def select_shl_def
      demo_system_def demo_link_def demo_remote_request_def demo_entropies_def demo_entropy_def
      demo_clock_def demo_env_def accessed_log_def new_audit_log_def insert_audit_log_def
      count_access_def update_shl_def notify_access_def manifest_reply_def getBundleUrl_def
      generateSignedUrl_def getGeoLocation_def getClientIp_def truthy_def startsWith_def
      recipient_or_anonymous_def sendAccessNotification_def timestamp_column_def)

end
